theory Spec2Isabelle
  imports Complex_Main "HOL-Library.Word" "HOL-Library.Signed_Division" "HOL-Library.Monad_Syntax"
    "HOL-Library.Sublist"
begin

section \<open>Basic types\<close>

text \<open>
  The engine's \<open>int32\<close> is a 32-bit two's complement word wherever a value is computed
  with (material IDs, plane indices).  Array positions and element counts are modelled as
  unbounded \<open>int\<close>: the arrays of the engine hold fewer than \<open>2^31\<close> elements, so no
  index computation of the functions below can wrap.
\<close>

type_synonym int32 = "32 word"

text \<open>
  A function that can stop the program returns an \<open>option\<close>: \<open>None\<close> stands for the stop
  (a failed range check of an array access, a failed \<open>check\<close>, a map lookup of an absent
  key, a read of a mesh element that is not in use), \<open>Some\<close> carries the result and the
  updated state.
\<close>

definition array_get :: "'a list \<Rightarrow> int \<Rightarrow> 'a option" where
  "array_get xs i = (if 0 \<le> i \<and> i < int (length xs) then Some (xs ! nat i) else None)"

definition array_set :: "'a list \<Rightarrow> int \<Rightarrow> 'a \<Rightarrow> 'a list option" where
  "array_set xs i v = (if 0 \<le> i \<and> i < int (length xs) then Some (xs[nat i := v]) else None)"

definition check :: "bool \<Rightarrow> unit option" where
  "check b = (if b then Some () else None)"

section \<open>Plane index and material ID (GeometryMeshConversion.h)\<close>

definition PlaneToMaterial :: "int32 \<Rightarrow> int32" where
  "PlaneToMaterial Plane = - (Plane + 1)"

definition MaterialToPlane :: "int32 \<Rightarrow> int32" where
  "MaterialToPlane MaterialID = (if 0 \<le>s MaterialID then - 1 else - (MaterialID + 1))"

section \<open>The geometry collection\<close>

text \<open>
  The collection is a structure of arrays.  Each group (Transform, Geometry, Vertices,
  Faces) has parallel columns of one common length.  Only the columns that the functions
  below read or write are listed.  \<open>'x\<close> is the engine's \<open>FTransform\<close>, \<open>'b\<close> its \<open>FBox\<close>;
  vectors are triples of scalars.  \<open>Proximity\<close> is an optional column of the Geometry
  group (\<open>None\<close>: the attribute has not been added).
\<close>

type_synonym vec3 = "real \<times> real \<times> real"
type_synonym vec2 = "real \<times> real"
type_synonym FIntVector = "int \<times> int \<times> int"

datatype ESimulationTypes = FST_None | FST_Rigid | FST_Clustered

record ('x, 'b) Collection =
  Transform :: "'x list"
  Parent :: "int list"
  Children :: "int set list"
  SimulationType :: "ESimulationTypes list"
  BoneName :: "string list"
  BoneColor :: "vec3 list"
  TransformToGeometryIndex :: "int list"
  TransformIndex :: "int list"
  VertexStart :: "int list"
  VertexCount :: "int list"
  FaceStart :: "int list"
  FaceCount :: "int list"
  BoundingBox :: "'b list"
  Proximity :: "int set list option"
  Vertex :: "vec3 list"
  Normal :: "vec3 list"
  UVs :: "vec2 list list"
  Color :: "vec3 list"
  TangentU :: "vec3 list"
  TangentV :: "vec3 list"
  BoneMap :: "int list"
  Indices :: "FIntVector list"
  Visible :: "bool list"
  MaterialID :: "int32 list"

section \<open>Default internal material (PlanarCut.cpp)\<close>

text \<open>
  The counting loop of \<open>GetDefaultMaterialIDForGeometry\<close> over the face positions
  \<open>is\<close>.  The state is the \<open>TMap\<close> of counts (a key that was never added counts 0, as
  \<open>FindOrAdd\<close> creates it with 0), \<open>MaxCount\<close> and \<open>MostCommonMaterialID\<close>.
\<close>

fun CountMaterialIDs ::
  "int32 list \<Rightarrow> int list \<Rightarrow> (int32 \<Rightarrow> int) \<times> int \<times> int32 \<Rightarrow> ((int32 \<Rightarrow> int) \<times> int \<times> int32) option"
where
  "CountMaterialIDs MatID [] st = Some st"
| "CountMaterialIDs MatID (i # is) (MaterialIDCount, MaxCount, MostCommonMaterialID) =
     do {
       CurrID \<leftarrow> array_get MatID i;
       let CurrCount = MaterialIDCount CurrID + 1;
       let MaterialIDCount' = MaterialIDCount (CurrID := CurrCount);
       if CurrCount > MaxCount
       then CountMaterialIDs MatID is (MaterialIDCount', CurrCount, CurrID)
       else CountMaterialIDs MatID is (MaterialIDCount', MaxCount, MostCommonMaterialID)
     }"

definition FaceRange :: "('x, 'b) Collection \<Rightarrow> int \<Rightarrow> (int \<times> int) option" where
  "FaceRange C GeometryIdx =
     (if GeometryIdx > - 1
      then do {
        fStart \<leftarrow> array_get (FaceStart C) GeometryIdx;
        fCount \<leftarrow> array_get (FaceCount C) GeometryIdx;
        Some (fStart, fCount + fStart)
      }
      else Some (0, int (length (Indices C))))"

definition GetDefaultMaterialIDForGeometry :: "('x, 'b) Collection \<Rightarrow> int \<Rightarrow> int32 option" where
  "GetDefaultMaterialIDForGeometry C GeometryIdx =
     do {
       (fStart, fEnd) \<leftarrow> FaceRange C GeometryIdx;
       (MaterialIDCount, MaxCount, MostCommonMaterialID) \<leftarrow>
         CountMaterialIDs (MaterialID C) [fStart..fEnd - 1] (\<lambda>_. 0, 0, - 1);
       let MostCommon = (if MostCommonMaterialID = - 1 then 0 else MostCommonMaterialID);
       Some (if sint MostCommon smod 2 = 0 then MostCommon + 1 else MostCommon)
     }"

section \<open>Small bones (PlanarCut.cpp)\<close>

definition AddIdx ::
  "('x, 'b) Collection \<Rightarrow> real list \<Rightarrow> real \<Rightarrow> int list \<Rightarrow> int \<Rightarrow> int list option"
where
  "AddIdx C Volumes MinVolume OutSmallBones TransformIdx =
     do {
       GeomIdx \<leftarrow> array_get (TransformToGeometryIndex C) TransformIdx;
       if GeomIdx > - 1
       then do {
         Volume \<leftarrow> array_get Volumes TransformIdx;
         Some (if Volume < MinVolume then OutSmallBones @ [TransformIdx] else OutSmallBones)
       }
       else Some OutSmallBones
     }"

fun AddIdxLoop ::
  "('x, 'b) Collection \<Rightarrow> real list \<Rightarrow> real \<Rightarrow> int list \<Rightarrow> int list \<Rightarrow> int list option"
where
  "AddIdxLoop C Volumes MinVolume [] OutSmallBones = Some OutSmallBones"
| "AddIdxLoop C Volumes MinVolume (TransformIdx # rest) OutSmallBones =
     do {
       Out' \<leftarrow> AddIdx C Volumes MinVolume OutSmallBones TransformIdx;
       AddIdxLoop C Volumes MinVolume rest Out'
     }"

text \<open>
  A failed \<open>ensure\<close> reports and goes on: the function returns with the output list
  empty, as it was reset on entry.
\<close>

definition FindSmallBones ::
  "('x, 'b) Collection \<Rightarrow> int list \<Rightarrow> real list \<Rightarrow> real \<Rightarrow> int list option"
where
  "FindSmallBones C TransformIndices Volumes MinVolume =
     (if length TransformIndices = 0
      then (let NumTransforms = length (TransformToGeometryIndex C)
            in if length Volumes \<noteq> NumTransforms then Some []
               else AddIdxLoop C Volumes MinVolume (map int [0..<NumTransforms]) [])
      else (if length Volumes \<noteq> length TransformIndices then Some []
            else AddIdxLoop C Volumes MinVolume TransformIndices []))"

section \<open>The dynamic mesh\<close>

text \<open>
  \<open>FDynamicMesh3\<close> with the attributes that \<open>Augment\<close> attaches, as the functions below
  see it through its accessors.  Vertex and triangle IDs are positions in the two lists;
  an ID that is not in use holds \<open>None\<close>.  \<open>UVChannels\<close> is the number of attached UV
  attribute layers, counted from layer 0 (\<open>NumEnabledUVChannels\<close>).
\<close>

record VertexInfo =
  Position :: vec3
  VertexNormal :: vec3
  VertexColor :: vec3
  VertexTangentU :: vec3
  VertexTangentV :: vec3
  VertexUVs :: "vec2 list"

record TriangleInfo =
  Triangle :: FIntVector
  TriMaterialID :: int32
  TriVisible :: bool

record Mesh =
  MeshVertices :: "VertexInfo option list"
  MeshTriangles :: "TriangleInfo option list"
  UVChannels :: nat

definition MeshVertexCount :: "Mesh \<Rightarrow> nat" where
  "MeshVertexCount M = length (filter (\<lambda>v. v \<noteq> None) (MeshVertices M))"

definition TriangleCount :: "Mesh \<Rightarrow> nat" where
  "TriangleCount M = length (filter (\<lambda>t. t \<noteq> None) (MeshTriangles M))"

definition MaxVertexID :: "Mesh \<Rightarrow> nat" where
  "MaxVertexID M = length (MeshVertices M)"

definition MaxTriangleID :: "Mesh \<Rightarrow> nat" where
  "MaxTriangleID M = length (MeshTriangles M)"

definition IsCompact :: "Mesh \<Rightarrow> bool" where
  "IsCompact M = (None \<notin> set (MeshVertices M) \<and> None \<notin> set (MeshTriangles M))"

definition NumEnabledUVChannels :: "Mesh \<Rightarrow> nat" where
  "NumEnabledUVChannels M = UVChannels M"

definition GetVertexInfo :: "Mesh \<Rightarrow> nat \<Rightarrow> VertexInfo option" where
  "GetVertexInfo M VID = (if VID < length (MeshVertices M) then MeshVertices M ! VID else None)"

definition GetTriangleInfo :: "Mesh \<Rightarrow> nat \<Rightarrow> TriangleInfo option" where
  "GetTriangleInfo M TID = (if TID < length (MeshTriangles M) then MeshTriangles M ! TID else None)"

section \<open>External operations\<close>

text \<open>
  Operations of the engine that the functions below call and that are defined outside the
  translated files are parameters, collected in one record:
  \<^item> \<open>CompactInPlace\<close> of the mesh (renumbers the elements so that no ID is unused);
  \<^item> \<open>AddCollisionSamplesPerComponent\<close>, whose sample positions come from the engine's
    connected components and spatial hash;
  \<^item> the two inverse maps of \<open>FTransform\<close> and the identity transform;
  \<^item> the conversions to the collection's single precision vectors;
  \<^item> the value that an uninitialised \<open>FVector2f\<close> holds when \<open>GetUV\<close> finds no layer;
  \<^item> \<open>FBox::Init\<close> and \<open>FBox::operator+=\<close>;
  \<^item> \<open>SetNumUVLayers\<close> of the collection;
  \<^item> \<open>FString::FromInt\<close>;
  \<^item> the constant \<open>FMathd::ZeroTolerance\<close>;
  \<^item> \<open>GetBounds(true).MaxDim()\<close> of a mesh, \<open>MeshTransforms::Scale\<close>, and
    \<open>FDynamicMeshEditor::AppendMesh\<close> (the base mesh after the append);
  \<^item> whether the bounds of two meshes intersect, and the mesh that \<open>FMeshBoolean\<close> computes
    from a target mesh and a cell mesh;
  \<^item> the geometric search behind \<open>SplitIslands\<close> (\<open>None\<close>: not split, else the islands),
    which is built on the engine's mesh splitting and spatial sort;
  \<^item> \<open>FindNearestInRadius\<close> of the point hash grid: whether the grid filled with the vertices
    of the first mesh finds, for the query point, a vertex within the radius, the distances
    being measured in the second mesh;
  \<^item> the elements that \<open>AddElements\<close> puts into new rows of the columns.
\<close>

datatype EBooleanOp = Intersect | Difference

record ('x, 'b) Engine =
  CompactInPlace :: "Mesh \<Rightarrow> Mesh"
  AddCollisionSamplesPerComponent :: "Mesh \<Rightarrow> real \<Rightarrow> Mesh"
  InverseTransformPosition :: "'x \<Rightarrow> vec3 \<Rightarrow> vec3"
  InverseTransformVectorNoScale :: "'x \<Rightarrow> vec3 \<Rightarrow> vec3"
  IdentityTransform :: 'x
  FVectorOf :: "vec3 \<Rightarrow> vec3"
  FVector2DOf :: "vec2 \<Rightarrow> vec2"
  UninitializedUV :: vec2
  BoxInit :: 'b
  BoxAdd :: "'b \<Rightarrow> vec3 \<Rightarrow> 'b"
  SetNumUVLayers :: "nat \<Rightarrow> ('x, 'b) Collection \<Rightarrow> ('x, 'b) Collection"
  FromInt :: "int \<Rightarrow> string"
  ZeroTolerance :: real
  BoundsMaxDim :: "Mesh \<Rightarrow> real"
  Scale :: "Mesh \<Rightarrow> vec3 \<Rightarrow> vec3 \<Rightarrow> Mesh"
  AppendMesh :: "Mesh \<Rightarrow> Mesh \<Rightarrow> Mesh"
  BoundsIntersect :: "Mesh \<Rightarrow> Mesh \<Rightarrow> bool"
  BooleanCompute :: "EBooleanOp \<Rightarrow> Mesh \<Rightarrow> Mesh \<Rightarrow> Mesh"
  SplitIslands :: "Mesh \<Rightarrow> Mesh list option"
  FindNearestInRadius :: "Mesh \<Rightarrow> Mesh \<Rightarrow> vec3 \<Rightarrow> bool"
  NewIndex :: int
  NewName :: string
  NewVector :: vec3
  NewSimulationType :: ESimulationTypes
  NewTransform :: 'x
  NewBox :: 'b
  NewUVs :: "vec2 list"
  NewTriangle :: FIntVector
  NewVisible :: bool
  NewMaterialID :: int32

text \<open>
  Modelled from the spec: \<open>AddElements\<close>, the growth operation of the collection, is not
  in the translated files.  The spec has the collection as parallel arrays per group that
  grow in batches, with new entries appended; \<open>AddElements n\<close> appends \<open>n\<close> new rows to
  every column of the group and returns the previous number of rows, which is the index of
  the first new row.
\<close>

datatype Group = TransformGroup | GeometryGroup | VerticesGroup | FacesGroup

definition NumElements :: "('x, 'b) Collection \<Rightarrow> Group \<Rightarrow> nat" where
  "NumElements C G =
     (case G of
        TransformGroup \<Rightarrow> length (TransformToGeometryIndex C)
      | GeometryGroup \<Rightarrow> length (FaceStart C)
      | VerticesGroup \<Rightarrow> length (Vertex C)
      | FacesGroup \<Rightarrow> length (Indices C))"

definition AddElements ::
  "('x, 'b) Engine \<Rightarrow> nat \<Rightarrow> Group \<Rightarrow> ('x, 'b) Collection \<Rightarrow> int \<times> ('x, 'b) Collection"
where
  "AddElements E n G C =
     (int (NumElements C G),
      (case G of
         TransformGroup \<Rightarrow>
           C \<lparr>Transform := Transform C @ replicate n (NewTransform E),
              Parent := Parent C @ replicate n (NewIndex E),
              Children := Children C @ replicate n {},
              SimulationType := SimulationType C @ replicate n (NewSimulationType E),
              BoneName := BoneName C @ replicate n (NewName E),
              BoneColor := BoneColor C @ replicate n (NewVector E),
              TransformToGeometryIndex := TransformToGeometryIndex C @ replicate n (NewIndex E)\<rparr>
       | GeometryGroup \<Rightarrow>
           C \<lparr>TransformIndex := TransformIndex C @ replicate n (NewIndex E),
              VertexStart := VertexStart C @ replicate n (NewIndex E),
              VertexCount := VertexCount C @ replicate n (NewIndex E),
              FaceStart := FaceStart C @ replicate n (NewIndex E),
              FaceCount := FaceCount C @ replicate n (NewIndex E),
              BoundingBox := BoundingBox C @ replicate n (NewBox E),
              Proximity := map_option (\<lambda>P. P @ replicate n {}) (Proximity C)\<rparr>
       | VerticesGroup \<Rightarrow>
           C \<lparr>Vertex := Vertex C @ replicate n (NewVector E),
              Normal := Normal C @ replicate n (NewVector E),
              UVs := UVs C @ replicate n (NewUVs E),
              Color := Color C @ replicate n (NewVector E),
              TangentU := TangentU C @ replicate n (NewVector E),
              TangentV := TangentV C @ replicate n (NewVector E),
              BoneMap := BoneMap C @ replicate n (NewIndex E)\<rparr>
       | FacesGroup \<Rightarrow>
           C \<lparr>Indices := Indices C @ replicate n (NewTriangle E),
              Visible := Visible C @ replicate n (NewVisible E),
              MaterialID := MaterialID C @ replicate n (NewMaterialID E)\<rparr>))"

section \<open>Writing a mesh into the collection (GeometryMeshConversion.cpp)\<close>

text \<open>
  \<open>GetUV\<close>: the value of the layer if the layer is attached, else the output variable
  keeps what it held.
\<close>

definition GetUV :: "('x, 'b) Engine \<Rightarrow> Mesh \<Rightarrow> VertexInfo \<Rightarrow> nat \<Rightarrow> vec2" where
  "GetUV E M v UVLayer =
     (if UVLayer < NumEnabledUVChannels M \<and> UVLayer < length (VertexUVs v)
      then VertexUVs v ! UVLayer else UninitializedUV E)"

text \<open>The loop over the UV layers of one vertex, writing into the vertex's row of UVs.\<close>

fun CopyUVLayers ::
  "('x, 'b) Engine \<Rightarrow> Mesh \<Rightarrow> VertexInfo \<Rightarrow> nat list \<Rightarrow> vec2 list \<Rightarrow> vec2 list option"
where
  "CopyUVLayers E M v [] row = Some row"
| "CopyUVLayers E M v (UVLayer # rest) row =
     do {
       row' \<leftarrow> array_set row (int UVLayer) (FVector2DOf E (GetUV E M v UVLayer));
       CopyUVLayers E M v rest row'
     }"

text \<open>\<open>TArray::SetNum\<close> on a row of UVs.\<close>

definition SetNum :: "('x, 'b) Engine \<Rightarrow> nat \<Rightarrow> vec2 list \<Rightarrow> vec2 list" where
  "SetNum E n row = take n row @ replicate (n - length row) (UninitializedUV E)"

text \<open>
  The body of the vertex loop, which \<open>UpdateCollection\<close> and \<open>AppendToCollection\<close> share;
  \<open>AppendToCollection\<close> alone resizes the row of UVs first (\<open>bSetNum\<close>).
\<close>

definition CopyVertex ::
  "('x, 'b) Engine \<Rightarrow> 'x \<Rightarrow> Mesh \<Rightarrow> nat \<Rightarrow> bool \<Rightarrow> int \<Rightarrow> int \<Rightarrow>
   ('x, 'b) Collection \<Rightarrow> nat \<Rightarrow> ('x, 'b) Collection option"
where
  "CopyVertex E FromCollection M UVLayerCount bSetNum VerticesStart TransformIdx Output VID =
     do {
       v \<leftarrow> GetVertexInfo M VID;
       let CopyToIdx = VerticesStart + int VID;
       Vertex' \<leftarrow> array_set (Vertex Output) CopyToIdx
          (InverseTransformPosition E FromCollection (FVectorOf E (Position v)));
       Normal' \<leftarrow> array_set (Normal Output) CopyToIdx
          (InverseTransformVectorNoScale E FromCollection (FVectorOf E (VertexNormal v)));
       row \<leftarrow> array_get (UVs Output) CopyToIdx;
       row' \<leftarrow> CopyUVLayers E M v [0..<UVLayerCount] (if bSetNum then SetNum E UVLayerCount row else row);
       UVs' \<leftarrow> array_set (UVs Output) CopyToIdx row';
       TangentU' \<leftarrow> array_set (TangentU Output) CopyToIdx
          (InverseTransformVectorNoScale E FromCollection (FVectorOf E (VertexTangentU v)));
       TangentV' \<leftarrow> array_set (TangentV Output) CopyToIdx
          (InverseTransformVectorNoScale E FromCollection (FVectorOf E (VertexTangentV v)));
       Color' \<leftarrow> array_set (Color Output) CopyToIdx (FVectorOf E (VertexColor v));
       BoneMap' \<leftarrow> array_set (BoneMap Output) CopyToIdx TransformIdx;
       Some (Output \<lparr>Vertex := Vertex', Normal := Normal', UVs := UVs', Color := Color',
                      TangentU := TangentU', TangentV := TangentV', BoneMap := BoneMap'\<rparr>)
     }"

fun CopyVertices ::
  "('x, 'b) Engine \<Rightarrow> 'x \<Rightarrow> Mesh \<Rightarrow> nat \<Rightarrow> bool \<Rightarrow> int \<Rightarrow> int \<Rightarrow>
   nat list \<Rightarrow> ('x, 'b) Collection \<Rightarrow> ('x, 'b) Collection option"
where
  "CopyVertices E FromCollection M UVLayerCount bSetNum VerticesStart TransformIdx [] Output = Some Output"
| "CopyVertices E FromCollection M UVLayerCount bSetNum VerticesStart TransformIdx (VID # rest) Output =
     do {
       Output' \<leftarrow> CopyVertex E FromCollection M UVLayerCount bSetNum VerticesStart TransformIdx Output VID;
       CopyVertices E FromCollection M UVLayerCount bSetNum VerticesStart TransformIdx rest Output'
     }"

text \<open>The body of the triangle loop, the same in both functions.\<close>

definition CopyTriangle ::
  "Mesh \<Rightarrow> int32 \<Rightarrow> int \<Rightarrow> int \<Rightarrow> ('x, 'b) Collection \<Rightarrow> nat \<Rightarrow> ('x, 'b) Collection option"
where
  "CopyTriangle M InternalMaterialID FacesStart VerticesStart Output TID =
     do {
       t \<leftarrow> GetTriangleInfo M TID;
       let CopyToIdx = FacesStart + int TID;
       Visible' \<leftarrow> array_set (Visible Output) CopyToIdx (TriVisible t);
       let MatID = TriMaterialID t;
       MaterialID' \<leftarrow> array_set (MaterialID Output) CopyToIdx
          (if MatID <s 0 then InternalMaterialID else MatID);
       Indices' \<leftarrow> array_set (Indices Output) CopyToIdx
          (case Triangle t of (a, b, c) \<Rightarrow> (a + VerticesStart, b + VerticesStart, c + VerticesStart));
       Some (Output \<lparr>Indices := Indices', Visible := Visible', MaterialID := MaterialID'\<rparr>)
     }"

fun CopyTriangles ::
  "Mesh \<Rightarrow> int32 \<Rightarrow> int \<Rightarrow> int \<Rightarrow> nat list \<Rightarrow> ('x, 'b) Collection \<Rightarrow> ('x, 'b) Collection option"
where
  "CopyTriangles M InternalMaterialID FacesStart VerticesStart [] Output = Some Output"
| "CopyTriangles M InternalMaterialID FacesStart VerticesStart (TID # rest) Output =
     do {
       Output' \<leftarrow> CopyTriangle M InternalMaterialID FacesStart VerticesStart Output TID;
       CopyTriangles M InternalMaterialID FacesStart VerticesStart rest Output'
     }"

text \<open>The bounding box loop: \<open>Init\<close>, then \<open>+=\<close> of the vertices at the positions \<open>is\<close>.\<close>

fun BoxOfVertices :: "('x, 'b) Engine \<Rightarrow> vec3 list \<Rightarrow> int list \<Rightarrow> 'b \<Rightarrow> 'b option" where
  "BoxOfVertices E Vs [] Box = Some Box"
| "BoxOfVertices E Vs (Idx # rest) Box =
     do {
       V \<leftarrow> array_get Vs Idx;
       BoxOfVertices E Vs rest (BoxAdd E Box V)
     }"

definition UpdateBoundingBox ::
  "('x, 'b) Engine \<Rightarrow> int \<Rightarrow> int list \<Rightarrow> ('x, 'b) Collection \<Rightarrow> ('x, 'b) Collection option"
where
  "UpdateBoundingBox E GeometryIdx is Output =
     (if length (BoundingBox Output) \<noteq> 0
      then do {
        _ \<leftarrow> array_get (BoundingBox Output) GeometryIdx;
        Box \<leftarrow> BoxOfVertices E (Vertex Output) is (BoxInit E);
        BoundingBox' \<leftarrow> array_set (BoundingBox Output) GeometryIdx Box;
        Some (Output \<lparr>BoundingBox := BoundingBox'\<rparr>)
      }
      else Some Output)"

text \<open>
  \<open>UpdateCollection\<close>.  The mesh is an in-out argument: the result holds the success flag,
  the mesh as the call leaves it, and the collection.  A failed \<open>ensure\<close> reports and
  lets the function return \<open>false\<close>.
\<close>

definition UpdateCollection ::
  "('x, 'b) Engine \<Rightarrow> 'x \<Rightarrow> Mesh \<Rightarrow> int \<Rightarrow> ('x, 'b) Collection \<Rightarrow> int32 \<Rightarrow>
   (bool \<times> Mesh \<times> ('x, 'b) Collection) option"
where
  "UpdateCollection E FromCollection Mesh0 GeometryIdx Output0 InternalMaterialID =
     do {
       let M = (if \<not> IsCompact Mesh0 then CompactInPlace E Mesh0 else Mesh0);
       OldVertexCount \<leftarrow> array_get (VertexCount Output0) GeometryIdx;
       OldTriangleCount \<leftarrow> array_get (FaceCount Output0) GeometryIdx;
       let UVLayerCount = NumEnabledUVChannels M;
       let Output = SetNumUVLayers E UVLayerCount Output0;
       let NewVertexCount = int (MeshVertexCount M);
       let NewTriangleCount = int (TriangleCount M);
       if \<not> (OldVertexCount = NewVertexCount) \<or> \<not> (OldTriangleCount = NewTriangleCount)
       then Some (False, M, Output)
       else do {
         VerticesStart \<leftarrow> array_get (VertexStart Output) GeometryIdx;
         FacesStart \<leftarrow> array_get (FaceStart Output) GeometryIdx;
         TransformIdx \<leftarrow> array_get (TransformIndex Output) GeometryIdx;
         Output \<leftarrow> CopyVertices E FromCollection M UVLayerCount False VerticesStart TransformIdx
                     [0..<MaxVertexID M] Output;
         Output \<leftarrow> CopyTriangles M InternalMaterialID FacesStart VerticesStart
                     [0..<MaxTriangleID M] Output;
         VCount \<leftarrow> (if length (BoundingBox Output) \<noteq> 0
                     then array_get (VertexCount Output) GeometryIdx else Some 0);
         Output \<leftarrow> UpdateBoundingBox E GeometryIdx [VerticesStart..VerticesStart + VCount - 1] Output;
         Some (True, M, Output)
       }
     }"

text \<open>
  \<open>AppendToCollection\<close>.  The result holds the returned geometry index, the mesh as the
  call leaves it, and the collection.
\<close>

definition AppendToCollection ::
  "('x, 'b) Engine \<Rightarrow> 'x \<Rightarrow> Mesh \<Rightarrow> real \<Rightarrow> int \<Rightarrow> string \<Rightarrow> ('x, 'b) Collection \<Rightarrow> int32 \<Rightarrow>
   (int \<times> Mesh \<times> ('x, 'b) Collection) option"
where
  "AppendToCollection E FromCollection Mesh0 CollisionSampleSpacing TransformParent Name Output0
       InternalMaterialID =
     (if TriangleCount Mesh0 = 0 then Some (- 1, Mesh0, Output0)
      else do {
        let Mesh1 = (if \<not> IsCompact Mesh0 then CompactInPlace E Mesh0 else Mesh0);
        let M = (if CollisionSampleSpacing > 0
                 then AddCollisionSamplesPerComponent E Mesh1 CollisionSampleSpacing else Mesh1);
        let OriginalVertexNum = int (length (Vertex Output0));
        let OriginalFaceNum = int (length (Indices Output0));
        let UVLayerCount = (if NumEnabledUVChannels M > 0 then NumEnabledUVChannels M else 1);
        let (GeometryIdx, Output) = AddElements E 1 GeometryGroup Output0;
        let (TransformIdx, Output) = AddElements E 1 TransformGroup Output;
        let NumTriangles = TriangleCount M;
        let NumVertices = MeshVertexCount M;
        _ \<leftarrow> check (NumTriangles > 0);
        _ \<leftarrow> check (IsCompact M);
        FaceCount' \<leftarrow> array_set (FaceCount Output) GeometryIdx (int NumTriangles);
        FaceStart' \<leftarrow> array_set (FaceStart Output) GeometryIdx OriginalFaceNum;
        VertexCount' \<leftarrow> array_set (VertexCount Output) GeometryIdx (int NumVertices);
        VertexStart' \<leftarrow> array_set (VertexStart Output) GeometryIdx OriginalVertexNum;
        TransformIndex' \<leftarrow> array_set (TransformIndex Output) GeometryIdx TransformIdx;
        TransformToGeometryIndex' \<leftarrow> array_set (TransformToGeometryIndex Output) TransformIdx GeometryIdx;
        let Output = Output \<lparr>FaceCount := FaceCount', FaceStart := FaceStart',
                               VertexCount := VertexCount', VertexStart := VertexStart',
                               TransformIndex := TransformIndex',
                               TransformToGeometryIndex := TransformToGeometryIndex'\<rparr>;
        Output \<leftarrow>
          (if TransformParent > - 1
           then do {
             BoneName' \<leftarrow> array_set (BoneName Output) TransformIdx Name;
             ParentColor \<leftarrow> array_get (BoneColor Output) TransformParent;
             BoneColor' \<leftarrow> array_set (BoneColor Output) TransformIdx ParentColor;
             Parent' \<leftarrow> array_set (Parent Output) TransformIdx TransformParent;
             Siblings \<leftarrow> array_get (Children Output) TransformParent;
             Children' \<leftarrow> array_set (Children Output) TransformParent (insert TransformIdx Siblings);
             SimulationType' \<leftarrow> array_set (SimulationType Output) TransformParent FST_Clustered;
             Some (Output \<lparr>BoneName := BoneName', BoneColor := BoneColor', Parent := Parent',
                            Children := Children', SimulationType := SimulationType'\<rparr>)
           }
           else Some Output);
        Transform' \<leftarrow> array_set (Transform Output) TransformIdx (IdentityTransform E);
        SimulationType' \<leftarrow> array_set (SimulationType Output) TransformIdx FST_Rigid;
        let Output = Output \<lparr>Transform := Transform', SimulationType := SimulationType'\<rparr>;
        let (FacesStart, Output) = AddElements E NumTriangles FacesGroup Output;
        let (VerticesStart, Output) = AddElements E NumVertices VerticesGroup Output;
        Output \<leftarrow> CopyVertices E FromCollection M UVLayerCount True VerticesStart TransformIdx
                    [0..<MaxVertexID M] Output;
        Output \<leftarrow> CopyTriangles M InternalMaterialID FacesStart VerticesStart
                    [0..<MaxTriangleID M] Output;
        Output \<leftarrow> UpdateBoundingBox E GeometryIdx
                    [OriginalVertexNum..int (length (Vertex Output)) - 1] Output;
        Some (GeometryIdx, M, Output)
      })"

section \<open>Grout on the cell meshes (GeometryMeshConversion.cpp)\<close>

record FCellMeshes =
  CellMeshes :: "Mesh list"
  OutsideCellIndex :: int
  NumUVLayers :: int

text \<open>
  \<open>Mesh.Clear()\<close> followed by \<open>Augment(Mesh, NumUVLayers)\<close>: no vertex and no triangle,
  and the UV layers \<open>0, ..., NumUVLayers - 1\<close> attached, at most 8 of them.
\<close>

definition ClearedMesh :: "int \<Rightarrow> Mesh" where
  "ClearedMesh NumUVChannels =
     \<lparr>MeshVertices = [], MeshTriangles = [], UVChannels = nat (min NumUVChannels 8)\<rparr>"

text \<open>The sum of the positions of the vertices in use, divided by their number.\<close>

definition AddVec :: "vec3 \<Rightarrow> vec3 \<Rightarrow> vec3" where
  "AddVec a b = (case a of (ax, ay, az) \<Rightarrow> case b of (bx, by, bz) \<Rightarrow> (ax + bx, ay + by, az + bz))"

definition DivVec :: "vec3 \<Rightarrow> real \<Rightarrow> vec3" where
  "DivVec a d = (case a of (ax, ay, az) \<Rightarrow> (ax / d, ay / d, az / d))"

definition VerticesItr :: "Mesh \<Rightarrow> vec3 list" where
  "VerticesItr M = map Position (List.map_filter (\<lambda>v. v) (MeshVertices M))"

definition VertexCentroidOf :: "Mesh \<Rightarrow> vec3" where
  "VertexCentroidOf M = DivVec (foldl AddVec (0, 0, 0) (VerticesItr M)) (real (MeshVertexCount M))"

text \<open>
  The body of the first loop of \<open>ApplyGeneralGrout\<close> for one cell mesh.  The quotient is
  computed in double precision; for \<open>BoundsSize = 0\<close> (and \<open>Grout > 0\<close>) it is minus infinity,
  which is below the threshold, so that case takes the first branch.
\<close>

definition GroutScaleFactor :: "real \<Rightarrow> real \<Rightarrow> real" where
  "GroutScaleFactor BoundsSize Grout = (BoundsSize - Grout * 0.5) / BoundsSize"

definition GroutCell :: "('x, 'b) Engine \<Rightarrow> real \<Rightarrow> int \<Rightarrow> Mesh \<Rightarrow> Mesh" where
  "GroutCell E Grout NumUVLayersIn M =
     (let VertexCentroid = VertexCentroidOf M;
          BoundsSize = BoundsMaxDim E M;
          ScaleFactor = GroutScaleFactor BoundsSize Grout
      in if BoundsSize = 0 \<or> ScaleFactor < ZeroTolerance E * 1000
         then ClearedMesh NumUVLayersIn
         else Scale E M (1 * ScaleFactor, 1 * ScaleFactor, 1 * ScaleFactor) VertexCentroid)"

text \<open>The first loop, over the mesh positions \<open>MeshIdx\<close>.\<close>

fun GroutCells ::
  "('x, 'b) Engine \<Rightarrow> real \<Rightarrow> int \<Rightarrow> int \<Rightarrow> nat list \<Rightarrow> Mesh list \<Rightarrow> Mesh list option"
where
  "GroutCells E Grout NumUVLayersIn Outside [] Meshes = Some Meshes"
| "GroutCells E Grout NumUVLayersIn Outside (MeshIdx # rest) Meshes =
     (if int MeshIdx = Outside then GroutCells E Grout NumUVLayersIn Outside rest Meshes
      else do {
        M \<leftarrow> array_get Meshes (int MeshIdx);
        Meshes' \<leftarrow> array_set Meshes (int MeshIdx) (GroutCell E Grout NumUVLayersIn M);
        GroutCells E Grout NumUVLayersIn Outside rest Meshes'
      })"

text \<open>The second loop, which appends every other cell mesh to the outside mesh.\<close>

fun AppendCells ::
  "('x, 'b) Engine \<Rightarrow> int \<Rightarrow> nat list \<Rightarrow> Mesh list \<Rightarrow> Mesh \<Rightarrow> Mesh option"
where
  "AppendCells E Outside [] Meshes OutsideMesh = Some OutsideMesh"
| "AppendCells E Outside (MeshIdx # rest) Meshes OutsideMesh =
     (if int MeshIdx = Outside then AppendCells E Outside rest Meshes OutsideMesh
      else do {
        M \<leftarrow> array_get Meshes (int MeshIdx);
        AppendCells E Outside rest Meshes (AppendMesh E OutsideMesh M)
      })"

definition ApplyGeneralGrout :: "('x, 'b) Engine \<Rightarrow> real \<Rightarrow> FCellMeshes \<Rightarrow> FCellMeshes option" where
  "ApplyGeneralGrout E Grout Cells =
     (if Grout \<le> 0 then Some Cells
      else do {
        Meshes \<leftarrow> GroutCells E Grout (NumUVLayers Cells) (OutsideCellIndex Cells)
                    [0..<length (CellMeshes Cells)] (CellMeshes Cells);
        if OutsideCellIndex Cells \<noteq> - 1
        then do {
          _ \<leftarrow> array_get Meshes (OutsideCellIndex Cells);
          OutsideMesh \<leftarrow> AppendCells E (OutsideCellIndex Cells) [0..<length Meshes] Meshes
                           (ClearedMesh (NumUVLayers Cells));
          Meshes' \<leftarrow> array_set Meshes (OutsideCellIndex Cells) OutsideMesh;
          Some (Cells \<lparr>CellMeshes := Meshes'\<rparr>)
        }
        else Some (Cells \<lparr>CellMeshes := Meshes\<rparr>)
      })"

section \<open>Cutting with cell meshes (GeometryMeshConversion.cpp)\<close>

text \<open>
  \<open>FMeshData\<close>: a mesh, the transform it came from, and the transform that took it from
  the collection to the cutting space.  The cached bounds are left out: they are a cache
  of \<open>GetBounds\<close> of the mesh.
\<close>

record 'x FMeshData =
  AugMesh :: Mesh
  MeshTransformIndex :: int
  FromCollection :: 'x

text \<open>
  \<open>TMultiMap\<close> as the list of its pairs in the order in which they were added, and \<open>TMap\<close>
  as an association list.  \<open>MultiFind\<close> is called without \<open>bMaintainOrder\<close> everywhere
  below, and then delivers the values of a key newest first.  \<open>TMap::operator[]\<close> stops the
  program on an absent key.
\<close>

definition MultiFind :: "('k \<times> 'v) list \<Rightarrow> 'k \<Rightarrow> 'v list" where
  "MultiFind L k = rev (map snd (filter (\<lambda>p. fst p = k) L))"

definition MapAdd :: "('k \<times> 'v) list \<Rightarrow> 'k \<Rightarrow> 'v \<Rightarrow> ('k \<times> 'v) list" where
  "MapAdd m k v = (k, v) # filter (\<lambda>p. fst p \<noteq> k) m"

definition MapAt :: "('k \<times> 'v) list \<Rightarrow> 'k \<Rightarrow> 'v option" where
  "MapAt m k = map_of m k"

text \<open>\<open>Proximity[A].Add(B)\<close>, and a link written in both directions.\<close>

definition ProximityAdd :: "int set list \<Rightarrow> int \<Rightarrow> int \<Rightarrow> int set list option" where
  "ProximityAdd P A B = do { S \<leftarrow> array_get P A; array_set P A (insert B S) }"

definition ProximityAddBoth :: "int set list \<Rightarrow> int \<Rightarrow> int \<Rightarrow> int set list option" where
  "ProximityAddBoth P A B = do { P' \<leftarrow> ProximityAdd P A B; ProximityAdd P' B A }"

definition GetBoneName :: "('x, 'b) Engine \<Rightarrow> ('x, 'b) Collection \<Rightarrow> int \<Rightarrow> int \<Rightarrow> string option" where
  "GetBoneName E Output TransformParent SubPartIdx =
     do { Name \<leftarrow> array_get (BoneName Output) TransformParent;
          Some (Name @ ''_'' @ FromInt E SubPartIdx) }"

definition SetVisibleRange :: "bool list \<Rightarrow> int list \<Rightarrow> bool \<Rightarrow> bool list option" where
  "SetVisibleRange Vis is bVisible =
     fold (\<lambda>FaceIdx r. do { V \<leftarrow> r; array_set V FaceIdx bVisible }) is (Some Vis)"

fun SetGeometryVisibility ::
  "('x, 'b) Collection \<Rightarrow> int list \<Rightarrow> bool \<Rightarrow> ('x, 'b) Collection option"
where
  "SetGeometryVisibility C [] bVisible = Some C"
| "SetGeometryVisibility C (GeoIdx # rest) bVisible =
     do {
       fStart \<leftarrow> array_get (FaceStart C) GeoIdx;
       fCount \<leftarrow> array_get (FaceCount C) GeoIdx;
       Vis \<leftarrow> SetVisibleRange (Visible C) [fStart..fStart + fCount - 1] bVisible;
       SetGeometryVisibility (C \<lparr>Visible := Vis\<rparr>) rest bVisible
     }"

text \<open>
  The boolean results of one target mesh, one per cell: none where the bounds of the cell
  and of the target do not intersect, else the mesh that the boolean operation leaves
  (difference for the outside cell, intersection for the others).  The cells are
  computed independently of each other.
\<close>

definition BooleanResultsOf :: "('x, 'b) Engine \<Rightarrow> FCellMeshes \<Rightarrow> Mesh \<Rightarrow> Mesh option list" where
  "BooleanResultsOf E Cells Surface =
     map (\<lambda>CellIdx.
            let Cell = CellMeshes Cells ! CellIdx in
            if BoundsIntersect E Cell Surface
            then Some (BooleanCompute E
                         (if int CellIdx = OutsideCellIndex Cells then Difference else Intersect)
                         Surface Cell)
            else None)
       [0..<length (CellMeshes Cells)]"

definition IsNonEmpty :: "Mesh option \<Rightarrow> bool" where
  "IsNonEmpty R = (case R of None \<Rightarrow> False | Some M \<Rightarrow> TriangleCount M > 0)"

definition NonEmptyResults :: "Mesh option list \<Rightarrow> nat" where
  "NonEmptyResults Rs = length (filter IsNonEmpty Rs)"

text \<open>The state of the loop over the cells of one target mesh.\<close>

record ('x, 'b) CellLoop =
  Coll :: "('x, 'b) Collection"
  BooleanResults :: "Mesh option list"
  PlanesInOutput :: "int32 list"
  CellToGeometry :: "(int \<times> int) list"
  GeometryToResultMesh :: "(int \<times> int) list"
  SubPartIndex :: int
  FirstIdx :: int

text \<open>The planes of the triangles of a result mesh, added to the set of planes.\<close>

definition AddPlanes :: "Mesh \<Rightarrow> int32 list \<Rightarrow> int32 list" where
  "AddPlanes M Planes =
     fold (\<lambda>T Ps. let PlaneIdx = MaterialToPlane (TriMaterialID T)
                  in if 0 \<le>s PlaneIdx \<and> PlaneIdx \<notin> set Ps then Ps @ [PlaneIdx] else Ps)
       (List.map_filter (\<lambda>t. t) (MeshTriangles M)) Planes"

text \<open>
  One island (or the unsplit result) is named, appended to the collection and recorded.
  \<open>i\<close> is the position of the island; the unsplit result is recorded like island 0: it
  is the mesh at \<open>BooleanResults[CellIdx]\<close> itself that \<open>AppendToCollection\<close> works on.
  The mesh stored is the mesh as \<open>AppendToCollection\<close> left it.
\<close>

definition AppendResult ::
  "('x, 'b) Engine \<Rightarrow> 'x FMeshData \<Rightarrow> real \<Rightarrow> int32 \<Rightarrow> nat \<Rightarrow>
   ('x, 'b) CellLoop \<Rightarrow> nat \<times> Mesh \<Rightarrow> ('x, 'b) CellLoop option"
where
  "AppendResult E Surface CollisionSampleSpacing InternalMaterialID CellIdx St iIsland =
     (case iIsland of (i, Island) \<Rightarrow>
      do {
        Name \<leftarrow> GetBoneName E (Coll St) (MeshTransformIndex Surface) (SubPartIndex St);
        (CreatedGeometryIdx, Island', C') \<leftarrow>
          AppendToCollection E (FromCollection Surface) Island CollisionSampleSpacing
            (MeshTransformIndex Surface) Name (Coll St) InternalMaterialID;
        Results' \<leftarrow>
          (if i > 0 then Some (BooleanResults St @ [Some Island'])
           else array_set (BooleanResults St) (int CellIdx) (Some Island'));
        let MeshIdx = (if i > 0 then int (length (BooleanResults St)) else int CellIdx);
        Some (St \<lparr>Coll := C',
                  BooleanResults := Results',
                  CellToGeometry := CellToGeometry St @ [(int CellIdx, CreatedGeometryIdx)],
                  GeometryToResultMesh := MapAdd (GeometryToResultMesh St) CreatedGeometryIdx MeshIdx,
                  SubPartIndex := SubPartIndex St + 1,
                  FirstIdx := (if FirstIdx St = - 1 then CreatedGeometryIdx else FirstIdx St)\<rparr>)
      })"

fun AppendIslands ::
  "('x, 'b) Engine \<Rightarrow> 'x FMeshData \<Rightarrow> real \<Rightarrow> int32 \<Rightarrow> nat \<Rightarrow>
   (nat \<times> Mesh) list \<Rightarrow> ('x, 'b) CellLoop \<Rightarrow> ('x, 'b) CellLoop option"
where
  "AppendIslands E Surface Spacing InternalMaterialID CellIdx [] St = Some St"
| "AppendIslands E Surface Spacing InternalMaterialID CellIdx (iIsland # rest) St =
     do {
       St' \<leftarrow> AppendResult E Surface Spacing InternalMaterialID CellIdx St iIsland;
       AppendIslands E Surface Spacing InternalMaterialID CellIdx rest St'
     }"

text \<open>The body of the loop over the cells.\<close>

definition CutCell ::
  "('x, 'b) Engine \<Rightarrow> 'x FMeshData \<Rightarrow> real \<Rightarrow> int32 \<Rightarrow> ('x, 'b) CellLoop \<Rightarrow> nat \<Rightarrow>
   ('x, 'b) CellLoop option"
where
  "CutCell E Surface Spacing InternalMaterialID St CellIdx =
     do {
       R \<leftarrow> array_get (BooleanResults St) (int CellIdx);
       if IsNonEmpty R
       then (case R of
               None \<Rightarrow> Some St
             | Some AugBoolResult \<Rightarrow>
                 (let St1 = St \<lparr>PlanesInOutput := AddPlanes AugBoolResult (PlanesInOutput St)\<rparr>
                  in case SplitIslands E AugBoolResult of
                       Some Islands \<Rightarrow>
                         AppendIslands E Surface Spacing InternalMaterialID CellIdx
                           (zip [0..<length Islands] Islands) St1
                     | None \<Rightarrow>
                         AppendResult E Surface Spacing InternalMaterialID CellIdx St1
                           (0, AugBoolResult)))
       else Some St
     }"

fun CutCellsLoop ::
  "('x, 'b) Engine \<Rightarrow> 'x FMeshData \<Rightarrow> real \<Rightarrow> int32 \<Rightarrow> nat list \<Rightarrow> ('x, 'b) CellLoop \<Rightarrow>
   ('x, 'b) CellLoop option"
where
  "CutCellsLoop E Surface Spacing InternalMaterialID [] St = Some St"
| "CutCellsLoop E Surface Spacing InternalMaterialID (CellIdx # rest) St =
     do {
       St' \<leftarrow> CutCell E Surface Spacing InternalMaterialID St CellIdx;
       CutCellsLoop E Surface Spacing InternalMaterialID rest St'
     }"

text \<open>
  \<open>IsNeighboring\<close>.  The hash of a mesh holds the vertices of that mesh, and the bounds are
  those of the mesh.
\<close>

definition IsNeighboring :: "('x, 'b) Engine \<Rightarrow> Mesh \<Rightarrow> Mesh \<Rightarrow> bool" where
  "IsNeighboring E MeshA MeshB =
     (if \<not> BoundsIntersect E MeshA MeshB then False
      else let (A, B) = (if MeshVertexCount MeshA > MeshVertexCount MeshB
                         then (MeshB, MeshA) else (MeshA, MeshB))
           in list_ex (FindNearestInRadius E B B) (VerticesItr A))"

text \<open>
  The proximity of the new geometries across one plane.  \<open>MeshOf\<close> is the mesh of a new
  geometry: \<open>GeometryToResultMesh[GID]\<close>, then the mesh at that position of the results,
  which \<open>MakeHash\<close> dereferences.
\<close>

definition MeshOf :: "('x, 'b) CellLoop \<Rightarrow> int \<Rightarrow> Mesh option" where
  "MeshOf St GID =
     do { MeshIdx \<leftarrow> MapAt (GeometryToResultMesh St) GID;
          R \<leftarrow> array_get (BooleanResults St) MeshIdx;
          R }"

fun LinkNeighbors ::
  "('x, 'b) Engine \<Rightarrow> ('x, 'b) CellLoop \<Rightarrow> int \<Rightarrow> Mesh \<Rightarrow> int list \<Rightarrow> int set list \<Rightarrow> int set list option"
where
  "LinkNeighbors E St GIDA MeshA [] P = Some P"
| "LinkNeighbors E St GIDA MeshA (GIDB # rest) P =
     do {
       MeshB \<leftarrow> MeshOf St GIDB;
       P' \<leftarrow> (if IsNeighboring E MeshA MeshB then ProximityAddBoth P GIDA GIDB else Some P);
       LinkNeighbors E St GIDA MeshA rest P'
     }"

fun LinkAllPairs ::
  "('x, 'b) Engine \<Rightarrow> ('x, 'b) CellLoop \<Rightarrow> int list \<Rightarrow> int list \<Rightarrow> int set list \<Rightarrow> int set list option"
where
  "LinkAllPairs E St [] GeomB P = Some P"
| "LinkAllPairs E St (GIDA # rest) GeomB P =
     do {
       MeshA \<leftarrow> MeshOf St GIDA;
       P' \<leftarrow> LinkNeighbors E St GIDA MeshA GeomB P;
       LinkAllPairs E St rest GeomB P'
     }"

definition LinkAcrossPlane ::
  "('x, 'b) Engine \<Rightarrow> (int \<times> int) list \<Rightarrow> FCellMeshes \<Rightarrow> ('x, 'b) CellLoop \<Rightarrow>
   int set list \<Rightarrow> int32 \<Rightarrow> int set list option"
where
  "LinkAcrossPlane E CellConnectivity Cells St P PlaneIdx =
     do {
       (Key, Value) \<leftarrow> array_get CellConnectivity (sint PlaneIdx);
       let SecondCell = (if Value < 0 then OutsideCellIndex Cells else Value);
       if SecondCell \<noteq> - 1
       then (let GeomA = MultiFind (CellToGeometry St) Key;
                 GeomB = MultiFind (CellToGeometry St) SecondCell
             in if length GeomA = 1 \<and> length GeomB = 1
                then ProximityAddBoth P (GeomA ! 0) (GeomB ! 0)
                else if length GeomA \<ge> 1 \<and> length GeomB \<ge> 1
                then LinkAllPairs E St GeomA GeomB P
                else Some P)
       else Some P
     }"

fun LinkPlanes ::
  "('x, 'b) Engine \<Rightarrow> (int \<times> int) list \<Rightarrow> FCellMeshes \<Rightarrow> ('x, 'b) CellLoop \<Rightarrow>
   int32 list \<Rightarrow> int set list \<Rightarrow> int set list option"
where
  "LinkPlanes E CellConnectivity Cells St [] P = Some P"
| "LinkPlanes E CellConnectivity Cells St (PlaneIdx # rest) P =
     do {
       P' \<leftarrow> LinkAcrossPlane E CellConnectivity Cells St P PlaneIdx;
       LinkPlanes E CellConnectivity Cells St rest P'
     }"

text \<open>
  The body of the loop over the target meshes.  The state is the collection, \<open>FirstIdx\<close>
  and \<open>GeometryForRemoval\<close>.  \<open>InternalMaterial\<close> is \<open>None\<close> for
  \<open>bSetDefaultInternalMaterialsFromCollection\<close>, else the global material ID.
\<close>

definition CutSurface ::
  "('x, 'b) Engine \<Rightarrow> int32 option \<Rightarrow> (int \<times> int) list \<Rightarrow> FCellMeshes \<Rightarrow> real \<Rightarrow> bool \<Rightarrow>
   ('x, 'b) Collection \<times> int \<times> int list \<Rightarrow> 'x FMeshData \<Rightarrow>
   (('x, 'b) Collection \<times> int \<times> int list) option"
where
  "CutSurface E InternalMaterial CellConnectivity Cells Spacing bHasProximity S Surface =
     (case S of (C, First, GeometryForRemoval) \<Rightarrow>
      do {
        GeometryIdx \<leftarrow> array_get (TransformToGeometryIndex C) (MeshTransformIndex Surface);
        let Results = BooleanResultsOf E Cells (AugMesh Surface);
        if NonEmptyResults Results > 1
        then do {
          InternalMaterialID \<leftarrow>
            (case InternalMaterial of
               None \<Rightarrow> GetDefaultMaterialIDForGeometry C GeometryIdx
             | Some GlobalMaterialID \<Rightarrow> Some GlobalMaterialID);
          St \<leftarrow> CutCellsLoop E Surface Spacing InternalMaterialID [0..<length (CellMeshes Cells)]
                  \<lparr>Coll = C, BooleanResults = Results, PlanesInOutput = [], CellToGeometry = [],
                   GeometryToResultMesh = [], SubPartIndex = 0, FirstIdx = First\<rparr>;
          C' \<leftarrow>
            (if bHasProximity
             then do {
               P \<leftarrow> Proximity (Coll St);
               P' \<leftarrow> LinkPlanes E CellConnectivity Cells St (PlanesInOutput St) P;
               Some ((Coll St) \<lparr>Proximity := Some P'\<rparr>)
             }
             else Some (Coll St));
          Some (C', FirstIdx St, GeometryForRemoval @ [GeometryIdx])
        }
        else Some S
      })"

fun CutSurfaces ::
  "('x, 'b) Engine \<Rightarrow> int32 option \<Rightarrow> (int \<times> int) list \<Rightarrow> FCellMeshes \<Rightarrow> real \<Rightarrow> bool \<Rightarrow>
   'x FMeshData list \<Rightarrow> ('x, 'b) Collection \<times> int \<times> int list \<Rightarrow>
   (('x, 'b) Collection \<times> int \<times> int list) option"
where
  "CutSurfaces E InternalMaterial CellConnectivity Cells Spacing bHasProximity [] S = Some S"
| "CutSurfaces E InternalMaterial CellConnectivity Cells Spacing bHasProximity (Surface # rest) S =
     do {
       S' \<leftarrow> CutSurface E InternalMaterial CellConnectivity Cells Spacing bHasProximity S Surface;
       CutSurfaces E InternalMaterial CellConnectivity Cells Spacing bHasProximity rest S'
     }"

text \<open>
  \<open>CutWithCellMeshes\<close> on the target meshes \<open>Meshes\<close>: the returned index and the
  collection.  The superseded geometry is hidden, not removed (\<open>bRemoveOldGeometry\<close> is the
  constant \<open>false\<close>).
\<close>

definition CutWithCellMeshes ::
  "('x, 'b) Engine \<Rightarrow> 'x FMeshData list \<Rightarrow> int32 option \<Rightarrow> (int \<times> int) list \<Rightarrow> FCellMeshes \<Rightarrow>
   ('x, 'b) Collection \<Rightarrow> real \<Rightarrow> (int \<times> ('x, 'b) Collection) option"
where
  "CutWithCellMeshes E Meshes InternalMaterial CellConnectivity Cells C CollisionSampleSpacing =
     do {
       let bHasProximity = (Proximity C \<noteq> None);
       (C', First, GeometryForRemoval) \<leftarrow>
         CutSurfaces E InternalMaterial CellConnectivity Cells CollisionSampleSpacing bHasProximity
           Meshes (C, - 1, []);
       C'' \<leftarrow> (if length GeometryForRemoval > 0
                then SetGeometryVisibility C' GeometryForRemoval False else Some C');
       Some (First, C'')
     }"

section \<open>Cutting with several planes (GeometryMeshConversion.cpp)\<close>

text \<open>
  What \<open>CutWithMultiplePlanes\<close> takes from the engine for a plane \<open>'p\<close>:
  \<^item> \<open>FMath::PlaneAABBIntersection\<close> of the plane with the bounds of a mesh (expanded by the
    amplitude of the noise when noise is set);
  \<^item> the two cell meshes that the constructor of \<open>FCellMeshes\<close> builds for the plane;
  \<^item> for a cut with grout, the grout mesh of the planes: the grout cells of the planes,
    appended to one mesh, after \<open>FMeshSelfUnion\<close>.
\<close>

record 'p PlaneOps =
  PlaneAABBIntersection :: "'p \<Rightarrow> Mesh \<Rightarrow> bool"
  PlaneCellMeshes :: "'p \<Rightarrow> FCellMeshes"
  GroutMeshOf :: "'p list \<Rightarrow> real \<Rightarrow> Mesh"

text \<open>
  The state of the loops over planes and meshes: the meshes to cut, the point hash of
  each (absent, or the mesh whose vertices it holds), and the multimap \<open>Proximity\<close> between
  positions of \<open>ToCut\<close>.  The cached bounds of a mesh are the bounds of the mesh: every
  write to a mesh of \<open>ToCut\<close> replaces the entry or goes through \<open>SetMesh\<close>.
\<close>

record 'x PlaneLoop =
  ToCut :: "'x FMeshData list"
  VerticesHashes :: "Mesh option list"
  ProximityLinks :: "(int \<times> int) list"

definition HashMeshVertices :: "'x PlaneLoop \<Rightarrow> int \<Rightarrow> 'x PlaneLoop option" where
  "HashMeshVertices St HashIdx =
     do {
       D \<leftarrow> array_get (ToCut St) HashIdx;
       let Hs = (if HashIdx \<ge> int (length (VerticesHashes St))
                 then VerticesHashes St @ replicate (nat (HashIdx + 1) - length (VerticesHashes St)) None
                 else VerticesHashes St);
       H \<leftarrow> array_get Hs HashIdx;
       if H \<noteq> None then Some (St \<lparr>VerticesHashes := Hs\<rparr>)
       else Some (St \<lparr>VerticesHashes := Hs [nat HashIdx := Some (AugMesh D)]\<rparr>)
     }"

definition ClearHash :: "'x PlaneLoop \<Rightarrow> int \<Rightarrow> 'x PlaneLoop option" where
  "ClearHash St HashIdx =
     (if HashIdx < int (length (VerticesHashes St))
      then do { Hs \<leftarrow> array_set (VerticesHashes St) HashIdx None; Some (St \<lparr>VerticesHashes := Hs\<rparr>) }
      else Some St)"

text \<open>\<open>IsNeighbor\<close>; a failed \<open>ensure\<close> reports and makes it return \<open>false\<close>.\<close>

definition IsNeighbor :: "('x, 'b) Engine \<Rightarrow> 'x PlaneLoop \<Rightarrow> int \<Rightarrow> int \<Rightarrow> bool option" where
  "IsNeighbor E St A B =
     (if \<not> (A < int (length (ToCut St)) \<and> B < int (length (ToCut St)) \<and>
             A < int (length (VerticesHashes St)) \<and> B < int (length (VerticesHashes St)))
      then Some False
      else do {
        HA \<leftarrow> array_get (VerticesHashes St) A;
        HB \<leftarrow> array_get (VerticesHashes St) B;
        if \<not> (HA \<noteq> None \<and> HB \<noteq> None) then Some False
        else do {
          DA \<leftarrow> array_get (ToCut St) A;
          DB \<leftarrow> array_get (ToCut St) B;
          if \<not> BoundsIntersect E (AugMesh DA) (AugMesh DB) then Some False
          else do {
            let (A', B') = (if MeshVertexCount (AugMesh DA) > MeshVertexCount (AugMesh DB)
                            then (B, A) else (A, B));
            DA' \<leftarrow> array_get (ToCut St) A';
            DB' \<leftarrow> array_get (ToCut St) B';
            Hashed \<leftarrow> array_get (VerticesHashes St) B';
            Grid \<leftarrow> Hashed;
            Some (list_ex (FindNearestInRadius E Grid (AugMesh DB')) (VerticesItr (AugMesh DA')))
          }
        }
      })"

text \<open>\<open>ProxLink\<close> and \<open>ProxUnlink\<close>.\<close>

definition ProxLink :: "(int \<times> int) list \<Rightarrow> int \<Rightarrow> int \<Rightarrow> (int \<times> int) list" where
  "ProxLink L A B = (L @ [(A, B)]) @ [(B, A)]"

definition ProxUnlink :: "(int \<times> int) list \<Rightarrow> int \<Rightarrow> int \<Rightarrow> (int \<times> int) list" where
  "ProxUnlink L A B = remove1 (B, A) (remove1 (A, B) L)"

text \<open>
  The two boolean results of a mesh for the two cells of a plane; \<open>None\<close> when
  \<open>bKeepResults\<close> ends \<open>false\<close>, which the first result without a triangle decides.
\<close>

definition PlaneBooleanOp :: "FCellMeshes \<Rightarrow> nat \<Rightarrow> EBooleanOp" where
  "PlaneBooleanOp Cells CellIdx =
     (if int CellIdx = OutsideCellIndex Cells then Difference else Intersect)"

definition PlaneBoolResults :: "('x, 'b) Engine \<Rightarrow> FCellMeshes \<Rightarrow> Mesh \<Rightarrow> (Mesh \<times> Mesh) option" where
  "PlaneBoolResults E Cells Surface =
     (let R0 = BooleanCompute E (PlaneBooleanOp Cells 0) Surface (CellMeshes Cells ! 0)
      in if TriangleCount R0 = 0 then None
         else let R1 = BooleanCompute E (PlaneBooleanOp Cells 1) Surface (CellMeshes Cells ! 1)
              in if TriangleCount R1 = 0 then None else Some (R0, R1))"

text \<open>
  The loop over the two unsplit results.  The state is \<open>ToCut\<close>, \<open>ResultIndices\<close> and
  \<open>ParentIndices\<close>.
\<close>

definition SplitResult ::
  "('x, 'b) Engine \<Rightarrow> int \<Rightarrow> 'x \<Rightarrow> 'x FMeshData list \<times> int list \<times> int list \<Rightarrow> nat \<Rightarrow>
   ('x FMeshData list \<times> int list \<times> int list) option"
where
  "SplitResult E TransformIdx FromColl S UnsplitIdx =
     (case S of (Cut, ResultIndices, ParentIndices) \<Rightarrow>
      do {
        Idx \<leftarrow> array_get ResultIndices (int UnsplitIdx);
        D \<leftarrow> array_get Cut Idx;
        case SplitIslands E (AugMesh D) of
          None \<Rightarrow> Some S
        | Some SplitMeshes \<Rightarrow>
            do {
              M0 \<leftarrow> array_get SplitMeshes 0;
              Cut' \<leftarrow> array_set Cut Idx (D \<lparr>AugMesh := M0\<rparr>);
              let Others = drop 1 SplitMeshes;
              Some (Cut' @ map (\<lambda>M. \<lparr>AugMesh = M, MeshTransformIndex = TransformIdx,
                                      FromCollection = FromColl\<rparr>) Others,
                    ResultIndices @ map int [length Cut'..<length Cut' + length Others],
                    ParentIndices @ replicate (length Others) (int UnsplitIdx))
            }
      })"

fun SplitResults ::
  "('x, 'b) Engine \<Rightarrow> int \<Rightarrow> 'x \<Rightarrow> nat list \<Rightarrow> 'x FMeshData list \<times> int list \<times> int list \<Rightarrow>
   ('x FMeshData list \<times> int list \<times> int list) option"
where
  "SplitResults E TransformIdx FromColl [] S = Some S"
| "SplitResults E TransformIdx FromColl (UnsplitIdx # rest) S =
     do {
       S' \<leftarrow> SplitResult E TransformIdx FromColl S UnsplitIdx;
       SplitResults E TransformIdx FromColl rest S'
     }"

fun HashAll :: "int list \<Rightarrow> 'x PlaneLoop \<Rightarrow> 'x PlaneLoop option" where
  "HashAll [] St = Some St"
| "HashAll (ChangedMeshIdx # rest) St =
     do { St' \<leftarrow> HashMeshVertices St ChangedMeshIdx; HashAll rest St' }"

text \<open>The results that neighbor a former neighbor of the cut piece are linked to it.\<close>

fun LinkResults :: "('x, 'b) Engine \<Rightarrow> int \<Rightarrow> int list \<Rightarrow> 'x PlaneLoop \<Rightarrow> 'x PlaneLoop option" where
  "LinkResults E OldIdx [] St = Some St"
| "LinkResults E OldIdx (ResultIdx # rest) St =
     do {
       b \<leftarrow> IsNeighbor E St ResultIdx OldIdx;
       LinkResults E OldIdx rest
         (if b then St \<lparr>ProximityLinks := ProxLink (ProximityLinks St) ResultIdx OldIdx\<rparr> else St)
     }"

fun RelinkNbrs ::
  "('x, 'b) Engine \<Rightarrow> int \<Rightarrow> int list \<Rightarrow> int list \<Rightarrow> 'x PlaneLoop \<Rightarrow> 'x PlaneLoop option"
where
  "RelinkNbrs E ToCutIdx ResultIndices [] St = Some St"
| "RelinkNbrs E ToCutIdx ResultIndices (Nbr # rest) St =
     do {
       St1 \<leftarrow> HashMeshVertices (St \<lparr>ProximityLinks := ProxUnlink (ProximityLinks St) ToCutIdx Nbr\<rparr>) Nbr;
       St2 \<leftarrow> LinkResults E Nbr ResultIndices St1;
       RelinkNbrs E ToCutIdx ResultIndices rest St2
     }"

text \<open>
  The connections between the results: all pairs of positions \<open>iFirst < iSecond\<close> of
  \<open>ResultIndices\<close> that come from different parents.
\<close>

fun LinkSeconds ::
  "('x, 'b) Engine \<Rightarrow> int list \<Rightarrow> int list \<Rightarrow> nat \<Rightarrow> int \<Rightarrow> nat list \<Rightarrow> 'x PlaneLoop \<Rightarrow>
   'x PlaneLoop option"
where
  "LinkSeconds E ResultIndices ParentIndices iFirst FirstParent [] St = Some St"
| "LinkSeconds E ResultIndices ParentIndices iFirst FirstParent (iSecond # rest) St =
     do {
       SecondParent \<leftarrow> array_get ParentIndices (int iSecond);
       St' \<leftarrow>
         (if FirstParent = SecondParent then Some St
          else do {
            A \<leftarrow> array_get ResultIndices (int iFirst);
            B \<leftarrow> array_get ResultIndices (int iSecond);
            b \<leftarrow> IsNeighbor E St A B;
            Some (if b then St \<lparr>ProximityLinks := ProxLink (ProximityLinks St) A B\<rparr> else St)
          });
       LinkSeconds E ResultIndices ParentIndices iFirst FirstParent rest St'
     }"

fun LinkFirsts ::
  "('x, 'b) Engine \<Rightarrow> int list \<Rightarrow> int list \<Rightarrow> nat list \<Rightarrow> 'x PlaneLoop \<Rightarrow> 'x PlaneLoop option"
where
  "LinkFirsts E ResultIndices ParentIndices [] St = Some St"
| "LinkFirsts E ResultIndices ParentIndices (iFirst # rest) St =
     do {
       FirstParent \<leftarrow> array_get ParentIndices (int iFirst);
       St' \<leftarrow> LinkSeconds E ResultIndices ParentIndices iFirst FirstParent
                [iFirst + 1..<length ResultIndices] St;
       LinkFirsts E ResultIndices ParentIndices rest St'
     }"

definition UpdateProximityLinks ::
  "('x, 'b) Engine \<Rightarrow> int \<Rightarrow> int list \<Rightarrow> int list \<Rightarrow> 'x PlaneLoop \<Rightarrow> 'x PlaneLoop option"
where
  "UpdateProximityLinks E ToCutIdx ResultIndices ParentIndices St0 =
     do {
       St \<leftarrow> ClearHash St0 ToCutIdx;
       let Nbrs = MultiFind (ProximityLinks St) ToCutIdx;
       St \<leftarrow> (if length Nbrs > 0
               then do { St' \<leftarrow> HashAll ResultIndices St; RelinkNbrs E ToCutIdx ResultIndices Nbrs St' }
               else Some St);
       if length ResultIndices = 2
       then do {
         A \<leftarrow> array_get ResultIndices 0;
         B \<leftarrow> array_get ResultIndices 1;
         Some (St \<lparr>ProximityLinks := ProxLink (ProximityLinks St) A B\<rparr>)
       }
       else do {
         St \<leftarrow> (if length Nbrs = 0 then HashAll ResultIndices St else Some St);
         LinkFirsts E ResultIndices ParentIndices [0..<length ResultIndices - 1] St
       }
     }"

text \<open>The body of the loop over the meshes to cut, for one plane.\<close>

definition CutPiece ::
  "('x, 'b) Engine \<Rightarrow> 'p PlaneOps \<Rightarrow> bool \<Rightarrow> 'p \<Rightarrow> FCellMeshes \<Rightarrow> 'x PlaneLoop \<Rightarrow> nat \<Rightarrow>
   'x PlaneLoop option"
where
  "CutPiece E Ops bHasProximity Plane Cells St ToCutIdx =
     do {
       Surface \<leftarrow> array_get (ToCut St) (int ToCutIdx);
       if \<not> PlaneAABBIntersection Ops Plane (AugMesh Surface) then Some St
       else do {
         _ \<leftarrow> check (length (CellMeshes Cells) = 2);
         case PlaneBoolResults E Cells (AugMesh Surface) of
           None \<Rightarrow> Some St
         | Some (R0, R1) \<Rightarrow>
             do {
               let Cut = (ToCut St) [ToCutIdx := Surface \<lparr>AugMesh := R0\<rparr>] @ [Surface \<lparr>AugMesh := R1\<rparr>];
               let NewIdx = int (length (ToCut St));
               (Cut, ResultIndices, ParentIndices) \<leftarrow>
                 SplitResults E (MeshTransformIndex Surface) (FromCollection Surface) [0, 1]
                   (Cut, [int ToCutIdx, NewIdx], [0, 1]);
               if bHasProximity
               then UpdateProximityLinks E (int ToCutIdx) ResultIndices ParentIndices (St \<lparr>ToCut := Cut\<rparr>)
               else Some (St \<lparr>ToCut := Cut\<rparr>)
             }
       }
     }"

fun CutPieces ::
  "('x, 'b) Engine \<Rightarrow> 'p PlaneOps \<Rightarrow> bool \<Rightarrow> 'p \<Rightarrow> FCellMeshes \<Rightarrow> nat list \<Rightarrow> 'x PlaneLoop \<Rightarrow>
   'x PlaneLoop option"
where
  "CutPieces E Ops bHasProximity Plane Cells [] St = Some St"
| "CutPieces E Ops bHasProximity Plane Cells (ToCutIdx # rest) St =
     do {
       St' \<leftarrow> CutPiece E Ops bHasProximity Plane Cells St ToCutIdx;
       CutPieces E Ops bHasProximity Plane Cells rest St'
     }"

text \<open>The loop over the planes; the meshes that a plane adds are cut by the later planes only.\<close>

fun CutPlanes ::
  "('x, 'b) Engine \<Rightarrow> 'p PlaneOps \<Rightarrow> bool \<Rightarrow> 'p list \<Rightarrow> 'x PlaneLoop \<Rightarrow> 'x PlaneLoop option"
where
  "CutPlanes E Ops bHasProximity [] St = Some St"
| "CutPlanes E Ops bHasProximity (Plane # rest) St =
     do {
       St' \<leftarrow> CutPieces E Ops bHasProximity Plane (PlaneCellMeshes Ops Plane)
                [0..<length (ToCut St)] St;
       CutPlanes E Ops bHasProximity rest St'
     }"

text \<open>
  The pieces of one target are appended.  The state is the collection, \<open>ToCut\<close> (whose mesh
  \<open>AppendToCollection\<close> works on), \<open>ToCutIdxToGeometryIdx\<close> and \<open>FirstCreatedIndex\<close>.
\<close>

record ('x, 'b) AppendLoop =
  OutColl :: "('x, 'b) Collection"
  Pieces :: "'x FMeshData list"
  ToCutIdxToGeometryIdx :: "int list"
  FirstCreatedIndex :: int

definition AppendPiece ::
  "('x, 'b) Engine \<Rightarrow> real \<Rightarrow> int32 \<Rightarrow> ('x, 'b) AppendLoop \<Rightarrow> nat \<times> int \<Rightarrow> ('x, 'b) AppendLoop option"
where
  "AppendPiece E CollisionSampleSpacing InternalMaterialID St Sub =
     (case Sub of (SubPartIdx, ToCutIdx) \<Rightarrow>
      do {
        D \<leftarrow> array_get (Pieces St) ToCutIdx;
        Name \<leftarrow> GetBoneName E (OutColl St) (MeshTransformIndex D) (int SubPartIdx);
        (CreatedGeometryIdx, M', C') \<leftarrow>
          AppendToCollection E (FromCollection D) (AugMesh D) CollisionSampleSpacing
            (MeshTransformIndex D) Name (OutColl St) InternalMaterialID;
        Pieces' \<leftarrow> array_set (Pieces St) ToCutIdx (D \<lparr>AugMesh := M'\<rparr>);
        G' \<leftarrow> array_set (ToCutIdxToGeometryIdx St) ToCutIdx CreatedGeometryIdx;
        Some \<lparr>OutColl = C', Pieces = Pieces', ToCutIdxToGeometryIdx = G',
              FirstCreatedIndex = (if FirstCreatedIndex St = - 1 then CreatedGeometryIdx
                                   else FirstCreatedIndex St)\<rparr>
      })"

fun AppendPieces ::
  "('x, 'b) Engine \<Rightarrow> real \<Rightarrow> int32 \<Rightarrow> (nat \<times> int) list \<Rightarrow> ('x, 'b) AppendLoop \<Rightarrow>
   ('x, 'b) AppendLoop option"
where
  "AppendPieces E Spacing InternalMaterialID [] St = Some St"
| "AppendPieces E Spacing InternalMaterialID (Sub # rest) St =
     do {
       St' \<leftarrow> AppendPiece E Spacing InternalMaterialID St Sub;
       AppendPieces E Spacing InternalMaterialID rest St'
     }"

text \<open>
  The body of the loop over the targets.  \<open>ParentTransformToChildren\<close> relates the
  transform of every mesh of \<open>ToCut\<close> to its position.
\<close>

definition AppendChildren ::
  "('x, 'b) Engine \<Rightarrow> int32 option \<Rightarrow> real \<Rightarrow> (int \<times> int) list \<Rightarrow>
   ('x, 'b) AppendLoop \<times> int list \<Rightarrow> 'x FMeshData \<Rightarrow> (('x, 'b) AppendLoop \<times> int list) option"
where
  "AppendChildren E InternalMaterial Spacing ParentTransformToChildren S MeshData =
     (case S of (St, GeometryForRemoval) \<Rightarrow>
      do {
        GeometryIdx \<leftarrow> array_get (TransformToGeometryIndex (OutColl St)) (MeshTransformIndex MeshData);
        InternalMaterialID \<leftarrow>
          (case InternalMaterial of
             None \<Rightarrow> GetDefaultMaterialIDForGeometry (OutColl St) GeometryIdx
           | Some GlobalMaterialID \<Rightarrow> Some GlobalMaterialID);
        let ToCutIndices = MultiFind ParentTransformToChildren (MeshTransformIndex MeshData);
        if length ToCutIndices \<le> 1 then Some S
        else do {
          St' \<leftarrow> AppendPieces E Spacing InternalMaterialID
                   (zip [0..<length ToCutIndices] ToCutIndices) St;
          Some (St', GeometryForRemoval @ [GeometryIdx])
        }
      })"

fun AppendAllChildren ::
  "('x, 'b) Engine \<Rightarrow> int32 option \<Rightarrow> real \<Rightarrow> (int \<times> int) list \<Rightarrow> 'x FMeshData list \<Rightarrow>
   ('x, 'b) AppendLoop \<times> int list \<Rightarrow> (('x, 'b) AppendLoop \<times> int list) option"
where
  "AppendAllChildren E InternalMaterial Spacing ParentTransformToChildren [] S = Some S"
| "AppendAllChildren E InternalMaterial Spacing ParentTransformToChildren (MeshData # rest) S =
     do {
       S' \<leftarrow> AppendChildren E InternalMaterial Spacing ParentTransformToChildren S MeshData;
       AppendAllChildren E InternalMaterial Spacing ParentTransformToChildren rest S'
     }"

text \<open>The links between positions of \<open>ToCut\<close> become links between the new geometries.\<close>

fun PopulateProximity :: "int list \<Rightarrow> (int \<times> int) list \<Rightarrow> int set list \<Rightarrow> int set list option" where
  "PopulateProximity G [] GCProximity = Some GCProximity"
| "PopulateProximity G (Link # rest) GCProximity =
     do {
       A \<leftarrow> array_get G (fst Link);
       B \<leftarrow> array_get G (snd Link);
       P' \<leftarrow> ProximityAdd GCProximity A B;
       PopulateProximity G rest P'
     }"

text \<open>
  The multimap \<open>ParentTransformToChildren\<close>: every mesh to cut is added under its transform
  index, in the order of the meshes.
\<close>

definition ParentTransformToChildrenOf :: "'x FMeshData list \<Rightarrow> (int \<times> int) list" where
  "ParentTransformToChildrenOf Cut =
     map (\<lambda>ToCutIdx. (MeshTransformIndex (Cut ! ToCutIdx), int ToCutIdx)) [0..<length Cut]"

text \<open>
  \<open>CutWithMultiplePlanes\<close> on the target meshes \<open>Meshes\<close>.  With grout, the grout mesh is both
  cells of a cut with cell meshes, the second being the outside cell; the constructor
  \<open>FCellMeshes(int32)\<close> leaves the member \<open>NumUVLayers\<close> at its default 1.
\<close>

definition CutWithMultiplePlanes ::
  "('x, 'b) Engine \<Rightarrow> 'p PlaneOps \<Rightarrow> 'x FMeshData list \<Rightarrow> 'p list \<Rightarrow> real \<Rightarrow> real \<Rightarrow>
   ('x, 'b) Collection \<Rightarrow> int32 option \<Rightarrow> (int \<times> ('x, 'b) Collection) option"
where
  "CutWithMultiplePlanes E Ops Meshes Planes Grout CollisionSampleSpacing C InternalMaterial =
     (if Grout > 0
      then CutWithCellMeshes E Meshes InternalMaterial [(0, - 1)]
             \<lparr>CellMeshes = [GroutMeshOf Ops Planes Grout, GroutMeshOf Ops Planes Grout],
              OutsideCellIndex = 1, NumUVLayers = 1\<rparr>
             C CollisionSampleSpacing
      else do {
        let bHasProximity = (Proximity C \<noteq> None);
        St \<leftarrow> CutPlanes E Ops bHasProximity Planes
                \<lparr>ToCut = Meshes, VerticesHashes = [], ProximityLinks = []\<rparr>;
        let ParentTransformToChildren = ParentTransformToChildrenOf (ToCut St);
        (A, GeometryForRemoval) \<leftarrow>
          AppendAllChildren E InternalMaterial CollisionSampleSpacing ParentTransformToChildren Meshes
            (\<lparr>OutColl = C, Pieces = ToCut St,
              ToCutIdxToGeometryIdx = replicate (length (ToCut St)) (- 1),
              FirstCreatedIndex = - 1\<rparr>, []);
        C' \<leftarrow>
          (if bHasProximity
           then do {
             P \<leftarrow> Proximity (OutColl A);
             P' \<leftarrow> PopulateProximity (ToCutIdxToGeometryIdx A) (ProximityLinks St) P;
             Some ((OutColl A) \<lparr>Proximity := Some P'\<rparr>)
           }
           else Some (OutColl A));
        C'' \<leftarrow> (if length GeometryForRemoval > 0
                 then SetGeometryVisibility C' GeometryForRemoval False else Some C');
        Some (FirstCreatedIndex A, C'')
      })"

section \<open>The cutting operations at the boundary (PlanarCut.cpp)\<close>

text \<open>
  Modelled from the spec: \<open>AddAttribute\<close>, the operation of the collection that adds a
  column, is not in the translated files.  The spec has \<open>Proximity\<close> as a column of the
  Geometry group that holds a set of geometry indices per entry; the new column has one
  set per entry, and the sets are empty.
\<close>

definition AddProximityAttribute :: "('x, 'b) Collection \<Rightarrow> ('x, 'b) Collection" where
  "AddProximityAttribute C = C \<lparr>Proximity := Some (replicate (NumElements C GeometryGroup) {})\<rparr>"

text \<open>
  What the operations at the boundary take from outside the translated files or from the
  geometry of the engine, for planar cells \<open>'c\<close>, internal surface materials \<open>'m\<close>, a
  mesh description \<open>'d\<close> and planes \<open>'p\<close>:
  \<^item> \<open>ReindexMaterials\<close> of the collection;
  \<^item> in \<open>Init\<close>, the product of \<open>GlobalMatrix\<close> of a transform with the transform of the
    collection, and the mesh that the vertex and face loops build from the rows of a
    geometry (\<open>None\<close>: a row is read outside its column);
  \<^item> \<open>SetUVScaleFromCollection\<close>, which reads the collection and sets the UV scale of the
    materials (\<open>None\<close>: a row is read outside its column), and \<open>GlobalMaterialID\<close>;
  \<^item> the members \<open>InternalSurfaceMaterials\<close> and \<open>PlaneCells\<close> of the planar cells;
  \<^item> \<open>NumUVLayers\<close> of the collection;
  \<^item> the cell meshes that the constructor of \<open>FCellMeshes\<close> builds for planar cells, from
    the number of UV layers, the bounds of the target meshes, the grout and the flag for
    the outside cell;
  \<^item> what \<open>CutWithMultiplePlanes\<close> takes for a plane, which depends on the materials, the
    number of UV layers and the bounds of the target meshes;
  \<^item> the cutting mesh that \<open>CutWithMesh\<close> converts from the mesh description and that the
    constructor of \<open>FCellMeshes\<close> transforms.
\<close>

record ('x, 'b, 'p, 'c, 'm, 'd) Boundary =
  ReindexMaterials :: "('x, 'b) Collection \<Rightarrow> ('x, 'b) Collection"
  CollectionToLocal :: "('x, 'b) Collection \<Rightarrow> int \<Rightarrow> 'x \<Rightarrow> 'x"
  GeometryMesh :: "('x, 'b) Collection \<Rightarrow> int \<Rightarrow> 'x \<Rightarrow> bool \<Rightarrow> Mesh option"
  SetUVScaleFromCollection :: "'m \<Rightarrow> ('x, 'b) Collection \<Rightarrow> 'm option"
  GlobalMaterialID :: "'m \<Rightarrow> int32"
  InternalSurfaceMaterials :: "'c \<Rightarrow> 'm"
  SetInternalSurfaceMaterials :: "'c \<Rightarrow> 'm \<Rightarrow> 'c"
  PlaneCells :: "'c \<Rightarrow> (int \<times> int) list"
  CollectionNumUVLayers :: "('x, 'b) Collection \<Rightarrow> int"
  PlanarCellMeshes :: "int \<Rightarrow> 'c \<Rightarrow> 'x FMeshData list \<Rightarrow> real \<Rightarrow> bool \<Rightarrow> FCellMeshes"
  PlaneOpsOf :: "'m \<Rightarrow> int \<Rightarrow> 'x FMeshData list \<Rightarrow> 'p PlaneOps"
  CuttingMeshOf :: "'d \<Rightarrow> 'x \<Rightarrow> int \<Rightarrow> Mesh"

text \<open>
  \<open>Init\<close> of the mesh collection: one mesh per listed transform that has a geometry, in the
  order of the list.
\<close>

fun Init ::
  "('x, 'b, 'p, 'c, 'm, 'd) Boundary \<Rightarrow> ('x, 'b) Collection \<Rightarrow> 'x \<Rightarrow> bool \<Rightarrow> int list \<Rightarrow>
   'x FMeshData list option"
where
  "Init B C TransformCollection bSaveIsolatedVertices [] = Some []"
| "Init B C TransformCollection bSaveIsolatedVertices (TransformIdx # rest) =
     do {
       GeometryIdx \<leftarrow> array_get (TransformToGeometryIndex C) TransformIdx;
       if GeometryIdx = - 1 then Init B C TransformCollection bSaveIsolatedVertices rest
       else do {
         let ToLocal = CollectionToLocal B C TransformIdx TransformCollection;
         _ \<leftarrow> array_get (VertexStart C) GeometryIdx;
         _ \<leftarrow> array_get (VertexCount C) GeometryIdx;
         _ \<leftarrow> array_get (FaceCount C) GeometryIdx;
         M \<leftarrow> GeometryMesh B C GeometryIdx ToLocal bSaveIsolatedVertices;
         Others \<leftarrow> Init B C TransformCollection bSaveIsolatedVertices rest;
         Some (\<lparr>AugMesh = M, MeshTransformIndex = TransformIdx, FromCollection = ToLocal\<rparr> # Others)
       }
     }"

text \<open>
  The three operations.  The result is the returned index and the collection; the
  arguments that only reach the constructors are left with them.
\<close>

definition CutMultipleWithPlanarCells ::
  "('x, 'b) Engine \<Rightarrow> ('x, 'b, 'p, 'c, 'm, 'd) Boundary \<Rightarrow> 'c \<Rightarrow> ('x, 'b) Collection \<Rightarrow> int list \<Rightarrow>
   real \<Rightarrow> real \<Rightarrow> 'x option \<Rightarrow> bool \<Rightarrow> bool \<Rightarrow> (int \<times> ('x, 'b) Collection) option"
where
  "CutMultipleWithPlanarCells E B Cells0 Source0 TransformIndices Grout CollisionSampleSpacing
       TransformCollection bIncludeOutsideCellInOutput bSetDefaultInternalMaterialsFromCollection =
     do {
       let Source = (if Proximity Source0 = None then AddProximityAttribute Source0 else Source0);
       Cells \<leftarrow>
         (if bSetDefaultInternalMaterialsFromCollection
          then do { Materials \<leftarrow> SetUVScaleFromCollection B (InternalSurfaceMaterials B Cells0) Source;
                    Some (SetInternalSurfaceMaterials B Cells0 Materials) }
          else Some Cells0);
       let CollectionToWorld = (case TransformCollection of None \<Rightarrow> IdentityTransform E | Some T \<Rightarrow> T);
       Meshes \<leftarrow> Init B Source CollectionToWorld False TransformIndices;
       let Cut = PlanarCellMeshes B (CollectionNumUVLayers B Source) Cells Meshes Grout
                   bIncludeOutsideCellInOutput;
       (NewGeomStartIdx, Source) \<leftarrow>
         CutWithCellMeshes E Meshes
           (if bSetDefaultInternalMaterialsFromCollection then None
            else Some (GlobalMaterialID B (InternalSurfaceMaterials B Cells)))
           (PlaneCells B Cells) Cut Source CollisionSampleSpacing;
       Some (NewGeomStartIdx, ReindexMaterials B Source)
     }"

definition CutMultipleWithMultiplePlanes ::
  "('x, 'b) Engine \<Rightarrow> ('x, 'b, 'p, 'c, 'm, 'd) Boundary \<Rightarrow> 'p list \<Rightarrow> 'm \<Rightarrow> ('x, 'b) Collection \<Rightarrow>
   int list \<Rightarrow> real \<Rightarrow> real \<Rightarrow> 'x option \<Rightarrow> bool \<Rightarrow> (int \<times> ('x, 'b) Collection) option"
where
  "CutMultipleWithMultiplePlanes E B Planes Materials0 Collection0 TransformIndices Grout
       CollisionSampleSpacing TransformCollection bSetDefaultInternalMaterialsFromCollection =
     do {
       Materials \<leftarrow>
         (if bSetDefaultInternalMaterialsFromCollection
          then SetUVScaleFromCollection B Materials0 Collection0 else Some Materials0);
       let C = (if Proximity Collection0 = None then AddProximityAttribute Collection0 else Collection0);
       let CollectionToWorld = (case TransformCollection of None \<Rightarrow> IdentityTransform E | Some T \<Rightarrow> T);
       Meshes \<leftarrow> Init B C CollectionToWorld False TransformIndices;
       (NewGeomStartIdx, C) \<leftarrow>
         CutWithMultiplePlanes E (PlaneOpsOf B Materials (CollectionNumUVLayers B C) Meshes) Meshes Planes
           Grout CollisionSampleSpacing C
           (if bSetDefaultInternalMaterialsFromCollection then None
            else Some (GlobalMaterialID B Materials));
       Some (NewGeomStartIdx, ReindexMaterials B C)
     }"

text \<open>
  \<open>CutWithMesh\<close>: the cutting mesh is both cells, the second being the outside cell, and
  the one cut surface connects the inside cell 0 with the outside.
\<close>

definition CutWithMesh ::
  "('x, 'b) Engine \<Rightarrow> ('x, 'b, 'p, 'c, 'm, 'd) Boundary \<Rightarrow> 'd \<Rightarrow> 'x \<Rightarrow> 'm \<Rightarrow> ('x, 'b) Collection \<Rightarrow>
   int list \<Rightarrow> real \<Rightarrow> 'x option \<Rightarrow> bool \<Rightarrow> (int \<times> ('x, 'b) Collection) option"
where
  "CutWithMesh E B CuttingMesh CuttingMeshTransform Materials0 Collection0 TransformIndices
       CollisionSampleSpacing TransformCollection bSetDefaultInternalMaterialsFromCollection =
     do {
       let NumLayers = CollectionNumUVLayers B Collection0;
       let Cutter = CuttingMeshOf B CuttingMesh CuttingMeshTransform NumLayers;
       let C = (if Proximity Collection0 = None then AddProximityAttribute Collection0 else Collection0);
       Materials \<leftarrow>
         (if bSetDefaultInternalMaterialsFromCollection
          then SetUVScaleFromCollection B Materials0 C else Some Materials0);
       let CollectionToWorld = (case TransformCollection of None \<Rightarrow> IdentityTransform E | Some T \<Rightarrow> T);
       Meshes \<leftarrow> Init B C CollectionToWorld False TransformIndices;
       (NewGeomStartIdx, C) \<leftarrow>
         CutWithCellMeshes E Meshes
           (if bSetDefaultInternalMaterialsFromCollection then None
            else Some (GlobalMaterialID B Materials))
           [(0, - 1)]
           \<lparr>CellMeshes = [Cutter, Cutter], OutsideCellIndex = 1, NumUVLayers = NumLayers\<rparr>
           C CollisionSampleSpacing;
       Some (NewGeomStartIdx, ReindexMaterials B C)
     }"

section \<open>Merging small bones (PlanarCut.cpp, GeometryMeshConversion.cpp)\<close>

text \<open>
  \<open>FRemoveGroup\<close>: the geometries to remove and the geometry they are merged into.
\<close>

record FRemoveGroup =
  MergeTo :: int
  MergeTargetVolume :: real
  TotalVolume :: real
  bRemoveMergeTarget :: bool
  ToRemove :: "int list"

definition IsValidGroup :: "FRemoveGroup \<Rightarrow> bool" where
  "IsValidGroup Group = (MergeTo Group \<noteq> - 1)"

datatype ENeighborSelectionMethod = LargestNeighbor | NearestCenter

text \<open>
  What \<open>MergeBones\<close> and \<open>UpdateAllCollections\<close> take from outside the translated files or
  from the geometry of the engine:
  \<^item> \<open>UpdateProximity\<close> of the proximity utility, \<open>ResizeGeometries\<close>, \<open>ParentTransforms\<close>
    (with the children listed set by set) and \<open>RemoveElements\<close> of the collection;
  \<^item> the value of an entry that \<open>SetNumUninitialized\<close> leaves unset;
  \<^item> the grouping of the too small geometries with their neighbors (lines 1004 to 1129):
    it reads the collection and writes none of it; the neighbor it picks among neighbors
    of equal score follows the order in which the engine's set delivers them, which the
    sets of the model do not hold.  Its result is the remove groups and the map from
    geometry to group (\<open>None\<close>: a row is read outside its column or a key is absent);
  \<^item> the mesh that the boolean union or the append makes of a mesh to update and a mesh
    to remove.
\<close>

record ('x, 'b) MergeOps =
  UpdateProximity :: "('x, 'b) Collection \<Rightarrow> ('x, 'b) Collection"
  ResizeGeometries :: "('x, 'b) Collection \<Rightarrow> int list \<Rightarrow> int list \<Rightarrow> ('x, 'b) Collection"
  ParentTransforms :: "('x, 'b) Collection \<Rightarrow> int \<Rightarrow> int set list \<Rightarrow> ('x, 'b) Collection"
  RemoveElements :: "Group \<Rightarrow> int list \<Rightarrow> ('x, 'b) Collection \<Rightarrow> ('x, 'b) Collection"
  UninitializedCount :: int
  GroupSmallBones ::
    "('x, 'b) Collection \<Rightarrow> int list \<Rightarrow> real list \<Rightarrow> real \<Rightarrow> int list \<Rightarrow> ENeighborSelectionMethod \<Rightarrow>
     (FRemoveGroup list \<times> (int \<times> int) list) option"
  JoinMeshes :: "bool \<Rightarrow> 'x FMeshData \<Rightarrow> 'x FMeshData \<Rightarrow> Mesh"

text \<open>
  \<open>UpdateAllCollections\<close>: the new counts of every geometry, \<open>ResizeGeometries\<close>, then
  \<open>UpdateCollection\<close> for every mesh with the internal material ID \<open>-1\<close>.  The result holds
  the success flag, the meshes as the calls leave them, and the collection.
\<close>

fun KeepCounts :: "('x, 'b) Collection \<Rightarrow> nat list \<Rightarrow> int list \<times> int list \<Rightarrow> (int list \<times> int list) option" where
  "KeepCounts C [] Counts = Some Counts"
| "KeepCounts C (GeomIdx # rest) Counts =
     (case Counts of (NewFaceCounts, NewVertexCounts) \<Rightarrow>
      do {
        f \<leftarrow> array_get (FaceCount C) (int GeomIdx);
        NewFaceCounts' \<leftarrow> array_set NewFaceCounts (int GeomIdx) f;
        v \<leftarrow> array_get (VertexCount C) (int GeomIdx);
        NewVertexCounts' \<leftarrow> array_set NewVertexCounts (int GeomIdx) v;
        KeepCounts C rest (NewFaceCounts', NewVertexCounts')
      })"

fun MeshCounts ::
  "('x, 'b) Collection \<Rightarrow> 'x FMeshData list \<Rightarrow> int list \<times> int list \<Rightarrow> (int list \<times> int list) option"
where
  "MeshCounts C [] Counts = Some Counts"
| "MeshCounts C (MeshData # rest) Counts =
     (case Counts of (NewFaceCounts, NewVertexCounts) \<Rightarrow>
      do {
        GeomIdx \<leftarrow> array_get (TransformToGeometryIndex C) (MeshTransformIndex MeshData);
        NewFaceCounts' \<leftarrow> array_set NewFaceCounts GeomIdx (int (TriangleCount (AugMesh MeshData)));
        NewVertexCounts' \<leftarrow> array_set NewVertexCounts GeomIdx (int (MeshVertexCount (AugMesh MeshData)));
        MeshCounts C rest (NewFaceCounts', NewVertexCounts')
      })"

fun UpdateMeshes ::
  "('x, 'b) Engine \<Rightarrow> 'x FMeshData list \<Rightarrow> bool \<times> 'x FMeshData list \<times> ('x, 'b) Collection \<Rightarrow>
   (bool \<times> 'x FMeshData list \<times> ('x, 'b) Collection) option"
where
  "UpdateMeshes E [] S = Some S"
| "UpdateMeshes E (MeshData # rest) S =
     (case S of (bAllSucceeded, Done, C) \<Rightarrow>
      do {
        GeometryIdx \<leftarrow> array_get (TransformToGeometryIndex C) (MeshTransformIndex MeshData);
        (bSucceeded, M', C') \<leftarrow>
          UpdateCollection E (FromCollection MeshData) (AugMesh MeshData) GeometryIdx C (- 1);
        UpdateMeshes E rest (bAllSucceeded \<and> bSucceeded, Done @ [MeshData \<lparr>AugMesh := M'\<rparr>], C')
      })"

definition UpdateAllCollections ::
  "('x, 'b) Engine \<Rightarrow> ('x, 'b) MergeOps \<Rightarrow> 'x FMeshData list \<Rightarrow> ('x, 'b) Collection \<Rightarrow>
   (bool \<times> 'x FMeshData list \<times> ('x, 'b) Collection) option"
where
  "UpdateAllCollections E X Meshes C =
     do {
       let NumGeometry = NumElements C GeometryGroup;
       Counts \<leftarrow> KeepCounts C [0..<length (FaceCount C)]
                   (replicate NumGeometry (UninitializedCount X), replicate NumGeometry (UninitializedCount X));
       (NewFaceCounts, NewVertexCounts) \<leftarrow> MeshCounts C Meshes Counts;
       UpdateMeshes E Meshes (True, [], ResizeGeometries X C NewFaceCounts NewVertexCounts)
     }"

text \<open>
  The transforms to remove and to update, from the valid groups; a merge target that is
  too small itself is taken out of the geometries to remove of its group.
\<close>

fun TransformsOf :: "('x, 'b) Collection \<Rightarrow> int list \<Rightarrow> int list option" where
  "TransformsOf C [] = Some []"
| "TransformsOf C (GeomIdx # rest) =
     do { t \<leftarrow> array_get (TransformIndex C) GeomIdx; ts \<leftarrow> TransformsOf C rest; Some (t # ts) }"

fun CollectIndices ::
  "('x, 'b) Collection \<Rightarrow> FRemoveGroup list \<Rightarrow> (FRemoveGroup list \<times> int list \<times> int list) option"
where
  "CollectIndices C [] = Some ([], [], [])"
| "CollectIndices C (Group0 # rest) =
     (if \<not> IsValidGroup Group0
      then do { (Groups, AllRemove, AllUpdate) \<leftarrow> CollectIndices C rest;
                Some (Group0 # Groups, AllRemove, AllUpdate) }
      else do {
        let Group = (if bRemoveMergeTarget Group0
                     then Group0 \<lparr>ToRemove := remove1 (MergeTo Group0) (ToRemove Group0)\<rparr> else Group0);
        Removed \<leftarrow> TransformsOf C (ToRemove Group);
        Updated \<leftarrow> array_get (TransformIndex C) (MergeTo Group);
        (Groups, AllRemove, AllUpdate) \<leftarrow> CollectIndices C rest;
        Some (Group # Groups, Removed @ AllRemove, Updated # AllUpdate)
      })"

text \<open>\<open>GeoIdxToRmMeshIdx\<close>: the geometry of every mesh to remove, with the position of the mesh.\<close>

fun GeoIdxToRmMeshIdxOf ::
  "('x, 'b) Collection \<Rightarrow> (nat \<times> 'x FMeshData) list \<Rightarrow> (int \<times> int) list \<Rightarrow> (int \<times> int) list option"
where
  "GeoIdxToRmMeshIdxOf C [] Map = Some Map"
| "GeoIdxToRmMeshIdxOf C (Rm # rest) Map =
     do {
       GeoIdx \<leftarrow> array_get (TransformToGeometryIndex C) (MeshTransformIndex (snd Rm));
       GeoIdxToRmMeshIdxOf C rest (MapAdd Map GeoIdx (int (fst Rm)))
     }"

text \<open>The meshes to remove are joined to the mesh to update of their group.\<close>

fun JoinRemoved ::
  "('x, 'b) MergeOps \<Rightarrow> bool \<Rightarrow> 'x FMeshData list \<Rightarrow> (int \<times> int) list \<Rightarrow> int list \<Rightarrow> 'x FMeshData \<Rightarrow>
   'x FMeshData option"
where
  "JoinRemoved X bUnionJoinedPieces RemoveMeshes GeoIdxToRmMeshIdx [] UpMeshData = Some UpMeshData"
| "JoinRemoved X bUnionJoinedPieces RemoveMeshes GeoIdxToRmMeshIdx (RmGeoIdx # rest) UpMeshData =
     do {
       RmMeshIdx \<leftarrow> MapAt GeoIdxToRmMeshIdx RmGeoIdx;
       RmMeshData \<leftarrow> array_get RemoveMeshes RmMeshIdx;
       JoinRemoved X bUnionJoinedPieces RemoveMeshes GeoIdxToRmMeshIdx rest
         (UpMeshData \<lparr>AugMesh := JoinMeshes X bUnionJoinedPieces UpMeshData RmMeshData\<rparr>)
     }"

fun JoinUpdated ::
  "('x, 'b) MergeOps \<Rightarrow> bool \<Rightarrow> ('x, 'b) Collection \<Rightarrow> FRemoveGroup list \<Rightarrow> (int \<times> int) list \<Rightarrow>
   'x FMeshData list \<Rightarrow> (int \<times> int) list \<Rightarrow> 'x FMeshData list \<Rightarrow> 'x FMeshData list option"
where
  "JoinUpdated X bUnionJoinedPieces C RemoveGroups GeomIdxToRemoveGroupIdx RemoveMeshes GeoIdxToRmMeshIdx [] =
     Some []"
| "JoinUpdated X bUnionJoinedPieces C RemoveGroups GeomIdxToRemoveGroupIdx RemoveMeshes GeoIdxToRmMeshIdx
       (UpMeshData # rest) =
     do {
       UpGeoIdx \<leftarrow> array_get (TransformToGeometryIndex C) (MeshTransformIndex UpMeshData);
       GroupIdx \<leftarrow> MapAt GeomIdxToRemoveGroupIdx UpGeoIdx;
       Group \<leftarrow> array_get RemoveGroups GroupIdx;
       UpMeshData' \<leftarrow>
         (if \<not> IsValidGroup Group then Some UpMeshData
          else JoinRemoved X bUnionJoinedPieces RemoveMeshes GeoIdxToRmMeshIdx (ToRemove Group) UpMeshData);
       Others \<leftarrow> JoinUpdated X bUnionJoinedPieces C RemoveGroups GeomIdxToRemoveGroupIdx RemoveMeshes
                   GeoIdxToRmMeshIdx rest;
       Some (UpMeshData' # Others)
     }"

text \<open>The children of the removed transforms get the transform of the merge target as parent.\<close>

fun ChildrenOf :: "('x, 'b) Collection \<Rightarrow> int list \<Rightarrow> int set list option" where
  "ChildrenOf C [] = Some []"
| "ChildrenOf C (RmIdx # rest) =
     do {
       RmTransformIdx \<leftarrow> array_get (TransformIndex C) RmIdx;
       Cs \<leftarrow> array_get (Children C) RmTransformIdx;
       Others \<leftarrow> ChildrenOf C rest;
       Some (Cs # Others)
     }"

fun ReparentChildren ::
  "('x, 'b) MergeOps \<Rightarrow> FRemoveGroup list \<Rightarrow> ('x, 'b) Collection \<Rightarrow> ('x, 'b) Collection option"
where
  "ReparentChildren X [] C = Some C"
| "ReparentChildren X (Group # rest) C =
     (if \<not> IsValidGroup Group then ReparentChildren X rest C
      else do {
        MergeTransformIdx \<leftarrow> array_get (TransformIndex C) (MergeTo Group);
        Cs \<leftarrow> ChildrenOf C (ToRemove Group);
        ReparentChildren X rest
          (if \<exists>S \<in> set Cs. S \<noteq> {} then ParentTransforms X C MergeTransformIdx Cs else C)
      })"

text \<open>
  \<open>MergeBones\<close>: the returned index, which is \<open>INDEX_NONE\<close>, and the collection.  The meshes
  of both mesh collections are made with the identity as the transform of the collection
  and keep their isolated vertices.
\<close>

definition MergeBones ::
  "('x, 'b) Engine \<Rightarrow> ('x, 'b, 'p, 'c, 'm, 'd) Boundary \<Rightarrow> ('x, 'b) MergeOps \<Rightarrow> ('x, 'b) Collection \<Rightarrow>
   int list \<Rightarrow> real list \<Rightarrow> real \<Rightarrow> int list \<Rightarrow> bool \<Rightarrow> ENeighborSelectionMethod \<Rightarrow>
   (int \<times> ('x, 'b) Collection) option"
where
  "MergeBones E B X Collection0 TransformIndicesView Volumes MinVolume SmallTransformIndices
       bUnionJoinedPieces NeighborSelectionMethod =
     do {
       let C = UpdateProximity X Collection0;
       _ \<leftarrow> Proximity C;
       let TransformIndices =
             (if length TransformIndicesView = 0
              then map int [0..<length (TransformToGeometryIndex C)] else TransformIndicesView);
       if length TransformIndices \<noteq> length Volumes then Some (- 1, C)
       else do {
         (RemoveGroups0, GeomIdxToRemoveGroupIdx) \<leftarrow>
           GroupSmallBones X C TransformIndices Volumes MinVolume SmallTransformIndices
             NeighborSelectionMethod;
         (RemoveGroups, AllRemove, AllUpdate) \<leftarrow> CollectIndices C RemoveGroups0;
         let AllRemoveIndices = sort AllRemove;
         let AllUpdateIndices = sort AllUpdate;
         RemoveMeshes \<leftarrow> Init B C (IdentityTransform E) True AllRemoveIndices;
         UpdateMeshes0 \<leftarrow> Init B C (IdentityTransform E) True AllUpdateIndices;
         GeoIdxToRmMeshIdx \<leftarrow>
           GeoIdxToRmMeshIdxOf C (zip [0..<length RemoveMeshes] RemoveMeshes) [];
         Joined \<leftarrow> JoinUpdated X bUnionJoinedPieces C RemoveGroups GeomIdxToRemoveGroupIdx RemoveMeshes
                     GeoIdxToRmMeshIdx UpdateMeshes0;
         (_, _, C) \<leftarrow> UpdateAllCollections E X Joined C;
         C \<leftarrow> ReparentChildren X RemoveGroups C;
         Some (- 1, RemoveElements X TransformGroup AllRemoveIndices C)
       }
     }"

section \<open>Notions used in the statements and proofs\<close>

text \<open>The material IDs of the faces of geometry \<open>g\<close>, in face order.\<close>

definition GeometryMaterialIDs :: "('x, 'b) Collection \<Rightarrow> int \<Rightarrow> int32 list" where
  "GeometryMaterialIDs C g = take (nat (FaceCount C ! nat g)) (drop (nat (FaceStart C ! nat g)) (MaterialID C))"

text \<open>One round of the counting loop, and what it maintains.\<close>

fun CountStep :: "(int32 \<Rightarrow> int) \<times> int \<times> int32 \<Rightarrow> int32 \<Rightarrow> (int32 \<Rightarrow> int) \<times> int \<times> int32" where
  "CountStep (cnt, mx, most) x = (let c = cnt x + 1; cnt' = cnt (x := c) in if c > mx then (cnt', c, x) else (cnt', mx, most))"

definition CountInv :: "(int32 \<Rightarrow> int) \<times> int \<times> int32 \<Rightarrow> bool" where
  "CountInv st = (case st of (cnt, mx, most) \<Rightarrow> (\<forall>x. 0 \<le> cnt x \<and> cnt x \<le> mx) \<and> (0 < mx \<longrightarrow> cnt most = mx))"

text \<open>
  \<open>overwrite xs start ys\<close> is \<open>xs\<close> with the positions \<open>start\<close>, ..., \<open>start + length ys - 1\<close>
  replaced by \<open>ys\<close>; every other position keeps its element.
\<close>

definition overwrite :: "'a list \<Rightarrow> nat \<Rightarrow> 'a list \<Rightarrow> 'a list" where
  "overwrite xs start ys = take start xs @ ys @ drop (start + length ys) xs"

definition UVRow :: "('x, 'b) Engine \<Rightarrow> Mesh \<Rightarrow> VertexInfo \<Rightarrow> nat \<Rightarrow> vec2 list" where
  "UVRow E M v L = map (\<lambda>l. FVector2DOf E (GetUV E M v l)) [0..<L]"

definition WrittenVertices ::
  "('x, 'b) Engine \<Rightarrow> 'x \<Rightarrow> Mesh \<Rightarrow> nat \<Rightarrow> bool \<Rightarrow> int \<Rightarrow> int \<Rightarrow> nat \<Rightarrow>
   ('x, 'b) Collection \<Rightarrow> ('x, 'b) Collection"
where
  "WrittenVertices E F M L bSetNum vs t k C =
     (let v = (\<lambda>i. the (MeshVertices M ! i)); s = nat vs in
      C \<lparr>Vertex := overwrite (Vertex C) s (map (\<lambda>i. InverseTransformPosition E F (FVectorOf E (Position (v i)))) [0..<k]),
         Normal := overwrite (Normal C) s (map (\<lambda>i. InverseTransformVectorNoScale E F (FVectorOf E (VertexNormal (v i)))) [0..<k]),
         UVs := overwrite (UVs C) s (map (\<lambda>i. UVRow E M (v i) L @ (if bSetNum then [] else drop L (UVs C ! (s + i)))) [0..<k]),
         Color := overwrite (Color C) s (map (\<lambda>i. FVectorOf E (VertexColor (v i))) [0..<k]),
         TangentU := overwrite (TangentU C) s (map (\<lambda>i. InverseTransformVectorNoScale E F (FVectorOf E (VertexTangentU (v i)))) [0..<k]),
         TangentV := overwrite (TangentV C) s (map (\<lambda>i. InverseTransformVectorNoScale E F (FVectorOf E (VertexTangentV (v i)))) [0..<k]),
         BoneMap := overwrite (BoneMap C) s (map (\<lambda>i. t) [0..<k])\<rparr>)"

definition VertexRowsFit :: "('x, 'b) Collection \<Rightarrow> int \<Rightarrow> nat \<Rightarrow> bool" where
  "VertexRowsFit C vs n =
     (0 \<le> vs \<and> nat vs + n \<le> length (Vertex C) \<and> nat vs + n \<le> length (Normal C) \<and>
      nat vs + n \<le> length (UVs C) \<and> nat vs + n \<le> length (Color C) \<and>
      nat vs + n \<le> length (TangentU C) \<and> nat vs + n \<le> length (TangentV C) \<and>
      nat vs + n \<le> length (BoneMap C))"

definition WrittenTriangles ::
  "Mesh \<Rightarrow> int32 \<Rightarrow> int \<Rightarrow> int \<Rightarrow> nat \<Rightarrow> ('x, 'b) Collection \<Rightarrow> ('x, 'b) Collection"
where
  "WrittenTriangles M InternalMaterialID fs vs k C =
     (let t = (\<lambda>i. the (MeshTriangles M ! i)); s = nat fs in
      C \<lparr>Indices := overwrite (Indices C) s
            (map (\<lambda>i. case Triangle (t i) of (a, b, c) \<Rightarrow> (a + vs, b + vs, c + vs)) [0..<k]),
         Visible := overwrite (Visible C) s (map (\<lambda>i. TriVisible (t i)) [0..<k]),
         MaterialID := overwrite (MaterialID C) s
            (map (\<lambda>i. if TriMaterialID (t i) <s 0 then InternalMaterialID else TriMaterialID (t i)) [0..<k])\<rparr>)"

definition FaceRowsFit :: "('x, 'b) Collection \<Rightarrow> int \<Rightarrow> nat \<Rightarrow> bool" where
  "FaceRowsFit C fs n =
     (0 \<le> fs \<and> nat fs + n \<le> length (Indices C) \<and> nat fs + n \<le> length (Visible C) \<and>
      nat fs + n \<le> length (MaterialID C))"

definition PreparedForUpdate :: "('x, 'b) Engine \<Rightarrow> Mesh \<Rightarrow> Mesh" where
  "PreparedForUpdate E Mesh0 = (if \<not> IsCompact Mesh0 then CompactInPlace E Mesh0 else Mesh0)"

definition SlotFits :: "('x, 'b) Collection \<Rightarrow> int \<Rightarrow> nat \<Rightarrow> nat \<Rightarrow> nat \<Rightarrow> bool" where
  "SlotFits C g nv nt L =
     (0 \<le> g \<and> g < int (length (VertexStart C)) \<and> g < int (length (VertexCount C)) \<and>
      g < int (length (FaceStart C)) \<and> g < int (length (TransformIndex C)) \<and>
      g < int (length (BoundingBox C)) \<and> VertexCount C ! nat g = int nv \<and>
      VertexRowsFit C (VertexStart C ! nat g) nv \<and> FaceRowsFit C (FaceStart C ! nat g) nt \<and>
      (\<forall>i<nv. L \<le> length (UVs C ! (nat (VertexStart C ! nat g) + i))))"

definition UpdatedSlot ::
  "('x, 'b) Engine \<Rightarrow> 'x \<Rightarrow> Mesh \<Rightarrow> int \<Rightarrow> int32 \<Rightarrow> ('x, 'b) Collection \<Rightarrow> ('x, 'b) Collection"
where
  "UpdatedSlot E F M g InternalMaterialID C =
     (let vs = VertexStart C ! nat g; fs = FaceStart C ! nat g; t = TransformIndex C ! nat g;
          C1 = WrittenVertices E F M (NumEnabledUVChannels M) False vs t (MaxVertexID M) C;
          C2 = WrittenTriangles M InternalMaterialID fs vs (MaxTriangleID M) C1
      in C2 \<lparr>BoundingBox := (BoundingBox C2)[nat g :=
            foldl (BoxAdd E) (BoxInit E)
              (map (\<lambda>i. InverseTransformPosition E F (FVectorOf E (Position (the (MeshVertices M ! i)))))
                 [0..<MaxVertexID M])]\<rparr>)"

definition WithUVLayers :: "('x, 'b) Engine \<Rightarrow> Mesh \<Rightarrow> ('x, 'b) Collection \<Rightarrow> ('x, 'b) Collection" where
  "WithUVLayers E Mesh0 Output0 =
     SetNumUVLayers E (NumEnabledUVChannels (PreparedForUpdate E Mesh0)) Output0"

definition Aligned :: "('x, 'b) Collection \<Rightarrow> bool" where
  "Aligned C =
     (length (Transform C) = length (TransformToGeometryIndex C) \<and>
      length (Parent C) = length (TransformToGeometryIndex C) \<and>
      length (Children C) = length (TransformToGeometryIndex C) \<and>
      length (SimulationType C) = length (TransformToGeometryIndex C) \<and>
      length (BoneName C) = length (TransformToGeometryIndex C) \<and>
      length (BoneColor C) = length (TransformToGeometryIndex C) \<and>
      length (TransformIndex C) = length (FaceStart C) \<and>
      length (VertexStart C) = length (FaceStart C) \<and>
      length (VertexCount C) = length (FaceStart C) \<and>
      length (FaceCount C) = length (FaceStart C) \<and>
      length (BoundingBox C) = length (FaceStart C) \<and>
      (case Proximity C of None \<Rightarrow> True | Some P \<Rightarrow> length P = length (FaceStart C)) \<and>
      length (Normal C) = length (Vertex C) \<and>
      length (UVs C) = length (Vertex C) \<and>
      length (Color C) = length (Vertex C) \<and>
      length (TangentU C) = length (Vertex C) \<and>
      length (TangentV C) = length (Vertex C) \<and>
      length (BoneMap C) = length (Vertex C) \<and>
      length (Visible C) = length (Indices C) \<and>
      length (MaterialID C) = length (Indices C))"

definition PreparedForAppend :: "('x, 'b) Engine \<Rightarrow> Mesh \<Rightarrow> real \<Rightarrow> Mesh" where
  "PreparedForAppend E Mesh0 CollisionSampleSpacing =
     (let Mesh1 = (if \<not> IsCompact Mesh0 then CompactInPlace E Mesh0 else Mesh0)
      in if CollisionSampleSpacing > 0
         then AddCollisionSamplesPerComponent E Mesh1 CollisionSampleSpacing else Mesh1)"

definition AppendedCollection ::
  "('x, 'b) Engine \<Rightarrow> 'x \<Rightarrow> Mesh \<Rightarrow> int \<Rightarrow> string \<Rightarrow> ('x, 'b) Collection \<Rightarrow> int32 \<Rightarrow> ('x, 'b) Collection"
where
  "AppendedCollection E F M TransformParent Name C InternalMaterialID =
     (let g = int (length (FaceStart C)); t = int (length (TransformToGeometryIndex C));
          nv = int (length (Vertex C)); nf = int (length (Indices C));
          L = (if NumEnabledUVChannels M > 0 then NumEnabledUVChannels M else 1);
          v = (\<lambda>i. the (MeshVertices M ! i)); tr = (\<lambda>i. the (MeshTriangles M ! i));
          p = nat TransformParent;
          Positions = map (\<lambda>i. InverseTransformPosition E F (FVectorOf E (Position (v i)))) [0..<MaxVertexID M];
          Children1 = Children C @ [{}];
          SimulationType1 = SimulationType C @ [NewSimulationType E]
      in C \<lparr>Transform := Transform C @ [IdentityTransform E],
            Parent := Parent C @ [if TransformParent > - 1 then TransformParent else NewIndex E],
            Children := (if TransformParent > - 1 then Children1 [p := insert t (Children1 ! p)] else Children1),
            SimulationType :=
              (if TransformParent > - 1 then SimulationType1 [p := FST_Clustered] else SimulationType1)
                [nat t := FST_Rigid],
            BoneName := BoneName C @ [if TransformParent > - 1 then Name else NewName E],
            BoneColor := BoneColor C @
              [if TransformParent > - 1 then (BoneColor C @ [NewVector E]) ! p else NewVector E],
            TransformToGeometryIndex := TransformToGeometryIndex C @ [g],
            TransformIndex := TransformIndex C @ [t],
            VertexStart := VertexStart C @ [nv],
            VertexCount := VertexCount C @ [int (MeshVertexCount M)],
            FaceStart := FaceStart C @ [nf],
            FaceCount := FaceCount C @ [int (TriangleCount M)],
            BoundingBox := BoundingBox C @ [foldl (BoxAdd E) (BoxInit E) Positions],
            Proximity := map_option (\<lambda>P. P @ [{}]) (Proximity C),
            Vertex := Vertex C @ Positions,
            Normal := Normal C @
              map (\<lambda>i. InverseTransformVectorNoScale E F (FVectorOf E (VertexNormal (v i)))) [0..<MaxVertexID M],
            UVs := UVs C @ map (\<lambda>i. UVRow E M (v i) L) [0..<MaxVertexID M],
            Color := Color C @ map (\<lambda>i. FVectorOf E (VertexColor (v i))) [0..<MaxVertexID M],
            TangentU := TangentU C @
              map (\<lambda>i. InverseTransformVectorNoScale E F (FVectorOf E (VertexTangentU (v i)))) [0..<MaxVertexID M],
            TangentV := TangentV C @
              map (\<lambda>i. InverseTransformVectorNoScale E F (FVectorOf E (VertexTangentV (v i)))) [0..<MaxVertexID M],
            BoneMap := BoneMap C @ map (\<lambda>i. t) [0..<MaxVertexID M],
            Indices := Indices C @
              map (\<lambda>i. case Triangle (tr i) of (a, b, c) \<Rightarrow> (a + nv, b + nv, c + nv)) [0..<MaxTriangleID M],
            Visible := Visible C @ map (\<lambda>i. TriVisible (tr i)) [0..<MaxTriangleID M],
            MaterialID := MaterialID C @
              map (\<lambda>i. if TriMaterialID (tr i) <s 0 then InternalMaterialID else TriMaterialID (tr i))
                [0..<MaxTriangleID M]\<rparr>)"

definition GroutedAt :: "('x, 'b) Engine \<Rightarrow> real \<Rightarrow> FCellMeshes \<Rightarrow> nat \<Rightarrow> Mesh" where
  "GroutedAt E Grout Cells i =
     (if int i = OutsideCellIndex Cells then CellMeshes Cells ! i
      else GroutCell E Grout (NumUVLayers Cells) (CellMeshes Cells ! i))"

text \<open>What a step that may append one geometry does to the collection.\<close>

definition Grown :: "('x, 'b) Collection \<Rightarrow> ('x, 'b) Collection \<Rightarrow> bool" where
  "Grown C C' =
     (Aligned C' \<and>
      prefix (FaceStart C) (FaceStart C') \<and> prefix (FaceCount C) (FaceCount C') \<and>
      prefix (TransformToGeometryIndex C) (TransformToGeometryIndex C') \<and>
      prefix (Visible C) (Visible C') \<and>
      (Proximity C = None) = (Proximity C' = None))"

definition FirstNew :: "nat \<Rightarrow> ('x, 'b) Collection \<Rightarrow> int \<Rightarrow> bool" where
  "FirstNew n C First =
     ((First = - 1 \<and> length (FaceStart C) = n) \<or> (First = int n \<and> length (FaceStart C) > n))"

definition ProxOf :: "int set list \<Rightarrow> int \<Rightarrow> int set" where
  "ProxOf P a = (if 0 \<le> a \<and> a < int (length P) then P ! nat a else {})"

definition SymmetricProximity :: "int set list \<Rightarrow> bool" where
  "SymmetricProximity P = (\<forall>a b. (b \<in> ProxOf P a) = (a \<in> ProxOf P b))"

definition CutInv ::
  "(int set list \<Rightarrow> bool) \<Rightarrow> nat \<Rightarrow> ('x, 'b) Collection \<Rightarrow> ('x, 'b) Collection \<Rightarrow> int \<Rightarrow> bool"
where
  "CutInv Q n C0 C First =
     (Grown C0 C \<and> FirstNew n C First \<and> (case Proximity C of None \<Rightarrow> True | Some P \<Rightarrow> Q P))"

definition FacesOf :: "('x, 'b) Collection \<Rightarrow> int \<Rightarrow> int set" where
  "FacesOf C g =
     (case (array_get (FaceStart C) g, array_get (FaceCount C) g) of
        (Some s, Some c) \<Rightarrow> {s..<s + c}
      | _ \<Rightarrow> {})"

text \<open>
  The multimap is symmetric when every pair is held as often as its mirror image, and a
  multimap is relinked over a set of positions by \<open>ProxLink\<close> between positions of the set
  and by \<open>ProxUnlink\<close>.
\<close>

definition SymmetricLinks :: "(int \<times> int) list \<Rightarrow> bool" where
  "SymmetricLinks L = (\<forall>a b. count_list L (a, b) = count_list L (b, a))"

inductive Relinked :: "int set \<Rightarrow> (int \<times> int) list \<Rightarrow> (int \<times> int) list \<Rightarrow> bool"
  for S :: "int set" and L :: "(int \<times> int) list"
where
  Relinked_same: "Relinked S L L"
| Relinked_link: "Relinked S L L' \<Longrightarrow> A \<in> S \<Longrightarrow> B \<in> S \<Longrightarrow> Relinked S L (ProxLink L' A B)"
| Relinked_unlink: "Relinked S L L' \<Longrightarrow> Relinked S L (ProxUnlink L' A B)"

text \<open>The state after links were added and removed over the positions \<open>S\<close>, the meshes kept.\<close>

definition Relinks :: "int set \<Rightarrow> 'x PlaneLoop \<Rightarrow> 'x PlaneLoop \<Rightarrow> bool" where
  "Relinks S St St' = (ToCut St' = ToCut St \<and> Relinked S (ProximityLinks St) (ProximityLinks St'))"

text \<open>
  What splitting into islands keeps: the meshes at positions that are not among the result
  positions, and the transform of every earlier mesh; the new meshes have the transform
  \<open>t\<close> and their positions are the new result positions.
\<close>

definition SplitKept ::
  "int \<Rightarrow> 'x FMeshData list \<Rightarrow> int list \<Rightarrow> 'x FMeshData list \<Rightarrow> int list \<Rightarrow> bool"
where
  "SplitKept t Cut0 RIs0 Cut RIs =
     (length Cut0 \<le> length Cut \<and>
      (\<forall>j < length Cut0. int j \<notin> set RIs0 \<longrightarrow> Cut ! j = Cut0 ! j) \<and>
      (\<forall>j < length Cut0. MeshTransformIndex (Cut ! j) = MeshTransformIndex (Cut0 ! j)) \<and>
      (\<forall>j. length Cut0 \<le> j \<and> j < length Cut \<longrightarrow> MeshTransformIndex (Cut ! j) = t) \<and>
      set RIs \<subseteq> set RIs0 \<union> {int (length Cut0)..<int (length Cut)})"

text \<open>
  The step for one mesh and one plane: nothing changes, or the mesh was cut; then the
  meshes at the other positions are kept, the mesh at the position and the added meshes
  have the transform of the cut mesh, and the links are relinked over the position, the
  added positions and the positions that were linked before.
\<close>

definition WasCut :: "nat \<Rightarrow> 'x PlaneLoop \<Rightarrow> 'x PlaneLoop \<Rightarrow> bool" where
  "WasCut ToCutIdx St St' =
     (ToCutIdx < length (ToCut St) \<and> length (ToCut St) < length (ToCut St') \<and>
      (\<forall>j < length (ToCut St). j \<noteq> ToCutIdx \<longrightarrow> ToCut St' ! j = ToCut St ! j) \<and>
      (\<forall>j < length (ToCut St'). j = ToCutIdx \<or> length (ToCut St) \<le> j \<longrightarrow>
         MeshTransformIndex (ToCut St' ! j) = MeshTransformIndex (ToCut St ! ToCutIdx)) \<and>
      Relinked ({int ToCutIdx} \<union> {int (length (ToCut St))..} \<union> snd ` set (ProximityLinks St))
        (ProximityLinks St) (ProximityLinks St'))"

text \<open>
  An operation of the engine keeps the geometry rows when it leaves \<open>FaceStart\<close> and
  \<open>FaceCount\<close> as they are.
\<close>

definition KeepsGeometry :: "(('x, 'b) Collection \<Rightarrow> ('x, 'b) Collection) \<Rightarrow> bool" where
  "KeepsGeometry f = (\<forall>C. FaceStart (f C) = FaceStart C \<and> FaceCount (f C) = FaceCount C)"

text \<open>The returned index \<open>r\<close> is \<open>-1\<close> or the first geometry that \<open>C'\<close> has beyond those of \<open>C\<close>.\<close>

definition ReturnsFirstNew :: "('x, 'b) Collection \<Rightarrow> int \<Rightarrow> ('x, 'b) Collection \<Rightarrow> bool" where
  "ReturnsFirstNew C r C' =
     (((r = - 1) = (NumElements C' GeometryGroup = NumElements C GeometryGroup)) \<and>
      (r \<noteq> - 1 \<longrightarrow> r = int (NumElements C GeometryGroup)) \<and>
      prefix (FaceStart C) (FaceStart C') \<and> prefix (FaceCount C) (FaceCount C'))"

text \<open>An operation of the engine keeps the proximity when it leaves the column as it is.\<close>

definition KeepsProximity :: "(('x, 'b) Collection \<Rightarrow> ('x, 'b) Collection) \<Rightarrow> bool" where
  "KeepsProximity f = (\<forall>C. Proximity (f C) = Proximity C)"

text \<open>
  What the merge needs of the operations outside the translated files: \<open>UpdateProximity\<close>
  leaves symmetric sets, \<open>SetNumUVLayers\<close>, \<open>ResizeGeometries\<close> and \<open>ParentTransforms\<close> keep
  the proximity, and \<open>RemoveElements\<close> makes symmetric sets of symmetric sets.
\<close>

definition MergeOperationsSymmetric :: "('x, 'b) Engine \<Rightarrow> ('x, 'b) MergeOps \<Rightarrow> bool" where
  "MergeOperationsSymmetric E X =
     ((\<forall>C. \<exists>P. Proximity (UpdateProximity X C) = Some P \<and> SymmetricProximity P) \<and>
      (\<forall>n. KeepsProximity (SetNumUVLayers E n)) \<and>
      (\<forall>NewFaceCounts NewVertexCounts.
         KeepsProximity (\<lambda>C. ResizeGeometries X C NewFaceCounts NewVertexCounts)) \<and>
      (\<forall>TransformIdx Cs. KeepsProximity (\<lambda>C. ParentTransforms X C TransformIdx Cs)) \<and>
      (\<forall>G Idxs C P. Proximity C = Some P \<and> SymmetricProximity P \<longrightarrow>
         (\<exists>P'. Proximity (RemoveElements X G Idxs C) = Some P' \<and> SymmetricProximity P')))"

subsection \<open>Concrete collections\<close>

definition EmptyCollection :: "(unit, vec3 list) Collection" where
  "EmptyCollection = \<lparr>Transform = [], Parent = [], Children = [], SimulationType = [], BoneName = [], BoneColor = [],
  TransformToGeometryIndex = [], TransformIndex = [], VertexStart = [], VertexCount = [], FaceStart = [], FaceCount = [],
  BoundingBox = [], Proximity = None, Vertex = [], Normal = [], UVs = [], Color = [], TangentU = [], TangentV = [], BoneMap = [],
  Indices = [], Visible = [], MaterialID = []\<rparr>"

definition ExampleFaces :: "(unit, vec3 list) Collection" where
  "ExampleFaces = EmptyCollection \<lparr>FaceStart := [0, 3], FaceCount := [3, 0], Indices := replicate 3 (0, 0, 0),
     Visible := replicate 3 True, MaterialID := [2, 4, 2]\<rparr>"

definition InternalFaces :: "(unit, vec3 list) Collection" where
  "InternalFaces = EmptyCollection \<lparr>FaceStart := [0], FaceCount := [1], Indices := [(0, 0, 0)],
     Visible := [True], MaterialID := [- 1]\<rparr>"

definition TwoBones :: "(unit, vec3 list) Collection" where
  "TwoBones = EmptyCollection \<lparr>TransformToGeometryIndex := [0, 1]\<rparr>"

text \<open>
  Stand-ins for the engine's geometry in the concrete examples: the longest side of the
  box around the vertices, scaling about a point, and appending with shifted vertex IDs.
\<close>

definition ExampleMaxDim :: "Mesh \<Rightarrow> real" where
  "ExampleMaxDim M =
     (let ps = VerticesItr M;
          xs = map fst ps; ys = map (\<lambda>p. fst (snd p)) ps; zs = map (\<lambda>p. snd (snd p)) ps in
      if ps = [] then 0
      else max (Max (set xs) - Min (set xs)) (max (Max (set ys) - Min (set ys)) (Max (set zs) - Min (set zs))))"

definition ExampleScalePoint :: "vec3 \<Rightarrow> vec3 \<Rightarrow> vec3 \<Rightarrow> vec3" where
  "ExampleScalePoint S Origin P =
     (case S of (sx, sy, sz) \<Rightarrow> case Origin of (ox, oy, oz) \<Rightarrow> case P of (px, py, pz) \<Rightarrow>
        ((px - ox) * sx + ox, (py - oy) * sy + oy, (pz - oz) * sz + oz))"

definition ExampleAppendMesh :: "Mesh \<Rightarrow> Mesh \<Rightarrow> Mesh" where
  "ExampleAppendMesh Base ToAppend =
     (let n = int (length (MeshVertices Base)) in
      Base \<lparr>MeshVertices := MeshVertices Base @ MeshVertices ToAppend,
            MeshTriangles := MeshTriangles Base @
              map (map_option (\<lambda>t. t \<lparr>Triangle := (case Triangle t of (a, b, c) \<Rightarrow> (a + n, b + n, c + n))\<rparr>))
                (MeshTriangles ToAppend)\<rparr>)"

text \<open>
  An engine for the concrete examples: transforms do nothing, the conversions keep the
  value, a box is the list of the points added to it, and \<open>SetNumUVLayers n\<close> cuts or fills
  every vertex's row of UVs to \<open>n\<close> entries.
\<close>

definition ExampleEngine :: "(unit, vec3 list) Engine" where
  "ExampleEngine = \<lparr>
     CompactInPlace = (\<lambda>M. M \<lparr>MeshVertices := filter (\<lambda>v. v \<noteq> None) (MeshVertices M),
                               MeshTriangles := filter (\<lambda>t. t \<noteq> None) (MeshTriangles M)\<rparr>),
     AddCollisionSamplesPerComponent = (\<lambda>M Spacing. M),
     InverseTransformPosition = (\<lambda>F v. v),
     InverseTransformVectorNoScale = (\<lambda>F v. v),
     IdentityTransform = (),
     FVectorOf = (\<lambda>v. v),
     FVector2DOf = (\<lambda>v. v),
     UninitializedUV = (0, 0),
     BoxInit = [],
     BoxAdd = (\<lambda>B v. B @ [v]),
     SetNumUVLayers = (\<lambda>n C. C \<lparr>UVs := map (\<lambda>row. take n row @ replicate (n - length row) (0, 0)) (UVs C)\<rparr>),
     FromInt = (\<lambda>i. if i = 0 then ''0'' else if i = 1 then ''1'' else ''n''),
     ZeroTolerance = 1 / 10 ^ 8,
     BoundsMaxDim = ExampleMaxDim,
     Scale = (\<lambda>M S Origin. M \<lparr>MeshVertices :=
        map (map_option (\<lambda>v. v \<lparr>Position := ExampleScalePoint S Origin (Position v)\<rparr>)) (MeshVertices M)\<rparr>),
     AppendMesh = ExampleAppendMesh,
     BoundsIntersect = (\<lambda>A B. True),
     BooleanCompute = (\<lambda>Op Target Cell. if Op = Intersect then Target else Cell),
     SplitIslands = (\<lambda>M. None),
     FindNearestInRadius = (\<lambda>Hashed Ref V. True),
     NewIndex = - 1,
     NewName = [],
     NewVector = (0, 0, 0),
     NewSimulationType = FST_None,
     NewTransform = (),
     NewBox = [],
     NewUVs = [],
     NewTriangle = (0, 0, 0),
     NewVisible = False,
     NewMaterialID = 0\<rparr>"

definition ExampleVertex :: "real \<Rightarrow> real \<Rightarrow> real \<Rightarrow> vec2 list \<Rightarrow> VertexInfo" where
  "ExampleVertex x y z uvs = \<lparr>Position = (x, y, z), VertexNormal = (0, 0, 1), VertexColor = (1, 1, 1),
     VertexTangentU = (1, 0, 0), VertexTangentV = (0, 1, 0), VertexUVs = uvs\<rparr>"

text \<open>One triangle with the internal material ID \<open>-1\<close>; \<open>n\<close> UV channels.\<close>

definition OneTriangle :: "nat \<Rightarrow> Mesh" where
  "OneTriangle n = \<lparr>
     MeshVertices = [Some (ExampleVertex 0 0 0 (replicate n (0, 0))),
                     Some (ExampleVertex 1 0 0 (replicate n (1, 0))),
                     Some (ExampleVertex 0 1 0 (replicate n (0, 1)))],
     MeshTriangles = [Some \<lparr>Triangle = (0, 1, 2), TriMaterialID = - 1, TriVisible = True\<rparr>],
     UVChannels = n\<rparr>"

text \<open>A collection with one transform and one geometry of \<open>nv\<close> vertices and one face.\<close>

definition OneGeometry :: "nat \<Rightarrow> (unit, vec3 list) Collection" where
  "OneGeometry nv = \<lparr>Transform = [()], Parent = [- 1], Children = [{}], SimulationType = [FST_Rigid],
     BoneName = [''Root''], BoneColor = [(1, 1, 1)], TransformToGeometryIndex = [0],
     TransformIndex = [0], VertexStart = [0], VertexCount = [int nv], FaceStart = [0], FaceCount = [1],
     BoundingBox = [[]], Proximity = Some [{}],
     Vertex = replicate nv (5, 5, 5), Normal = replicate nv (0, 0, 1), UVs = replicate nv [(7, 7)],
     Color = replicate nv (0, 0, 0), TangentU = replicate nv (1, 0, 0), TangentV = replicate nv (0, 1, 0),
     BoneMap = replicate nv 0,
     Indices = [(0, 1, 2)], Visible = [True], MaterialID = [0]\<rparr>"

definition NoTriangles :: Mesh where
  "NoTriangles = \<lparr>MeshVertices = [], MeshTriangles = [], UVChannels = 1\<rparr>"

definition ExampleCells :: FCellMeshes where
  "ExampleCells = \<lparr>CellMeshes = [OneTriangle 1, OneTriangle 1, NoTriangles], OutsideCellIndex = 2, NumUVLayers = 1\<rparr>"

definition SingleCell :: FCellMeshes where
  "SingleCell = \<lparr>CellMeshes = [OneTriangle 1], OutsideCellIndex = - 1, NumUVLayers = 1\<rparr>"

definition ExampleTarget :: "unit FMeshData" where
  "ExampleTarget = \<lparr>AugMesh = OneTriangle 1, MeshTransformIndex = 0, FromCollection = ()\<rparr>"

definition TwoCells :: FCellMeshes where
  "TwoCells = \<lparr>CellMeshes = [OneTriangle 1, OneTriangle 1], OutsideCellIndex = - 1, NumUVLayers = 1\<rparr>"

definition ExamplePlaneOps :: "bool PlaneOps" where
  "ExamplePlaneOps = \<lparr>PlaneAABBIntersection = (\<lambda>Plane M. Plane), PlaneCellMeshes = (\<lambda>Plane. TwoCells),
     GroutMeshOf = (\<lambda>Planes Grout. OneTriangle 1)\<rparr>"

definition ExampleBoundary :: "(unit, vec3 list, bool, unit, unit, unit) Boundary" where
  "ExampleBoundary = \<lparr>
     ReindexMaterials = (\<lambda>C. C),
     CollectionToLocal = (\<lambda>C TransformIdx T. T),
     GeometryMesh = (\<lambda>C GeometryIdx T bSave. Some (OneTriangle 1)),
     SetUVScaleFromCollection = (\<lambda>Materials C. Some Materials),
     GlobalMaterialID = (\<lambda>Materials. 7),
     InternalSurfaceMaterials = (\<lambda>Cells. ()),
     SetInternalSurfaceMaterials = (\<lambda>Cells Materials. Cells),
     PlaneCells = (\<lambda>Cells. [(0, 1)]),
     CollectionNumUVLayers = (\<lambda>C. 1),
     PlanarCellMeshes = (\<lambda>NumLayers Cells Meshes Grout bOutside. ExampleCells),
     PlaneOpsOf = (\<lambda>Materials NumLayers Meshes. ExamplePlaneOps),
     CuttingMeshOf = (\<lambda>CuttingMesh T NumLayers. OneTriangle 1)\<rparr>"

definition ExampleMergeOps :: "(unit, vec3 list) MergeOps" where
  "ExampleMergeOps = \<lparr>
     UpdateProximity = (\<lambda>C. C \<lparr>Proximity := Some (replicate (length (FaceStart C)) {})\<rparr>),
     ResizeGeometries = (\<lambda>C NewFaceCounts NewVertexCounts. C),
     ParentTransforms = (\<lambda>C TransformIdx Cs. C),
     RemoveElements = (\<lambda>G Idxs C. C),
     UninitializedCount = 0,
     GroupSmallBones = (\<lambda>C TransformIndices Volumes MinVolume Small Method.
        Some ([\<lparr>MergeTo = 0, MergeTargetVolume = 1, TotalVolume = 1, bRemoveMergeTarget = False,
                 ToRemove = []\<rparr>], [(0, 0)])),
     JoinMeshes = (\<lambda>bUnion Up Rm. AugMesh Up)\<rparr>"

section \<open>Theorems\<close>

subsection \<open>Plane index and material ID\<close>

lemma sint_PlaneToMaterial:
  assumes "0 \<le>s p"
  shows "sint (PlaneToMaterial p) = - (sint p + 1)"
proof -
  from assms have p0: "0 \<le> sint p" by (simp add: word_sle_eq)
  have pu: "sint p < 2 ^ 31" using sint_lt [of p] by simp
  have "PlaneToMaterial p = word_of_int (- (sint p + 1))"
    by (simp add: PlaneToMaterial_def)
  then have "sint (PlaneToMaterial p) = signed_take_bit 31 (- (sint p + 1))"
    by (simp only: sint_sbintrunc') simp
  also have "\<dots> = - (sint p + 1)"
    using p0 pu by (intro signed_take_bit_int_eq_self) auto
  finally show ?thesis .
qed

text \<open>
  C9.  For every plane index \<open>p \<ge> 0\<close> the material ID \<open>PlaneToMaterial p\<close> has the value
  \<open>-(p+1)\<close>, is negative, and \<open>MaterialToPlane\<close> maps it back to \<open>p\<close>; for every material
  ID \<open>m \<ge> 0\<close>, \<open>MaterialToPlane m = -1\<close>.  The values are read as signed 32-bit integers; the
  statement covers \<open>p = 2^31 - 1\<close>, where \<open>p + 1\<close> wraps.
\<close>

theorem PlaneToMaterial_MaterialToPlane:
  "(0 \<le>s p \<longrightarrow>
      sint (PlaneToMaterial p) = - (sint p + 1) \<and> PlaneToMaterial p <s 0 \<and>
      MaterialToPlane (PlaneToMaterial p) = p) \<and>
   (0 \<le>s m \<longrightarrow> MaterialToPlane m = - 1)"
proof (intro conjI impI)
  assume p: "0 \<le>s p"
  show v: "sint (PlaneToMaterial p) = - (sint p + 1)"
    by (rule sint_PlaneToMaterial [OF p])
  from p have p0: "0 \<le> sint p" by (simp add: word_sle_eq)
  with v show neg: "PlaneToMaterial p <s 0" by (simp add: word_sless_alt)
  then have "\<not> 0 \<le>s PlaneToMaterial p" by (simp add: word_sless_alt word_sle_eq)
  then show "MaterialToPlane (PlaneToMaterial p) = p"
    by (simp add: MaterialToPlane_def) (simp add: PlaneToMaterial_def)
next
  assume "0 \<le>s m"
  then show "MaterialToPlane m = - 1" by (simp add: MaterialToPlane_def)
qed

theorem PlaneToMaterial_MaterialToPlane_witness:
  "(0::int32) \<le>s 2147483647 \<and> sint (PlaneToMaterial 2147483647) = - 2147483648 \<and>
   PlaneToMaterial 2147483647 <s 0 \<and>
   MaterialToPlane (PlaneToMaterial 2147483647) = 2147483647 \<and>
   (0::int32) \<le>s 7 \<and> MaterialToPlane 7 = - 1"
  using PlaneToMaterial_MaterialToPlane [of 2147483647 7]
  by (simp add: word_sle_eq)

subsection \<open>Default internal material\<close>

lemma CountMaterialIDs_range:
  "0 \<le> s \<Longrightarrow> e \<le> int (length M) \<Longrightarrow>
   CountMaterialIDs M [s..e - 1] st = Some (foldl CountStep st (take (nat (e - s)) (drop (nat s) M)))"
proof (induction "nat (e - s)" arbitrary: s st)
  case 0
  then show ?case by simp
next
  case (Suc n)
  then have lt: "s < e" by linarith
  then have up: "[s..e - 1] = s # [s + 1..e - 1]" by (simp add: upto_rec1)
  obtain cnt mx most where st: "st = (cnt, mx, most)" by (cases st)
  have n: "n = nat (e - (s + 1))" using Suc.hyps(2) by linarith
  have dr: "take (nat (e - s)) (drop (nat s) M) = (M ! nat s) # take (nat (e - (s + 1))) (drop (nat (s + 1)) M)"
  proof -
    have "nat s < length M" using Suc.prems lt by linarith
    then have "drop (nat s) M = (M ! nat s) # drop (Suc (nat s)) M" by (simp add: Cons_nth_drop_Suc)
    moreover have "nat (e - s) = Suc (nat (e - (s + 1)))" using lt by linarith
    moreover have "Suc (nat s) = nat (s + 1)" using Suc.prems by linarith
    ultimately show ?thesis by simp
  qed
  have ag: "array_get M s = Some (M ! nat s)" using Suc.prems lt by (simp add: array_get_def)
  have IH: "\<And>st'. CountMaterialIDs M [s + 1..e - 1] st' = Some (foldl CountStep st' (take (nat (e - (s + 1))) (drop (nat (s + 1)) M)))"
    using Suc.hyps(1)[OF n] Suc.prems by simp
  show ?case
    unfolding up dr st by (simp add: ag IH Let_def)
qed

lemma CountInv_step:
  assumes "CountInv st"
  shows "CountInv (CountStep st x)"
proof -
  obtain cnt mx most where st: "st = (cnt, mx, most)" by (cases st)
  from assms st have b: "\<And>y. 0 \<le> cnt y" "\<And>y. cnt y \<le> mx" and m: "0 < mx \<Longrightarrow> cnt most = mx"
    by (auto simp: CountInv_def)
  show ?thesis
  proof (cases "cnt x + 1 > mx")
    case True
    have "\<And>y. cnt y \<le> cnt x + 1" using b(2) True by (meson less_imp_le order_trans)
    with True b(1) show ?thesis
      by (auto simp: st CountInv_def Let_def intro: order_trans add_increasing2)
  next
    case False
    then have le: "cnt x + 1 \<le> mx" by simp
    then have "0 < mx" using b(1) [of x] by linarith
    then have cm: "cnt most = mx" by (rule m)
    then have "most \<noteq> x" using le by auto
    with False b le cm show ?thesis
      by (auto simp: st CountInv_def Let_def intro: add_increasing2)
  qed
qed

lemma fst_CountStep: "fst (CountStep st x) y = fst st y + (if x = y then 1 else 0)"
  by (cases st) (auto simp: Let_def)

lemma foldl_CountStep:
  "CountInv st \<Longrightarrow> CountInv (foldl CountStep st ids) \<and> (\<forall>y. fst (foldl CountStep st ids) y = fst st y + int (count_list ids y))"
proof (induction ids arbitrary: st)
  case Nil
  then show ?case by simp
next
  case (Cons x ids)
  from Cons.IH [OF CountInv_step [OF Cons.prems]] show ?case
    by (auto simp: fst_CountStep)
qed

lemma most_frequent:
  assumes "\<forall>x. x \<noteq> M \<longrightarrow> count_list ids x < count_list ids M"
  shows "snd (snd (foldl CountStep (\<lambda>_. 0, 0, m0) ids)) = M"
proof -
  obtain cnt mx most where r: "foldl CountStep (\<lambda>_. 0, 0, m0) ids = (cnt, mx, most)"
    by (cases "foldl CountStep (\<lambda>_. 0, 0, m0) ids")
  have i0: "CountInv (\<lambda>_. 0, 0, m0)" by (simp add: CountInv_def)
  from foldl_CountStep [OF i0, of ids] r
  have inv: "CountInv (cnt, mx, most)" and c: "\<And>y. cnt y = int (count_list ids y)" by auto
  from assms have "count_list ids (M + 1) < count_list ids M" by simp
  then have "0 < cnt M" using c by simp
  moreover from inv have "cnt M \<le> mx" by (auto simp: CountInv_def)
  ultimately have "0 < mx" by simp
  with inv have "cnt most = mx" by (simp add: CountInv_def)
  with \<open>cnt M \<le> mx\<close> have "count_list ids M \<le> count_list ids most" using c by simp
  with assms have "most = M" by (metis not_le)
  with r show ?thesis by simp
qed

lemma smod_2_eq_0: "(k::int) smod 2 = 0 \<longleftrightarrow> even k"
  by (auto simp: smod_int_alt_def sgn_if)

lemma even_sint_iff: "even (sint (w::int32)) \<longleftrightarrow> even w"
  using bit_sint_iff [of w 0] by (simp add: bit_0)

lemma GetDefault_eq:
  assumes g: "0 \<le> g" "g < int (length (FaceStart C))" "g < int (length (FaceCount C))"
    and r: "0 \<le> FaceStart C ! nat g" "FaceStart C ! nat g + FaceCount C ! nat g \<le> int (length (MaterialID C))"
  shows "GetDefaultMaterialIDForGeometry C g =
     (let most = snd (snd (foldl CountStep (\<lambda>_. 0, 0, - 1) (GeometryMaterialIDs C g)));
          mc = (if most = - 1 then 0 else most)
      in Some (if even (sint mc) then mc + 1 else mc))"
proof -
  have fr: "FaceRange C g = Some (FaceStart C ! nat g, FaceCount C ! nat g + FaceStart C ! nat g)"
    using g by (simp add: FaceRange_def array_get_def)
  have cm: "CountMaterialIDs (MaterialID C) [FaceStart C ! nat g..FaceCount C ! nat g + FaceStart C ! nat g - 1] st
      = Some (foldl CountStep st (GeometryMaterialIDs C g))" for st
    using CountMaterialIDs_range [of "FaceStart C ! nat g" "FaceCount C ! nat g + FaceStart C ! nat g" "MaterialID C" st] r
    by (simp add: GeometryMaterialIDs_def add.commute)
  show ?thesis
    unfolding GetDefaultMaterialIDForGeometry_def fr
    by (simp add: cm Let_def smod_2_eq_0 split: prod.splits)
qed

text \<open>
  C8 (as amended).  Let geometry \<open>g\<close> have a face range inside the face arrays.  If \<open>M\<close> is
  the unique most frequent material ID of its faces and \<open>M \<noteq> -1\<close>, the function returns
  \<open>M + 1\<close> when \<open>M\<close> is even and \<open>M\<close> when \<open>M\<close> is odd; if \<open>M = -1\<close> it returns 1, because
  \<open>-1\<close> is also the value that stands for "no face seen" and is replaced by 0.  For a
  geometry with no faces it returns 1.  The returned ID is always odd.
\<close>

theorem GetDefaultMaterialID_most_frequent:
  assumes g: "0 \<le> g" "g < int (length (FaceStart C))" "g < int (length (FaceCount C))"
    and r: "0 \<le> FaceStart C ! nat g" "FaceStart C ! nat g + FaceCount C ! nat g \<le> int (length (MaterialID C))"
  shows "((\<forall>x. x \<noteq> M \<longrightarrow> count_list (GeometryMaterialIDs C g) x < count_list (GeometryMaterialIDs C g) M) \<longrightarrow>
           GetDefaultMaterialIDForGeometry C g =
             Some (if M = - 1 then 1 else if even (sint M) then M + 1 else M)) \<and>
         (FaceCount C ! nat g \<le> 0 \<longrightarrow> GetDefaultMaterialIDForGeometry C g = Some 1) \<and>
         (\<exists>m. GetDefaultMaterialIDForGeometry C g = Some m \<and> odd (sint m))"
proof (intro conjI impI)
  note eq = GetDefault_eq [OF g r]
  {
    assume "\<forall>x. x \<noteq> M \<longrightarrow> count_list (GeometryMaterialIDs C g) x < count_list (GeometryMaterialIDs C g) M"
    then have "snd (snd (foldl CountStep (\<lambda>_. 0, 0, - 1) (GeometryMaterialIDs C g))) = M"
      by (rule most_frequent)
    then show "GetDefaultMaterialIDForGeometry C g = Some (if M = - 1 then 1 else if even (sint M) then M + 1 else M)"
      by (simp add: eq Let_def)
  }
  {
    assume "FaceCount C ! nat g \<le> 0"
    then have "GeometryMaterialIDs C g = []" by (simp add: GeometryMaterialIDs_def)
    then show "GetDefaultMaterialIDForGeometry C g = Some 1" by (simp add: eq Let_def)
  }
  show "\<exists>m. GetDefaultMaterialIDForGeometry C g = Some m \<and> odd (sint m)"
    by (simp add: eq Let_def even_sint_iff)
qed

theorem GetDefaultMaterialID_most_frequent_witness:
  "GeometryMaterialIDs ExampleFaces 0 = [2, 4, 2] \<and>
   GetDefaultMaterialIDForGeometry ExampleFaces 0 = Some 3 \<and>
   FaceCount ExampleFaces ! nat 1 \<le> 0 \<and>
   GetDefaultMaterialIDForGeometry ExampleFaces 1 = Some 1 \<and> odd (sint (3::int32))"
proof -
  have u: "\<forall>x. x \<noteq> 2 \<longrightarrow> count_list (GeometryMaterialIDs ExampleFaces 0) x < count_list (GeometryMaterialIDs ExampleFaces 0) 2"
    by (simp add: GeometryMaterialIDs_def ExampleFaces_def EmptyCollection_def)
  have a: "GetDefaultMaterialIDForGeometry ExampleFaces 0 = Some 3"
    using GetDefaultMaterialID_most_frequent [of 0 ExampleFaces 2] u
    by (simp add: ExampleFaces_def EmptyCollection_def)
  have b: "GetDefaultMaterialIDForGeometry ExampleFaces 1 = Some 1"
    using GetDefaultMaterialID_most_frequent [of 1 ExampleFaces 2]
    by (simp add: ExampleFaces_def EmptyCollection_def)
  have i: "GeometryMaterialIDs ExampleFaces 0 = [2, 4, 2]"
    by (simp add: GeometryMaterialIDs_def ExampleFaces_def EmptyCollection_def)
  from i a b show ?thesis by (simp add: ExampleFaces_def EmptyCollection_def)
qed

text \<open>
  C8 as stated fails at \<open>M = -1\<close>: a geometry whose only face has material ID \<open>-1\<close> has the
  odd, unique most frequent ID \<open>-1\<close>, and the function returns 1, not \<open>-1\<close>.
\<close>

theorem GetDefaultMaterialID_minus_one:
  "GeometryMaterialIDs InternalFaces 0 = [- 1] \<and> odd (sint (- 1 :: int32)) \<and>
   GetDefaultMaterialIDForGeometry InternalFaces 0 = Some 1 \<and> (1 :: int32) \<noteq> - 1"
  by (simp add: GeometryMaterialIDs_def InternalFaces_def EmptyCollection_def
      GetDefaultMaterialIDForGeometry_def FaceRange_def array_get_def upto.simps)


subsection \<open>Small bones\<close>

text \<open>
  C6.  \<open>FindSmallBones\<close> reads \<open>Volumes\<close> at the transform index, not at the position of the
  target in \<open>TransformIndices\<close>.  For targets \<open>[1, 0]\<close> with per-target volumes \<open>[0, 10]\<close>
  and \<open>MinVolume = 1\<close> it reports transform 0, whose volume is 10, where the per-position
  reading selects transform 1, whose volume is 0.
\<close>

theorem FindSmallBones_reads_Volumes_at_TransformIdx:
  "FindSmallBones TwoBones [1, 0] [0, 10] 1 = Some [0] \<and>
   map fst (filter (\<lambda>(t, v). TransformToGeometryIndex TwoBones ! nat t > - 1 \<and> v < 1) (zip [1, 0] [0, 10 :: real])) = [1]"
  by (simp add: FindSmallBones_def AddIdx_def array_get_def TwoBones_def EmptyCollection_def)


subsection \<open>Updating a geometry in place\<close>

lemma length_overwrite: "start + length ys \<le> length xs \<Longrightarrow> length (overwrite xs start ys) = length xs"
  by (simp add: overwrite_def)

lemma overwrite_Nil: "overwrite xs start [] = xs"
  by (simp add: overwrite_def)

lemma overwrite_snoc:
  assumes "start + length ys < length xs"
  shows "(overwrite xs start ys)[start + length ys := v] = overwrite xs start (ys @ [v])"
proof -
  have "drop (start + length ys) xs = xs ! (start + length ys) # drop (Suc (start + length ys)) xs"
    using assms by (simp add: Cons_nth_drop_Suc)
  then show ?thesis
    using assms by (simp add: overwrite_def list_update_append)
qed

lemma array_set_overwrite:
  assumes "0 \<le> vs" "nat vs + length ys < length xs"
  shows "array_set (overwrite xs (nat vs) ys) (vs + int (length ys)) v = Some (overwrite xs (nat vs) (ys @ [v]))"
proof -
  have "nat (vs + int (length ys)) = nat vs + length ys" using assms by linarith
  then show ?thesis
    using assms overwrite_snoc [of "nat vs" ys xs v]
    by (simp add: array_set_def length_overwrite)
qed

lemma array_get_overwrite:
  assumes "0 \<le> vs" "nat vs + length ys < length xs"
  shows "array_get (overwrite xs (nat vs) ys) (vs + int (length ys)) = Some (xs ! (nat vs + length ys))"
proof -
  have n: "nat (vs + int (length ys)) = nat vs + length ys" using assms by linarith
  have "overwrite xs (nat vs) ys ! (nat vs + length ys) = xs ! (nat vs + length ys)"
    using assms by (simp add: overwrite_def nth_append)
  then show ?thesis
    using assms by (simp add: array_get_def length_overwrite n)
qed

lemma CopyUVLayers_append:
  "CopyUVLayers E M v (xs @ ys) row = Option.bind (CopyUVLayers E M v xs row) (CopyUVLayers E M v ys)"
  by (induction xs arbitrary: row) (auto split: Option.bind_split)

lemma CopyUVLayers_upt:
  "L \<le> length row \<Longrightarrow> CopyUVLayers E M v [0..<L] row = Some (UVRow E M v L @ drop L row)"
proof (induction L)
  case 0
  then show ?case by (simp add: UVRow_def)
next
  case (Suc L)
  then have lt: "L < length row" by simp
  then have d: "drop L row = row ! L # drop (Suc L) row" by (simp add: Cons_nth_drop_Suc)
  have len: "length (UVRow E M v L) = L" by (simp add: UVRow_def)
  have "array_set (UVRow E M v L @ drop L row) (int L) x = Some (UVRow E M v L @ x # drop (Suc L) row)" for x
    using lt by (simp add: array_set_def len d list_update_append)
  then show ?case
    using Suc by (simp add: CopyUVLayers_append UVRow_def)
qed

lemma CopyVertices_append:
  "CopyVertices E F M L b vs t (xs @ ys) C = Option.bind (CopyVertices E F M L b vs t xs C) (CopyVertices E F M L b vs t ys)"
  by (induction xs arbitrary: C) (auto split: Option.bind_split)

lemma CopyTriangles_append:
  "CopyTriangles M I fs vs (xs @ ys) C = Option.bind (CopyTriangles M I fs vs xs C) (CopyTriangles M I fs vs ys)"
  by (induction xs arbitrary: C) (auto split: Option.bind_split)

lemma SetNum_CopyUVLayers:
  "CopyUVLayers E M v [0..<L] (SetNum E L row) = Some (UVRow E M v L)"
proof -
  have "length (SetNum E L row) = L" by (simp add: SetNum_def)
  then show ?thesis using CopyUVLayers_upt [of L "SetNum E L row" E M v] by simp
qed

lemma CopyVertices_upt:
  assumes fit: "VertexRowsFit C vs n"
    and comp: "\<forall>i<n. i < length (MeshVertices M) \<and> MeshVertices M ! i \<noteq> None"
    and rows: "bSetNum \<or> (\<forall>i<n. L \<le> length (UVs C ! (nat vs + i)))"
    and k: "k \<le> n"
  shows "CopyVertices E F M L bSetNum vs t [0..<k] C = Some (WrittenVertices E F M L bSetNum vs t k C)"
  using k
proof (induction k)
  case 0
  then show ?case by (simp add: WrittenVertices_def overwrite_Nil)
next
  case (Suc k)
  then have kn: "k < n" by simp
  let ?W = "WrittenVertices E F M L bSetNum vs t k C"
  from comp kn obtain v where v: "GetVertexInfo M k = Some v" "the (MeshVertices M ! k) = v"
    by (auto simp: GetVertexInfo_def)
  from fit have vs0: "0 \<le> vs" by (simp add: VertexRowsFit_def)
  have lens: "nat vs + k < length (Vertex C)" "nat vs + k < length (Normal C)" "nat vs + k < length (UVs C)"
    "nat vs + k < length (Color C)" "nat vs + k < length (TangentU C)" "nat vs + k < length (TangentV C)"
    "nat vs + k < length (BoneMap C)"
    using fit kn by (auto simp: VertexRowsFit_def)
  have row: "CopyUVLayers E M v [0..<L] (if bSetNum then SetNum E L (UVs C ! (nat vs + k)) else UVs C ! (nat vs + k))
      = Some (UVRow E M v L @ (if bSetNum then [] else drop L (UVs C ! (nat vs + k))))"
    using rows kn by (auto simp: SetNum_CopyUVLayers CopyUVLayers_upt)
  have as: "array_set (overwrite xs (nat vs) (map f [0..<k])) (vs + int k) x
       = Some (overwrite xs (nat vs) (map f [0..<k] @ [x]))" if "nat vs + k < length xs" for xs :: "'c list" and f x
    using array_set_overwrite [OF vs0, of "map f [0..<k]" xs x] that by simp
  have ag: "array_get (overwrite xs (nat vs) (map f [0..<k])) (vs + int k) = Some (xs ! (nat vs + k))"
    if "nat vs + k < length xs" for xs :: "'c list" and f
    using array_get_overwrite [OF vs0, of "map f [0..<k]" xs] that by simp
  have step: "CopyVertex E F M L bSetNum vs t ?W k = Some (WrittenVertices E F M L bSetNum vs t (Suc k) C)"
    unfolding CopyVertex_def
    by (simp add: v WrittenVertices_def Let_def lens row as ag)
  show ?case
    using Suc.IH kn by (simp add: CopyVertices_append step)
qed

lemma CopyTriangles_upt:
  assumes fit: "FaceRowsFit C fs n"
    and comp: "\<forall>i<n. i < length (MeshTriangles M) \<and> MeshTriangles M ! i \<noteq> None"
    and k: "k \<le> n"
  shows "CopyTriangles M I fs vs [0..<k] C = Some (WrittenTriangles M I fs vs k C)"
  using k
proof (induction k)
  case 0
  then show ?case by (simp add: WrittenTriangles_def overwrite_Nil)
next
  case (Suc k)
  then have kn: "k < n" by simp
  let ?W = "WrittenTriangles M I fs vs k C"
  from comp kn obtain t where t: "GetTriangleInfo M k = Some t" "the (MeshTriangles M ! k) = t"
    by (auto simp: GetTriangleInfo_def)
  from fit have fs0: "0 \<le> fs" by (simp add: FaceRowsFit_def)
  have lens: "nat fs + k < length (Indices C)" "nat fs + k < length (Visible C)" "nat fs + k < length (MaterialID C)"
    using fit kn by (auto simp: FaceRowsFit_def)
  have as: "array_set (overwrite xs (nat fs) (map f [0..<k])) (fs + int k) x
       = Some (overwrite xs (nat fs) (map f [0..<k] @ [x]))" if "nat fs + k < length xs" for xs :: "'c list" and f x
    using array_set_overwrite [OF fs0, of "map f [0..<k]" xs x] that by simp
  have step: "CopyTriangle M I fs vs ?W k = Some (WrittenTriangles M I fs vs (Suc k) C)"
    unfolding CopyTriangle_def
    by (simp add: t WrittenTriangles_def Let_def lens as)
  show ?case
    using Suc.IH kn by (simp add: CopyTriangles_append step)
qed

lemma BoxOfVertices_range:
  "0 \<le> s \<Longrightarrow> e \<le> int (length Vs) \<Longrightarrow>
   BoxOfVertices E Vs [s..e - 1] Box = Some (foldl (BoxAdd E) Box (take (nat (e - s)) (drop (nat s) Vs)))"
proof (induction "nat (e - s)" arbitrary: s Box)
  case 0
  then show ?case by simp
next
  case (Suc n)
  then have lt: "s < e" by linarith
  then have up: "[s..e - 1] = s # [s + 1..e - 1]" by (simp add: upto_rec1)
  have n: "n = nat (e - (s + 1))" using Suc.hyps(2) by linarith
  have dr: "take (nat (e - s)) (drop (nat s) Vs) = (Vs ! nat s) # take (nat (e - (s + 1))) (drop (nat (s + 1)) Vs)"
  proof -
    have "nat s < length Vs" using Suc.prems lt by linarith
    then have "drop (nat s) Vs = (Vs ! nat s) # drop (Suc (nat s)) Vs" by (simp add: Cons_nth_drop_Suc)
    moreover have "nat (e - s) = Suc (nat (e - (s + 1)))" using lt by linarith
    moreover have "Suc (nat s) = nat (s + 1)" using Suc.prems by linarith
    ultimately show ?thesis by simp
  qed
  have ag: "array_get Vs s = Some (Vs ! nat s)" using Suc.prems lt by (simp add: array_get_def)
  have IH: "\<And>B. BoxOfVertices E Vs [s + 1..e - 1] B = Some (foldl (BoxAdd E) B (take (nat (e - (s + 1))) (drop (nat (s + 1)) Vs)))"
    using Suc.hyps(1)[OF n] Suc.prems by simp
  show ?case
    unfolding up dr by (simp add: ag IH)
qed

lemma take_drop_overwrite:
  "s + length ys \<le> length xs \<Longrightarrow> take (length ys) (drop s (overwrite xs s ys)) = ys"
  by (simp add: overwrite_def)

lemma filter_not_None: "None \<notin> set xs \<Longrightarrow> filter (\<lambda>v. v \<noteq> None) xs = xs"
  by (intro filter_True) metis

lemma IsCompact_counts:
  "IsCompact M \<Longrightarrow> MeshVertexCount M = MaxVertexID M \<and> TriangleCount M = MaxTriangleID M"
  unfolding IsCompact_def MeshVertexCount_def TriangleCount_def MaxVertexID_def MaxTriangleID_def
  using filter_not_None [of "MeshVertices M"] filter_not_None [of "MeshTriangles M"]
  by (elim conjE) (simp only:, simp)

lemma IsCompact_nth:
  "IsCompact M \<Longrightarrow> (\<forall>i<MaxVertexID M. i < length (MeshVertices M) \<and> MeshVertices M ! i \<noteq> None) \<and>
     (\<forall>i<MaxTriangleID M. i < length (MeshTriangles M) \<and> MeshTriangles M ! i \<noteq> None)"
  unfolding IsCompact_def MaxVertexID_def MaxTriangleID_def by (metis nth_mem)

lemma UpdateCollection_mismatch:
  assumes "0 \<le> g" "g < int (length (VertexCount Output0))" "g < int (length (FaceCount Output0))"
    and "VertexCount Output0 ! nat g \<noteq> int (MeshVertexCount (PreparedForUpdate E Mesh0)) \<or>
         FaceCount Output0 ! nat g \<noteq> int (TriangleCount (PreparedForUpdate E Mesh0))"
  shows "UpdateCollection E F Mesh0 g Output0 I =
     Some (False, PreparedForUpdate E Mesh0,
           SetNumUVLayers E (NumEnabledUVChannels (PreparedForUpdate E Mesh0)) Output0)"
  using assms
  by (auto simp: UpdateCollection_def PreparedForUpdate_def array_get_def Let_def)

lemma UpdateCollection_match:
  fixes E :: "('x, 'b) Engine"
  assumes g: "0 \<le> g" "g < int (length (VertexCount Output0))" "g < int (length (FaceCount Output0))"
    and M: "M = PreparedForUpdate E Mesh0"
    and O1: "O1 = SetNumUVLayers E (NumEnabledUVChannels M) Output0"
    and eq: "VertexCount Output0 ! nat g = int (MeshVertexCount M)"
            "FaceCount Output0 ! nat g = int (TriangleCount M)"
    and comp: "IsCompact M"
    and fit: "SlotFits O1 g (MeshVertexCount M) (TriangleCount M) (NumEnabledUVChannels M)"
  shows "UpdateCollection E F Mesh0 g Output0 I = Some (True, M, UpdatedSlot E F M g I O1)"
proof -
  let ?vs = "VertexStart O1 ! nat g" and ?fs = "FaceStart O1 ! nat g" and ?t = "TransformIndex O1 ! nat g"
  let ?L = "NumEnabledUVChannels M"
  let ?n = "MaxVertexID M" and ?m = "MaxTriangleID M"
  note cnt = IsCompact_counts [OF comp]
  note nth = IsCompact_nth [OF comp]
  from fit have vfit: "VertexRowsFit O1 ?vs ?n" and ffit: "FaceRowsFit O1 ?fs ?m"
    and rows: "\<forall>i<?n. ?L \<le> length (UVs O1 ! (nat ?vs + i))"
    and gr: "g < int (length (VertexStart O1))" "g < int (length (VertexCount O1))" "g < int (length (FaceStart O1))"
      "g < int (length (TransformIndex O1))" "g < int (length (BoundingBox O1))"
    and vc: "VertexCount O1 ! nat g = int ?n"
    by (simp_all add: SlotFits_def cnt)
  let ?C1 = "WrittenVertices E F M ?L False ?vs ?t ?n O1"
  let ?C2 = "WrittenTriangles M I ?fs ?vs ?m ?C1"
  have cv: "CopyVertices E F M ?L False ?vs ?t [0..<?n] O1 = Some ?C1"
    using CopyVertices_upt [OF vfit _ _ le_refl, of M False ?L E F ?t] nth rows by simp
  have ffit1: "FaceRowsFit ?C1 ?fs ?m"
    using ffit by (simp add: FaceRowsFit_def WrittenVertices_def Let_def)
  have ct: "CopyTriangles M I ?fs ?vs [0..<?m] ?C1 = Some ?C2"
    using CopyTriangles_upt [OF ffit1 _ le_refl, of M I ?vs] nth by simp
  have bbl: "length (BoundingBox ?C2) = length (BoundingBox O1)" "VertexCount ?C2 = VertexCount O1"
    by (simp_all add: WrittenTriangles_def WrittenVertices_def Let_def)
  have vx: "Vertex ?C2 = overwrite (Vertex O1) (nat ?vs)
       (map (\<lambda>i. InverseTransformPosition E F (FVectorOf E (Position (the (MeshVertices M ! i))))) [0..<?n])"
    by (simp add: WrittenTriangles_def WrittenVertices_def Let_def)
  from vfit have vs0: "0 \<le> ?vs" and vlen: "nat ?vs + ?n \<le> length (Vertex O1)"
    by (simp_all add: VertexRowsFit_def)
  have box: "BoxOfVertices E (Vertex ?C2) [?vs..?vs + int ?n - 1] (BoxInit E)
     = Some (foldl (BoxAdd E) (BoxInit E)
         (map (\<lambda>i. InverseTransformPosition E F (FVectorOf E (Position (the (MeshVertices M ! i))))) [0..<?n]))"
  proof -
    have "?vs + int ?n \<le> int (length (Vertex ?C2))"
      using vlen vs0 by (simp add: vx length_overwrite)
    from BoxOfVertices_range [OF vs0 this, of E "BoxInit E"]
    show ?thesis
      using take_drop_overwrite [of "nat ?vs" "map f [0..<?n]" "Vertex O1" for f] vlen
      by (simp add: vx)
  qed
  have gl: "BoundingBox O1 \<noteq> []" using gr g by auto
  then have bbne: "BoundingBox ?C2 \<noteq> []" using bbl(1) by (metis length_0_conv)
  have ub: "UpdateBoundingBox E g [?vs..?vs + int ?n - 1] ?C2 = Some (UpdatedSlot E F M g I O1)"
    using g gr
    by (simp add: UpdateBoundingBox_def bbl box array_get_def array_set_def UpdatedSlot_def Let_def gl)
  show ?thesis
    unfolding UpdateCollection_def
    using g gr eq
    by (simp add: M [symmetric, unfolded PreparedForUpdate_def] O1 [symmetric] Let_def array_get_def
        cv ct bbl(2) bbne vc ub)
qed

text \<open>
  C4 (as amended).  Let \<open>M\<close> be the replacement mesh as compacted and \<open>O1\<close> the collection
  after \<open>SetNumUVLayers\<close>, which \<open>UpdateCollection\<close> calls with the mesh's number of UV
  channels before it compares the counts.  If the vertex count or the triangle count of
  \<open>M\<close> differs from the slot's \<open>VertexCount\<close> or \<open>FaceCount\<close>, the function returns
  \<open>false\<close> and the collection is \<open>O1\<close>: nothing else has been written.  If both counts
  match (and \<open>M\<close> is compact and the slot lies inside the columns of \<open>O1\<close>), it returns \<open>true\<close>
  and the collection is \<open>O1\<close> with exactly the slot's vertex range (positions, normals, UVs,
  colours, tangents, bone map) and face range (triangle indices, visibility, material IDs)
  overwritten, positions through \<open>InverseTransformPosition\<close> and normals and tangents
  through \<open>InverseTransformVectorNoScale\<close> of \<open>FromCollection\<close>, negative material IDs
  replaced by the internal material ID, and the slot's bounding box rebuilt from the
  copied positions.
\<close>

theorem UpdateCollection_counts:
  fixes E :: "('x, 'b) Engine"
  assumes "0 \<le> g" "g < int (length (VertexCount Output0))" "g < int (length (FaceCount Output0))"
  shows
    "(VertexCount Output0 ! nat g \<noteq> int (MeshVertexCount (PreparedForUpdate E Mesh0)) \<or>
      FaceCount Output0 ! nat g \<noteq> int (TriangleCount (PreparedForUpdate E Mesh0)) \<longrightarrow>
        UpdateCollection E F Mesh0 g Output0 I =
          Some (False, PreparedForUpdate E Mesh0, WithUVLayers E Mesh0 Output0)) \<and>
     (VertexCount Output0 ! nat g = int (MeshVertexCount (PreparedForUpdate E Mesh0)) \<and>
      FaceCount Output0 ! nat g = int (TriangleCount (PreparedForUpdate E Mesh0)) \<and>
      IsCompact (PreparedForUpdate E Mesh0) \<and>
      SlotFits (WithUVLayers E Mesh0 Output0) g (MeshVertexCount (PreparedForUpdate E Mesh0))
        (TriangleCount (PreparedForUpdate E Mesh0)) (NumEnabledUVChannels (PreparedForUpdate E Mesh0)) \<longrightarrow>
        UpdateCollection E F Mesh0 g Output0 I =
          Some (True, PreparedForUpdate E Mesh0,
                UpdatedSlot E F (PreparedForUpdate E Mesh0) g I (WithUVLayers E Mesh0 Output0)))"
proof (intro conjI impI)
  assume "VertexCount Output0 ! nat g \<noteq> int (MeshVertexCount (PreparedForUpdate E Mesh0)) \<or>
      FaceCount Output0 ! nat g \<noteq> int (TriangleCount (PreparedForUpdate E Mesh0))"
  from UpdateCollection_mismatch [OF assms this]
  show "UpdateCollection E F Mesh0 g Output0 I =
          Some (False, PreparedForUpdate E Mesh0, WithUVLayers E Mesh0 Output0)"
    by (simp add: WithUVLayers_def)
next
  assume a: "VertexCount Output0 ! nat g = int (MeshVertexCount (PreparedForUpdate E Mesh0)) \<and>
      FaceCount Output0 ! nat g = int (TriangleCount (PreparedForUpdate E Mesh0)) \<and>
      IsCompact (PreparedForUpdate E Mesh0) \<and>
      SlotFits (WithUVLayers E Mesh0 Output0) g (MeshVertexCount (PreparedForUpdate E Mesh0))
        (TriangleCount (PreparedForUpdate E Mesh0)) (NumEnabledUVChannels (PreparedForUpdate E Mesh0))"
  show "UpdateCollection E F Mesh0 g Output0 I =
          Some (True, PreparedForUpdate E Mesh0,
                UpdatedSlot E F (PreparedForUpdate E Mesh0) g I (WithUVLayers E Mesh0 Output0))"
    using a by (intro UpdateCollection_match [OF assms refl]) (simp_all add: WithUVLayers_def)
qed

lemma OneTriangle_facts:
  "IsCompact (OneTriangle n)" "MeshVertexCount (OneTriangle n) = 3" "TriangleCount (OneTriangle n) = 1"
  "NumEnabledUVChannels (OneTriangle n) = n" "PreparedForUpdate E (OneTriangle n) = OneTriangle n"
  by (simp_all add: OneTriangle_def IsCompact_def MeshVertexCount_def TriangleCount_def
      NumEnabledUVChannels_def PreparedForUpdate_def)

theorem UpdateCollection_counts_witness:
  "VertexCount (OneGeometry 4) ! nat 0 \<noteq> int (MeshVertexCount (PreparedForUpdate ExampleEngine (OneTriangle 1))) \<and>
   UpdateCollection ExampleEngine () (OneTriangle 1) 0 (OneGeometry 4) 3 =
     Some (False, OneTriangle 1, OneGeometry 4) \<and>
   SlotFits (WithUVLayers ExampleEngine (OneTriangle 1) (OneGeometry 3)) 0 3 1 1 \<and>
   (\<exists>C. UpdateCollection ExampleEngine () (OneTriangle 1) 0 (OneGeometry 3) 3 = Some (True, OneTriangle 1, C) \<and>
        Vertex C = [(0, 0, 0), (1, 0, 0), (0, 1, 0)] \<and> MaterialID C = [3] \<and>
        BoundingBox C = [[(0, 0, 0), (1, 0, 0), (0, 1, 0)]])"
proof -
  have w4: "WithUVLayers ExampleEngine (OneTriangle 1) (OneGeometry 4) = OneGeometry 4"
    by (simp add: WithUVLayers_def OneTriangle_facts ExampleEngine_def OneGeometry_def)
  have w3: "WithUVLayers ExampleEngine (OneTriangle 1) (OneGeometry 3) = OneGeometry 3"
    by (simp add: WithUVLayers_def OneTriangle_facts ExampleEngine_def OneGeometry_def)
  have fit: "SlotFits (OneGeometry 3) 0 3 1 1"
    by (simp add: SlotFits_def VertexRowsFit_def FaceRowsFit_def OneGeometry_def)
  have ne: "VertexCount (OneGeometry 4) ! nat 0 \<noteq> int (MeshVertexCount (PreparedForUpdate ExampleEngine (OneTriangle 1)))"
    by (simp add: OneTriangle_facts OneGeometry_def)
  have r: "0 \<le> (0::int)" "0 < int (length (VertexCount (OneGeometry n)))" "0 < int (length (FaceCount (OneGeometry n)))" for n
    by (simp_all add: OneGeometry_def)
  have eq: "VertexCount (OneGeometry 3) ! nat 0 = 3" "FaceCount (OneGeometry 3) ! nat 0 = 1"
    by (simp_all add: OneGeometry_def)
  have A: "UpdateCollection ExampleEngine () (OneTriangle 1) 0 (OneGeometry 4) 3 =
     Some (False, OneTriangle 1, OneGeometry 4)"
    using UpdateCollection_counts [OF r, of 4 ExampleEngine "OneTriangle 1" "()" 3] ne
    by (simp add: OneTriangle_facts w4 del: One_nat_def)
  have B: "UpdateCollection ExampleEngine () (OneTriangle 1) 0 (OneGeometry 3) 3 =
     Some (True, OneTriangle 1, UpdatedSlot ExampleEngine () (OneTriangle 1) 0 3 (OneGeometry 3))"
    using UpdateCollection_counts [OF r, of 3 ExampleEngine "OneTriangle 1" "()" 3] fit eq
    by (simp add: OneTriangle_facts w3 del: One_nat_def)
  have C: "Vertex (UpdatedSlot ExampleEngine () (OneTriangle 1) 0 3 (OneGeometry 3)) = [(0, 0, 0), (1, 0, 0), (0, 1, 0)]"
    "MaterialID (UpdatedSlot ExampleEngine () (OneTriangle 1) 0 3 (OneGeometry 3)) = [3]"
    "BoundingBox (UpdatedSlot ExampleEngine () (OneTriangle 1) 0 3 (OneGeometry 3)) = [[(0, 0, 0), (1, 0, 0), (0, 1, 0)]]"
    by (simp_all add: UpdatedSlot_def WrittenVertices_def WrittenTriangles_def Let_def overwrite_def
        OneGeometry_def OneTriangle_def ExampleVertex_def ExampleEngine_def MaxVertexID_def MaxTriangleID_def
        NumEnabledUVChannels_def upt_rec word_sless_alt)
  show ?thesis using ne A B C fit w3 by (simp del: One_nat_def)
qed

text \<open>
  C4 as stated fails where the mesh and the collection differ in the number of UV layers:
  the mesh has 2 UV channels and 3 vertices, the slot has 4 vertices with one UV layer
  each.  The function returns \<open>false\<close>, and every vertex of the slot has got a second UV
  entry.
\<close>

theorem UpdateCollection_sets_UV_layers_before_check:
  "VertexCount (OneGeometry 4) ! nat 0 \<noteq> int (MeshVertexCount (OneTriangle 2)) \<and>
   IsCompact (OneTriangle 2) \<and>
   UVs (OneGeometry 4) = replicate 4 [(7, 7)] \<and> [(7, 7)] \<noteq> [(7, 7), (0, 0 :: real)] \<and>
   UpdateCollection ExampleEngine () (OneTriangle 2) 0 (OneGeometry 4) 3 =
     Some (False, OneTriangle 2, (OneGeometry 4) \<lparr>UVs := replicate 4 [(7, 7), (0, 0)]\<rparr>)"
proof -
  have "UpdateCollection ExampleEngine () (OneTriangle 2) 0 (OneGeometry 4) 3 =
     Some (False, OneTriangle 2, SetNumUVLayers ExampleEngine 2 (OneGeometry 4))"
    by (simp add: OneTriangle_facts UpdateCollection_def array_get_def Let_def)
       (simp add: OneGeometry_def)
  moreover have "SetNumUVLayers ExampleEngine 2 (OneGeometry 4) = (OneGeometry 4) \<lparr>UVs := replicate 4 [(7, 7), (0, 0)]\<rparr>"
    by (simp add: ExampleEngine_def OneGeometry_def)
  ultimately show ?thesis
    by (simp add: OneTriangle_facts) (simp add: OneGeometry_def)
qed

subsection \<open>Appending a mesh as a new geometry\<close>

lemma overwrite_tail: "length xs = s \<Longrightarrow> length ys = n \<Longrightarrow> overwrite (xs @ replicate n d) s ys = xs @ ys"
  by (simp add: overwrite_def)

lemma list_update_last: "length bs = k \<Longrightarrow> (bs @ [d])[k := v] = bs @ [v]"
  by (metis list_update_length)

lemma array_get_le: "0 \<le> i \<Longrightarrow> i \<le> int (length xs) \<Longrightarrow> array_get (xs @ [d]) i = Some ((xs @ [d]) ! nat i)"
  by (simp add: array_get_def)

lemma array_set_le: "0 \<le> i \<Longrightarrow> i \<le> int (length xs) \<Longrightarrow> array_set (xs @ [d]) i v = Some ((xs @ [d])[nat i := v])"
  by (simp add: array_set_def)

lemma array_get_in: "0 \<le> i \<Longrightarrow> i < int (length xs) \<Longrightarrow> array_get xs i = Some (xs ! nat i)"
  by (simp add: array_get_def)

lemma array_set_in: "0 \<le> i \<Longrightarrow> i < int (length xs) \<Longrightarrow> array_set xs i v = Some (xs[nat i := v])"
  by (simp add: array_set_def)

lemma array_set_last: "array_set (xs @ [d]) (int (length xs)) v = Some (xs @ [v])"
  by (simp add: array_set_def)

lemma array_set_last': "length ys = length xs \<Longrightarrow> array_set (xs @ [d]) (int (length ys)) v = Some (xs @ [v])"
  by (simp add: array_set_def)

lemma AppendToCollection_eq:
  fixes E :: "('x, 'b) Engine"
  assumes al: "Aligned C"
    and M: "M = PreparedForAppend E Mesh0 Spacing"
    and tc0: "TriangleCount Mesh0 \<noteq> 0"
    and tc: "TriangleCount M > 0"
    and comp: "IsCompact M"
    and par: "TransformParent > - 1 \<longrightarrow> TransformParent \<le> int (length (TransformToGeometryIndex C))"
  shows "AppendToCollection E F Mesh0 Spacing TransformParent Name C I =
     Some (int (length (FaceStart C)), M, AppendedCollection E F M TransformParent Name C I)"
proof -
  let ?L = "if NumEnabledUVChannels M > 0 then NumEnabledUVChannels M else 1"
  let ?g = "int (length (FaceStart C))" and ?t = "int (length (TransformToGeometryIndex C))"
  let ?nv = "int (length (Vertex C))" and ?nf = "int (length (Indices C))"
  let ?n = "MaxVertexID M" and ?m = "MaxTriangleID M"
  note cnt = IsCompact_counts [OF comp]
  note nth = IsCompact_nth [OF comp]
  from al have lens:
    "length (Transform C) = length (TransformToGeometryIndex C)"
    "length (Parent C) = length (TransformToGeometryIndex C)"
    "length (Children C) = length (TransformToGeometryIndex C)"
    "length (SimulationType C) = length (TransformToGeometryIndex C)"
    "length (BoneName C) = length (TransformToGeometryIndex C)"
    "length (BoneColor C) = length (TransformToGeometryIndex C)"
    "length (TransformIndex C) = length (FaceStart C)"
    "length (VertexStart C) = length (FaceStart C)"
    "length (VertexCount C) = length (FaceStart C)"
    "length (FaceCount C) = length (FaceStart C)"
    "length (BoundingBox C) = length (FaceStart C)"
    "length (Normal C) = length (Vertex C)"
    "length (UVs C) = length (Vertex C)"
    "length (Color C) = length (Vertex C)"
    "length (TangentU C) = length (Vertex C)"
    "length (TangentV C) = length (Vertex C)"
    "length (BoneMap C) = length (Vertex C)"
    "length (Visible C) = length (Indices C)"
    "length (MaterialID C) = length (Indices C)"
    by (simp_all add: Aligned_def)
  have cv: "CopyVertices E F M L True vs t [0..<MaxVertexID M] C' =
      Some (WrittenVertices E F M L True vs t (MaxVertexID M) C')"
    if "VertexRowsFit C' vs (MaxVertexID M)" for C' :: "('x, 'b) Collection" and L vs t
    using CopyVertices_upt [OF that _ _ le_refl, of M True L E F t] nth by simp
  have ct: "CopyTriangles M I fs vs [0..<MaxTriangleID M] C' =
      Some (WrittenTriangles M I fs vs (MaxTriangleID M) C')"
    if "FaceRowsFit C' fs (MaxTriangleID M)" for C' :: "('x, 'b) Collection" and fs vs
    using CopyTriangles_upt [OF that _ le_refl, of M I vs] nth by simp
  have box: "BoxOfVertices E (xs @ ys) [int (length xs)..int (length xs) + int (length ys) - 1] B
      = Some (foldl (BoxAdd E) B ys)" for xs ys B
    using BoxOfVertices_range [of "int (length xs)" "int (length xs) + int (length ys)" "xs @ ys" E B]
    by simp
  have M': "(let Mesh1 = if \<not> IsCompact Mesh0 then CompactInPlace E Mesh0 else Mesh0
             in if 0 < Spacing then AddCollisionSamplesPerComponent E Mesh1 Spacing else Mesh1) = M"
    by (simp add: M PreparedForAppend_def)
  have ub: "UpdateBoundingBox E gi [int s..int s + int n - 1] C' =
      Some (C' \<lparr>BoundingBox := (BoundingBox C')[nat gi := foldl (BoxAdd E) (BoxInit E) (take n (drop s (Vertex C')))]\<rparr>)"
    if "0 \<le> gi" "nat gi < length (BoundingBox C')" "s + n \<le> length (Vertex C')"
    for C' :: "('x, 'b) Collection" and s n gi
  proof -
    have "BoxOfVertices E (Vertex C') [int s..int s + int n - 1] (BoxInit E) =
       Some (foldl (BoxAdd E) (BoxInit E) (take n (drop s (Vertex C'))))"
      using BoxOfVertices_range [of "int s" "int s + int n" "Vertex C'" E "BoxInit E"] that(3)
      by simp
    moreover have "BoundingBox C' \<noteq> []" using that(2) by auto
    ultimately show ?thesis
      using that by (simp add: UpdateBoundingBox_def array_get_def array_set_def)
  qed
  show ?thesis
  proof (cases "TransformParent > - 1")
    case False
    then show ?thesis
      unfolding AppendToCollection_def
      using tc0 tc comp
      apply (simp add: M' [unfolded Let_def] Let_def AddElements_def NumElements_def check_def cnt lens
        array_set_last array_set_last' split_def cv ct VertexRowsFit_def FaceRowsFit_def
        WrittenVertices_def WrittenTriangles_def overwrite_tail ub AppendedCollection_def list_update_last)
      done
  next
    case True
    with par have p: "0 \<le> TransformParent" "TransformParent \<le> int (length (TransformToGeometryIndex C))"
      by simp_all
    show ?thesis
      unfolding AppendToCollection_def
      using tc0 tc comp True
      apply (simp add: M' [unfolded Let_def] Let_def AddElements_def NumElements_def check_def cnt lens
        array_set_last array_set_last' split_def cv ct VertexRowsFit_def FaceRowsFit_def
        WrittenVertices_def WrittenTriangles_def overwrite_tail ub AppendedCollection_def list_update_last
        array_get_le array_set_le array_set_in p)
      done
  qed
qed

lemma AppendToCollection_empty:
  "TriangleCount Mesh0 = 0 \<Longrightarrow> AppendToCollection E F Mesh0 Spacing TransformParent Name C I = Some (- 1, Mesh0, C)"
  by (simp add: AppendToCollection_def)

lemma Aligned_AppendedCollection:
  "Aligned C \<Longrightarrow> IsCompact M \<Longrightarrow> Aligned (AppendedCollection E F M TransformParent Name C I)"
  by (auto simp: Aligned_def AppendedCollection_def Let_def split: option.splits)

text \<open>
  C10.  For a mesh without triangles \<open>AppendToCollection\<close> returns \<open>-1\<close> and the collection
  (and the mesh) are unchanged.  For a mesh with a triangle, on a collection whose columns
  have the length of their group, it returns the previous number of geometries and appends
  one Geometry entry and one Transform entry: the new \<open>VertexStart\<close> and \<open>FaceStart\<close> are the
  previous lengths of the vertex and face arrays, the new \<open>VertexCount\<close> and \<open>FaceCount\<close>
  are the counts of the mesh as the call leaves it (the mesh is compacted and, for a
  positive spacing, given collision samples in place before it is copied; for a compact
  mesh and no spacing it is the argument itself), the two entries point at each other, the
  earlier entries of these columns are kept, and for a parent index above \<open>-1\<close> the new
  transform has that parent and is in the parent's set of children.  The two \<open>check\<close>s of
  the function (a triangle is left, the mesh is compact) are hypotheses on the prepared
  mesh.
\<close>

theorem AppendToCollection_entries:
  fixes E :: "('x, 'b) Engine"
  shows
    "(TriangleCount Mesh0 = 0 \<longrightarrow>
        AppendToCollection E F Mesh0 Spacing TransformParent Name C I = Some (- 1, Mesh0, C)) \<and>
     (TriangleCount Mesh0 \<noteq> 0 \<and> Aligned C \<and>
      IsCompact (PreparedForAppend E Mesh0 Spacing) \<and> TriangleCount (PreparedForAppend E Mesh0 Spacing) > 0 \<and>
      (TransformParent > - 1 \<longrightarrow> TransformParent \<le> int (NumElements C TransformGroup)) \<longrightarrow>
        (\<exists>C'. AppendToCollection E F Mesh0 Spacing TransformParent Name C I =
                 Some (int (NumElements C GeometryGroup), PreparedForAppend E Mesh0 Spacing, C') \<and>
              Aligned C' \<and>
              NumElements C' GeometryGroup = NumElements C GeometryGroup + 1 \<and>
              NumElements C' TransformGroup = NumElements C TransformGroup + 1 \<and>
              VertexStart C' = VertexStart C @ [int (length (Vertex C))] \<and>
              FaceStart C' = FaceStart C @ [int (length (Indices C))] \<and>
              VertexCount C' = VertexCount C @ [int (MeshVertexCount (PreparedForAppend E Mesh0 Spacing))] \<and>
              FaceCount C' = FaceCount C @ [int (TriangleCount (PreparedForAppend E Mesh0 Spacing))] \<and>
              TransformIndex C' = TransformIndex C @ [int (NumElements C TransformGroup)] \<and>
              TransformToGeometryIndex C' = TransformToGeometryIndex C @ [int (NumElements C GeometryGroup)] \<and>
              (TransformParent > - 1 \<longrightarrow>
                 Parent C' = Parent C @ [TransformParent] \<and>
                 int (NumElements C TransformGroup) \<in> Children C' ! nat TransformParent))) \<and>
     (IsCompact Mesh0 \<and> Spacing \<le> 0 \<longrightarrow> PreparedForAppend E Mesh0 Spacing = Mesh0)"
proof (intro conjI impI)
  assume "TriangleCount Mesh0 = 0"
  then show "AppendToCollection E F Mesh0 Spacing TransformParent Name C I = Some (- 1, Mesh0, C)"
    by (rule AppendToCollection_empty)
next
  let ?M = "PreparedForAppend E Mesh0 Spacing"
  let ?C' = "AppendedCollection E F ?M TransformParent Name C I"
  assume a: "TriangleCount Mesh0 \<noteq> 0 \<and> Aligned C \<and> IsCompact ?M \<and> TriangleCount ?M > 0 \<and>
      (TransformParent > - 1 \<longrightarrow> TransformParent \<le> int (NumElements C TransformGroup))"
  then have eq: "AppendToCollection E F Mesh0 Spacing TransformParent Name C I =
      Some (int (NumElements C GeometryGroup), ?M, ?C')"
    using AppendToCollection_eq [of C ?M E Mesh0 Spacing TransformParent F Name I]
    by (simp add: NumElements_def)
  from a have al: "Aligned ?C'" by (simp add: Aligned_AppendedCollection)
  from a have lc: "length (Children C) = length (TransformToGeometryIndex C)" by (simp add: Aligned_def)
  have ch: "int (NumElements C TransformGroup) \<in> Children ?C' ! nat TransformParent" if "TransformParent > - 1"
  proof -
    from that a have "TransformParent \<le> int (length (TransformToGeometryIndex C))"
      by (simp add: NumElements_def)
    then have "nat TransformParent < length (Children C @ [{}])" using lc by simp
    then show ?thesis using that by (simp add: AppendedCollection_def Let_def NumElements_def)
  qed
  show "\<exists>C'. AppendToCollection E F Mesh0 Spacing TransformParent Name C I =
                 Some (int (NumElements C GeometryGroup), ?M, C') \<and>
              Aligned C' \<and>
              NumElements C' GeometryGroup = NumElements C GeometryGroup + 1 \<and>
              NumElements C' TransformGroup = NumElements C TransformGroup + 1 \<and>
              VertexStart C' = VertexStart C @ [int (length (Vertex C))] \<and>
              FaceStart C' = FaceStart C @ [int (length (Indices C))] \<and>
              VertexCount C' = VertexCount C @ [int (MeshVertexCount ?M)] \<and>
              FaceCount C' = FaceCount C @ [int (TriangleCount ?M)] \<and>
              TransformIndex C' = TransformIndex C @ [int (NumElements C TransformGroup)] \<and>
              TransformToGeometryIndex C' = TransformToGeometryIndex C @ [int (NumElements C GeometryGroup)] \<and>
              (TransformParent > - 1 \<longrightarrow>
                 Parent C' = Parent C @ [TransformParent] \<and>
                 int (NumElements C TransformGroup) \<in> Children C' ! nat TransformParent)"
    apply (rule exI [of _ ?C'])
    using eq al ch
    apply (simp add: AppendedCollection_def Let_def NumElements_def)
    done
next
  assume "IsCompact Mesh0 \<and> Spacing \<le> 0"
  then show "PreparedForAppend E Mesh0 Spacing = Mesh0"
    by (simp add: PreparedForAppend_def)
qed

lemma OneTriangle_append: "PreparedForAppend E (OneTriangle n) 0 = OneTriangle n"
  by (simp add: PreparedForAppend_def OneTriangle_facts)

theorem AppendToCollection_entries_witness:
  "TriangleCount NoTriangles = 0 \<and>
   AppendToCollection ExampleEngine () NoTriangles 0 0 ''Root_0'' (OneGeometry 3) 3 =
     Some (- 1, NoTriangles, OneGeometry 3) \<and>
   TriangleCount (OneTriangle 1) \<noteq> 0 \<and> Aligned (OneGeometry 3) \<and> IsCompact (OneTriangle 1) \<and>
   (0::int) > - 1 \<and> (0::int) \<le> int (NumElements (OneGeometry 3) TransformGroup) \<and>
   (\<exists>C'. AppendToCollection ExampleEngine () (OneTriangle 1) 0 0 ''Root_0'' (OneGeometry 3) 3 =
            Some (1, OneTriangle 1, C') \<and>
         VertexStart C' = [0, 3] \<and> FaceStart C' = [0, 1] \<and> VertexCount C' = [3, 3] \<and>
         FaceCount C' = [1, 1] \<and> TransformIndex C' = [0, 1] \<and> TransformToGeometryIndex C' = [0, 1] \<and>
         Parent C' = [- 1, 0] \<and> 1 \<in> Children C' ! 0)"
proof -
  have e: "TriangleCount NoTriangles = 0"
    by (simp add: NoTriangles_def TriangleCount_def)
  have al: "Aligned (OneGeometry 3)"
    by (simp add: Aligned_def OneGeometry_def)
  have n: "NumElements (OneGeometry 3) TransformGroup = 1" "NumElements (OneGeometry 3) GeometryGroup = 1"
    by (simp_all add: NumElements_def OneGeometry_def)
  have c: "VertexStart (OneGeometry 3) = [0]" "FaceStart (OneGeometry 3) = [0]" "VertexCount (OneGeometry 3) = [3]"
    "FaceCount (OneGeometry 3) = [1]" "TransformIndex (OneGeometry 3) = [0]"
    "TransformToGeometryIndex (OneGeometry 3) = [0]" "Parent (OneGeometry 3) = [- 1]"
    "length (Vertex (OneGeometry 3)) = 3" "length (Indices (OneGeometry 3)) = 1"
    by (simp_all add: OneGeometry_def)
  show ?thesis
    using AppendToCollection_entries [of NoTriangles ExampleEngine "()" 0 0 "''Root_0''" "OneGeometry 3" 3]
      AppendToCollection_entries [of "OneTriangle 1" ExampleEngine "()" 0 0 "''Root_0''" "OneGeometry 3" 3]
    by (simp add: e al n c OneTriangle_append OneTriangle_facts del: One_nat_def) (auto simp: n)
qed

subsection \<open>Grout on the cell meshes\<close>

lemma GroutCells_append:
  "GroutCells E G N Out (xs @ ys) Ms = Option.bind (GroutCells E G N Out xs Ms) (GroutCells E G N Out ys)"
  by (induction xs arbitrary: Ms) (auto split: Option.bind_split)

lemma GroutCells_upt:
  "k \<le> length (CellMeshes Cells) \<Longrightarrow>
   GroutCells E G (NumUVLayers Cells) (OutsideCellIndex Cells) [0..<k] (CellMeshes Cells) =
     Some (map (GroutedAt E G Cells) [0..<k] @ drop k (CellMeshes Cells))"
proof (induction k)
  case 0
  then show ?case by simp
next
  case (Suc k)
  then have k: "k < length (CellMeshes Cells)" by simp
  then have d: "drop k (CellMeshes Cells) = CellMeshes Cells ! k # drop (Suc k) (CellMeshes Cells)"
    by (simp add: Cons_nth_drop_Suc)
  have "(map f [0..<k] @ x # ys)[k := v] = map f [0..<k] @ v # ys" for f and x v :: Mesh and ys
    by (simp add: list_update_append)
  with Suc k show ?case
    by (simp add: GroutCells_append d array_get_def array_set_def nth_append GroutedAt_def)
qed

lemma AppendCells_eq:
  "\<forall>i\<in>set is. i < length Ms \<Longrightarrow>
   AppendCells E Out is Ms Acc =
     Some (foldl (AppendMesh E) Acc (map (\<lambda>i. Ms ! i) (filter (\<lambda>i. int i \<noteq> Out) is)))"
  by (induction "is" arbitrary: Acc) (auto simp: array_get_def)

text \<open>
  C5 (as amended).  For \<open>Grout > 0\<close> (and an outside index that is \<open>-1\<close> or a position of the
  list) \<open>ApplyGeneralGrout\<close> replaces every cell mesh other than the outside one: with
  \<open>MaxDim\<close> the longest side of the mesh's bounding box and
  \<open>Factor = (MaxDim - Grout/2) / MaxDim\<close>, the mesh is cleared to the empty augmented mesh
  exactly when \<open>Factor < ZeroTolerance * 1000\<close> (or \<open>MaxDim = 0\<close>, where the quotient is minus
  infinity), and is otherwise scaled by \<open>Factor\<close> on all three axes about its vertex
  centroid.  The outside cell, when there is one, becomes the empty augmented mesh with
  all the other cell meshes, as grouted, appended in order.  Scalars are read as real
  numbers.
\<close>

theorem ApplyGeneralGrout_cells:
  fixes E :: "('x, 'b) Engine"
  assumes "Grout > 0"
    and "OutsideCellIndex Cells = - 1 \<or>
         (0 \<le> OutsideCellIndex Cells \<and> OutsideCellIndex Cells < int (length (CellMeshes Cells)))"
  shows "\<exists>Cells'. ApplyGeneralGrout E Grout Cells = Some Cells' \<and>
     length (CellMeshes Cells') = length (CellMeshes Cells) \<and>
     (\<forall>i < length (CellMeshes Cells). int i \<noteq> OutsideCellIndex Cells \<longrightarrow>
        CellMeshes Cells' ! i =
          (let M = CellMeshes Cells ! i;
               MaxDim = BoundsMaxDim E M;
               Factor = (MaxDim - Grout / 2) / MaxDim
           in if MaxDim = 0 \<or> Factor < ZeroTolerance E * 1000 then ClearedMesh (NumUVLayers Cells)
              else Scale E M (Factor, Factor, Factor) (VertexCentroidOf M))) \<and>
     (OutsideCellIndex Cells \<noteq> - 1 \<longrightarrow>
        CellMeshes Cells' ! nat (OutsideCellIndex Cells) =
          foldl (AppendMesh E) (ClearedMesh (NumUVLayers Cells))
            (map (\<lambda>i. CellMeshes Cells' ! i)
               (filter (\<lambda>i. int i \<noteq> OutsideCellIndex Cells) [0..<length (CellMeshes Cells)])))"
proof -
  let ?n = "length (CellMeshes Cells)"
  let ?Ms = "map (GroutedAt E Grout Cells) [0..<?n]"
  have g: "GroutCells E Grout (NumUVLayers Cells) (OutsideCellIndex Cells) [0..<?n] (CellMeshes Cells) = Some ?Ms"
    using GroutCells_upt [of ?n Cells E Grout] by simp
  have cell: "?Ms ! i = (let M = CellMeshes Cells ! i;
               MaxDim = BoundsMaxDim E M;
               Factor = (MaxDim - Grout / 2) / MaxDim
           in if MaxDim = 0 \<or> Factor < ZeroTolerance E * 1000 then ClearedMesh (NumUVLayers Cells)
              else Scale E M (Factor, Factor, Factor) (VertexCentroidOf M))"
    if "i < ?n" "int i \<noteq> OutsideCellIndex Cells" for i
    using that by (simp add: GroutedAt_def GroutCell_def GroutScaleFactor_def Let_def)
  show ?thesis
  proof (cases "OutsideCellIndex Cells = - 1")
    case True
    then have "ApplyGeneralGrout E Grout Cells = Some (Cells \<lparr>CellMeshes := ?Ms\<rparr>)"
      using assms(1) g by (simp add: ApplyGeneralGrout_def)
    then show ?thesis using True cell by simp
  next
    case False
    with assms(2) have o: "0 \<le> OutsideCellIndex Cells" "nat (OutsideCellIndex Cells) < ?n" by auto
    define Ms where "Ms = ?Ms"
    define idx where "idx = filter (\<lambda>i. int i \<noteq> OutsideCellIndex Cells) [0..<?n]"
    define Out where "Out = foldl (AppendMesh E) (ClearedMesh (NumUVLayers Cells)) (map (\<lambda>i. Ms ! i) idx)"
    define Ms' where "Ms' = Ms [nat (OutsideCellIndex Cells) := Out]"
    have len: "length Ms = ?n" "length Ms' = ?n" by (simp_all add: Ms_def Ms'_def)
    have a: "AppendCells E (OutsideCellIndex Cells) [0..<length Ms] Ms (ClearedMesh (NumUVLayers Cells)) = Some Out"
      using AppendCells_eq [of "[0..<length Ms]" Ms E "OutsideCellIndex Cells"]
      by (simp add: Out_def idx_def len)
    have r: "ApplyGeneralGrout E Grout Cells = Some (Cells \<lparr>CellMeshes := Ms'\<rparr>)"
      using assms(1) False o a g [folded Ms_def]
      by (simp add: ApplyGeneralGrout_def array_get_def array_set_def len Ms'_def)
    have same: "Ms' ! i = Ms ! i" if "int i \<noteq> OutsideCellIndex Cells" for i
      using that o unfolding Ms'_def by (metis int_nat_eq nth_list_update_neq)
    have me: "map (\<lambda>i. Ms' ! i) idx = map (\<lambda>i. Ms ! i) idx"
      by (rule map_cong) (auto simp: same idx_def)
    have "Ms' ! nat (OutsideCellIndex Cells) = Out"
      using o by (simp add: Ms'_def len)
    then have out: "Ms' ! nat (OutsideCellIndex Cells) =
        foldl (AppendMesh E) (ClearedMesh (NumUVLayers Cells)) (map (\<lambda>i. Ms' ! i) idx)"
      by (simp only: me Out_def)
    have cell': "Ms' ! i = (let M = CellMeshes Cells ! i;
               MaxDim = BoundsMaxDim E M;
               Factor = (MaxDim - Grout / 2) / MaxDim
           in if MaxDim = 0 \<or> Factor < ZeroTolerance E * 1000 then ClearedMesh (NumUVLayers Cells)
              else Scale E M (Factor, Factor, Factor) (VertexCentroidOf M))"
      if "i < ?n" "int i \<noteq> OutsideCellIndex Cells" for i
      using cell [OF that] same [OF that(2)] by (simp only: Ms_def)
    show ?thesis
      apply (rule exI [of _ "Cells \<lparr>CellMeshes := Ms'\<rparr>"])
      using r out [unfolded idx_def] cell' len by simp
  qed
qed

lemma OneTriangle_geometry:
  "BoundsMaxDim ExampleEngine (OneTriangle n) = 1" "VertexCentroidOf (OneTriangle n) = (1 / 3, 1 / 3, 0)"
  by (simp_all add: ExampleEngine_def ExampleMaxDim_def VerticesItr_def OneTriangle_def ExampleVertex_def
      List.map_filter_simps VertexCentroidOf_def AddVec_def DivVec_def MeshVertexCount_def Let_def)

theorem ApplyGeneralGrout_cells_witness:
  "(1 / 2 :: real) > 0 \<and> OutsideCellIndex ExampleCells = 2 \<and> length (CellMeshes ExampleCells) = 3 \<and>
   (\<exists>Cells'. ApplyGeneralGrout ExampleEngine (1 / 2) ExampleCells = Some Cells' \<and>
      CellMeshes Cells' ! 0 = Scale ExampleEngine (OneTriangle 1) (3 / 4, 3 / 4, 3 / 4) (1 / 3, 1 / 3, 0) \<and>
      CellMeshes Cells' ! 1 = Scale ExampleEngine (OneTriangle 1) (3 / 4, 3 / 4, 3 / 4) (1 / 3, 1 / 3, 0) \<and>
      CellMeshes Cells' ! 2 =
        AppendMesh ExampleEngine (AppendMesh ExampleEngine (ClearedMesh 1) (CellMeshes Cells' ! 0))
          (CellMeshes Cells' ! 1))"
proof -
  have h: "(1 / 2 :: real) > 0" "OutsideCellIndex ExampleCells = 2" "length (CellMeshes ExampleCells) = 3"
    "NumUVLayers ExampleCells = 1" "CellMeshes ExampleCells ! 0 = OneTriangle 1"
    "CellMeshes ExampleCells ! 1 = OneTriangle 1"
    by (simp_all add: ExampleCells_def)
  have z: "ZeroTolerance ExampleEngine * 1000 = 1 / 100000"
    by (simp add: ExampleEngine_def)
  have pre: "OutsideCellIndex ExampleCells = - 1 \<or>
         (0 \<le> OutsideCellIndex ExampleCells \<and> OutsideCellIndex ExampleCells < int (length (CellMeshes ExampleCells)))"
    by (simp add: ExampleCells_def)
  from ApplyGeneralGrout_cells [OF h(1) pre, of ExampleEngine]
  obtain Cells' where c: "ApplyGeneralGrout ExampleEngine (1 / 2) ExampleCells = Some Cells'"
    and cell: "\<And>i. i < length (CellMeshes ExampleCells) \<Longrightarrow> int i \<noteq> OutsideCellIndex ExampleCells \<Longrightarrow>
        CellMeshes Cells' ! i =
          (let M = CellMeshes ExampleCells ! i;
               MaxDim = BoundsMaxDim ExampleEngine M;
               Factor = (MaxDim - (1 / 2) / 2) / MaxDim
           in if MaxDim = 0 \<or> Factor < ZeroTolerance ExampleEngine * 1000 then ClearedMesh (NumUVLayers ExampleCells)
              else Scale ExampleEngine M (Factor, Factor, Factor) (VertexCentroidOf M))"
    and out: "OutsideCellIndex ExampleCells \<noteq> - 1 \<Longrightarrow>
        CellMeshes Cells' ! nat (OutsideCellIndex ExampleCells) =
          foldl (AppendMesh ExampleEngine) (ClearedMesh (NumUVLayers ExampleCells))
            (map (\<lambda>i. CellMeshes Cells' ! i)
               (filter (\<lambda>i. int i \<noteq> OutsideCellIndex ExampleCells) [0..<length (CellMeshes ExampleCells)]))"
    by blast
  have f: "filter (\<lambda>i. i \<noteq> 2) [0..<3] = [0, Suc 0]"
    by (simp add: upt_rec)
  from cell [of 0] have c0: "CellMeshes Cells' ! 0 = Scale ExampleEngine (OneTriangle 1) (3 / 4, 3 / 4, 3 / 4) (1 / 3, 1 / 3, 0)"
    by (simp add: h OneTriangle_geometry z Let_def del: One_nat_def)
  from cell [of 1] have c1: "CellMeshes Cells' ! 1 = Scale ExampleEngine (OneTriangle 1) (3 / 4, 3 / 4, 3 / 4) (1 / 3, 1 / 3, 0)"
    by (simp add: h OneTriangle_geometry z Let_def del: One_nat_def)
  from out have c2: "CellMeshes Cells' ! 2 =
        AppendMesh ExampleEngine (AppendMesh ExampleEngine (ClearedMesh 1) (CellMeshes Cells' ! 0))
          (CellMeshes Cells' ! 1)"
    by (simp add: f h)
  show ?thesis using h c c0 c1 c2 by blast
qed

text \<open>
  C5 as stated fails for a small positive factor.  A cell mesh with \<open>MaxDim = 1\<close> and
  \<open>Grout = 2 - 2^-19\<close> has the factor \<open>2^-20 > 0\<close>, which is below \<open>ZeroTolerance * 1000 = 10^-5\<close>
  for the engine's \<open>ZeroTolerance = 10^-8\<close>: the mesh is cleared, not scaled.  All the
  numbers of this example are exact in double precision.
\<close>

theorem ApplyGeneralGrout_clears_below_tolerance:
  "(1048575 / 524288 :: real) > 0 \<and>
   BoundsMaxDim ExampleEngine (OneTriangle 1) = 1 \<and>
   ((1 :: real) - (1048575 / 524288) / 2) / 1 = 1 / 1048576 \<and> (0 :: real) < 1 / 1048576 \<and>
   ApplyGeneralGrout ExampleEngine (1048575 / 524288) SingleCell =
     Some (SingleCell \<lparr>CellMeshes := [ClearedMesh 1]\<rparr>)"
  by (simp add: ApplyGeneralGrout_def SingleCell_def array_get_def array_set_def GroutCell_def
      GroutScaleFactor_def OneTriangle_geometry Let_def del: One_nat_def)
     (simp add: ExampleEngine_def)

subsection \<open>What the cutting loops keep\<close>

lemma AppendToCollection_None_check:
  assumes "TriangleCount Mesh0 \<noteq> 0"
    and "\<not> (TriangleCount (PreparedForAppend E Mesh0 Spacing) > 0 \<and> IsCompact (PreparedForAppend E Mesh0 Spacing))"
  shows "AppendToCollection E F Mesh0 Spacing TransformParent Name C I = None"
  using assms
  by (auto simp add: AppendToCollection_def PreparedForAppend_def Let_def check_def split_def)

lemma AppendToCollection_None_parent:
  fixes E :: "('x, 'b) Engine"
  assumes al: "Aligned C" and "TriangleCount Mesh0 \<noteq> 0"
    and "TransformParent > int (length (TransformToGeometryIndex C))"
  shows "AppendToCollection E F Mesh0 Spacing TransformParent Name C I = None"
proof -
  from al have lens:
    "length (BoneName C) = length (TransformToGeometryIndex C)"
    "length (BoneColor C) = length (TransformToGeometryIndex C)"
    "length (TransformIndex C) = length (FaceStart C)"
    "length (VertexStart C) = length (FaceStart C)"
    "length (VertexCount C) = length (FaceStart C)"
    "length (FaceCount C) = length (FaceStart C)"
    by (simp_all add: Aligned_def)
  show ?thesis
    using assms(2,3)
    by (simp add: AppendToCollection_def Let_def AddElements_def NumElements_def check_def lens
        array_set_last array_set_last' split_def array_get_def)
qed

lemma AppendToCollection_cases:
  fixes E :: "('x, 'b) Engine"
  assumes al: "Aligned C"
    and r: "AppendToCollection E F Mesh0 Spacing TransformParent Name C I = Some (r, M', C')"
  shows "(r = - 1 \<and> M' = Mesh0 \<and> C' = C) \<or>
         (r = int (length (FaceStart C)) \<and> M' = PreparedForAppend E Mesh0 Spacing \<and> IsCompact M' \<and>
          C' = AppendedCollection E F M' TransformParent Name C I)"
proof (cases "TriangleCount Mesh0 = 0")
  case True
  with r show ?thesis by (simp add: AppendToCollection_empty)
next
  case False
  let ?M = "PreparedForAppend E Mesh0 Spacing"
  have "TriangleCount ?M > 0 \<and> IsCompact ?M"
  proof (rule ccontr)
    assume "\<not> (TriangleCount ?M > 0 \<and> IsCompact ?M)"
    from AppendToCollection_None_check [OF False this, of F TransformParent Name C I] r
    show False by simp
  qed
  then have ch: "TriangleCount ?M > 0" "IsCompact ?M" by simp_all
  have "\<not> TransformParent > int (length (TransformToGeometryIndex C))"
  proof
    assume "TransformParent > int (length (TransformToGeometryIndex C))"
    from AppendToCollection_None_parent [OF al False this, of E F Spacing Name I] r
    show False by simp
  qed
  then have "TransformParent > - 1 \<longrightarrow> TransformParent \<le> int (length (TransformToGeometryIndex C))"
    by simp
  from AppendToCollection_eq [OF al refl False ch this, of F Name I] r ch
  show ?thesis by simp
qed

lemma Grown_refl: "Aligned C \<Longrightarrow> Grown C C"
  by (simp add: Grown_def)

lemma Grown_trans: "Grown C C' \<Longrightarrow> Grown C' C'' \<Longrightarrow> Grown C C''"
  by (auto simp: Grown_def)

lemma Grown_Appended:
  "Aligned C \<Longrightarrow> IsCompact M \<Longrightarrow> Grown C (AppendedCollection E F M p Name C I)"
  unfolding Grown_def
  by (simp add: Aligned_AppendedCollection) (simp add: AppendedCollection_def Let_def)

lemma length_FaceStart_Appended:
  "length (FaceStart (AppendedCollection E F M p Name C I)) = length (FaceStart C) + 1"
  by (simp add: AppendedCollection_def Let_def)

lemma Proximity_Appended:
  "Proximity (AppendedCollection E F M p Name C I) = map_option (\<lambda>P. P @ [{}]) (Proximity C)"
  by (simp add: AppendedCollection_def Let_def)

lemma AppendResult_cases:
  fixes E :: "('x, 'b) Engine"
  assumes al: "Aligned (Coll St)"
    and r: "AppendResult E Surface Sp IM CellIdx St Sub = Some St'"
  shows "(Coll St' = Coll St \<and> FirstIdx St' = FirstIdx St) \<or>
         (\<exists>M Name. IsCompact M \<and>
            Coll St' = AppendedCollection E (FromCollection Surface) M (MeshTransformIndex Surface) Name (Coll St) IM \<and>
            FirstIdx St' = (if FirstIdx St = - 1 then int (length (FaceStart (Coll St))) else FirstIdx St))"
proof -
  obtain i Island where Sub: "Sub = (i, Island)" by (cases Sub)
  from r obtain Name g M' C' where
    a: "AppendToCollection E (FromCollection Surface) Island Sp (MeshTransformIndex Surface) Name (Coll St) IM
          = Some (g, M', C')"
    and c: "Coll St' = C'" and f: "FirstIdx St' = (if FirstIdx St = - 1 then g else FirstIdx St)"
    by (auto simp: AppendResult_def Sub bind_eq_Some_conv Let_def)
  from AppendToCollection_cases [OF al a] c f show ?thesis by auto
qed

lemma AppendIslands_preserves:
  assumes step: "\<And>St Sub St'. I St \<Longrightarrow> AppendResult E Surface Sp IM CellIdx St Sub = Some St' \<Longrightarrow> I St'"
  shows "I St \<Longrightarrow> AppendIslands E Surface Sp IM CellIdx Subs St = Some St' \<Longrightarrow> I St'"
proof (induction Subs arbitrary: St)
  case Nil
  then show ?case by simp
next
  case (Cons Sub Subs)
  from Cons.prems(2) obtain St1 where
    a: "AppendResult E Surface Sp IM CellIdx St Sub = Some St1"
    and b: "AppendIslands E Surface Sp IM CellIdx Subs St1 = Some St'"
    by (auto simp: bind_eq_Some_conv)
  from step [OF Cons.prems(1) a] have "I St1" .
  from Cons.IH [OF this b] show ?case .
qed

lemma CutCell_preserves:
  assumes step: "\<And>St Sub St' CellIdx. I St \<Longrightarrow> AppendResult E Surface Sp IM CellIdx St Sub = Some St' \<Longrightarrow> I St'"
    and planes: "\<And>St Ps. I St \<Longrightarrow> I (St \<lparr>PlanesInOutput := Ps\<rparr>)"
  shows "I St \<Longrightarrow> CutCell E Surface Sp IM St CellIdx = Some St' \<Longrightarrow> I St'"
  unfolding CutCell_def
  by (auto simp: bind_eq_Some_conv Let_def split: if_splits option.splits
      intro: step planes AppendIslands_preserves [where I = I, OF step])

lemma CutCellsLoop_preserves:
  assumes step: "\<And>St Sub St' CellIdx. I St \<Longrightarrow> AppendResult E Surface Sp IM CellIdx St Sub = Some St' \<Longrightarrow> I St'"
    and planes: "\<And>St Ps. I St \<Longrightarrow> I (St \<lparr>PlanesInOutput := Ps\<rparr>)"
  shows "I St \<Longrightarrow> CutCellsLoop E Surface Sp IM Idxs St = Some St' \<Longrightarrow> I St'"
proof (induction Idxs arbitrary: St)
  case Nil
  then show ?case by simp
next
  case (Cons CellIdx Idxs)
  from Cons.prems(2) obtain St1 where
    a: "CutCell E Surface Sp IM St CellIdx = Some St1"
    and b: "CutCellsLoop E Surface Sp IM Idxs St1 = Some St'"
    by (auto simp: bind_eq_Some_conv)
  from CutCell_preserves [where I = I, OF step planes Cons.prems(1) a] have "I St1" .
  from Cons.IH [OF this b] show ?case .
qed

lemma LinkNeighbors_preserves:
  assumes add: "\<And>P a b P'. Q P \<Longrightarrow> ProximityAddBoth P a b = Some P' \<Longrightarrow> Q P'"
  shows "Q P \<Longrightarrow> LinkNeighbors E St GIDA MeshA GeomB P = Some P' \<Longrightarrow> Q P'"
proof (induction GeomB arbitrary: P)
  case Nil
  then show ?case by simp
next
  case (Cons GIDB GeomB)
  from Cons.prems(2) obtain P1 where
    a: "(if IsNeighboring E MeshA (the (MeshOf St GIDB)) then ProximityAddBoth P GIDA GIDB else Some P) = Some P1"
    and b: "LinkNeighbors E St GIDA MeshA GeomB P1 = Some P'"
    by (auto simp: bind_eq_Some_conv)
  from a Cons.prems(1) have "Q P1" by (auto split: if_splits intro: add)
  from Cons.IH [OF this b] show ?case .
qed

lemma LinkAllPairs_preserves:
  assumes add: "\<And>P a b P'. Q P \<Longrightarrow> ProximityAddBoth P a b = Some P' \<Longrightarrow> Q P'"
  shows "Q P \<Longrightarrow> LinkAllPairs E St GeomA GeomB P = Some P' \<Longrightarrow> Q P'"
proof (induction GeomA arbitrary: P)
  case Nil
  then show ?case by simp
next
  case (Cons GIDA GeomA)
  from Cons.prems(2) obtain MeshA P1 where
    a: "LinkNeighbors E St GIDA MeshA GeomB P = Some P1"
    and b: "LinkAllPairs E St GeomA GeomB P1 = Some P'"
    by (auto simp: bind_eq_Some_conv)
  from LinkNeighbors_preserves [where Q = Q, OF add Cons.prems(1) a] have "Q P1" .
  from Cons.IH [OF this b] show ?case .
qed

lemma LinkAcrossPlane_preserves:
  assumes add: "\<And>P a b P'. Q P \<Longrightarrow> ProximityAddBoth P a b = Some P' \<Longrightarrow> Q P'"
  shows "Q P \<Longrightarrow> LinkAcrossPlane E Conn Cells St P PlaneIdx = Some P' \<Longrightarrow> Q P'"
  unfolding LinkAcrossPlane_def
  by (auto simp: bind_eq_Some_conv Let_def split: if_splits
      intro: add LinkAllPairs_preserves [where Q = Q, OF add])

lemma LinkPlanes_preserves:
  assumes add: "\<And>P a b P'. Q P \<Longrightarrow> ProximityAddBoth P a b = Some P' \<Longrightarrow> Q P'"
  shows "Q P \<Longrightarrow> LinkPlanes E Conn Cells St Planes P = Some P' \<Longrightarrow> Q P'"
proof (induction Planes arbitrary: P)
  case Nil
  then show ?case by simp
next
  case (Cons PlaneIdx Planes)
  from Cons.prems(2) obtain P1 where
    a: "LinkAcrossPlane E Conn Cells St P PlaneIdx = Some P1"
    and b: "LinkPlanes E Conn Cells St Planes P1 = Some P'"
    by (auto simp: bind_eq_Some_conv)
  from LinkAcrossPlane_preserves [where Q = Q, OF add Cons.prems(1) a] have "Q P1" .
  from Cons.IH [OF this b] show ?case .
qed

lemma length_ProximityAdd: "ProximityAdd P a b = Some P' \<Longrightarrow> length P' = length P"
  by (auto simp: ProximityAdd_def array_set_def array_get_def bind_eq_Some_conv split: if_splits)

lemma length_ProximityAddBoth: "ProximityAddBoth P a b = Some P' \<Longrightarrow> length P' = length P"
  by (auto simp: ProximityAddBoth_def bind_eq_Some_conv dest!: length_ProximityAdd)

lemma Aligned_Proximity_update:
  "Aligned C \<Longrightarrow> Proximity C = Some P \<Longrightarrow> length P' = length P \<Longrightarrow> Aligned (C \<lparr>Proximity := Some P'\<rparr>)"
  by (simp add: Aligned_def)

lemma AppendResult_CutInv:
  fixes E :: "('x, 'b) Engine"
  assumes app: "\<And>P. Q P \<Longrightarrow> Q (P @ [{}])"
    and inv: "CutInv Q n C0 (Coll St) (FirstIdx St)"
    and r: "AppendResult E Surface Sp IM CellIdx St Sub = Some St'"
  shows "CutInv Q n C0 (Coll St') (FirstIdx St')"
proof -
  from inv have al: "Aligned (Coll St)" by (simp add: CutInv_def Grown_def)
  from AppendResult_cases [OF al r] show ?thesis
  proof
    assume "Coll St' = Coll St \<and> FirstIdx St' = FirstIdx St"
    with inv show ?thesis by simp
  next
    assume "\<exists>M Name. IsCompact M \<and>
            Coll St' = AppendedCollection E (FromCollection Surface) M (MeshTransformIndex Surface) Name (Coll St) IM \<and>
            FirstIdx St' = (if FirstIdx St = - 1 then int (length (FaceStart (Coll St))) else FirstIdx St)"
    then obtain M Name where M: "IsCompact M"
      and C: "Coll St' = AppendedCollection E (FromCollection Surface) M (MeshTransformIndex Surface) Name (Coll St) IM"
      and F: "FirstIdx St' = (if FirstIdx St = - 1 then int (length (FaceStart (Coll St))) else FirstIdx St)"
      by blast
    from inv have g: "Grown C0 (Coll St)" and f: "FirstNew n (Coll St) (FirstIdx St)"
      and q: "case Proximity (Coll St) of None \<Rightarrow> True | Some P \<Rightarrow> Q P"
      by (simp_all add: CutInv_def)
    have "Grown C0 (Coll St')"
      unfolding C by (rule Grown_trans [OF g Grown_Appended [OF al M]])
    moreover have "FirstNew n (Coll St') (FirstIdx St')"
      using f unfolding C F FirstNew_def length_FaceStart_Appended by auto
    moreover have "case Proximity (Coll St') of None \<Rightarrow> True | Some P \<Rightarrow> Q P"
      using q unfolding C Proximity_Appended by (auto split: option.splits intro: app)
    ultimately show ?thesis by (simp add: CutInv_def)
  qed
qed

lemma CutSurface_CutInv:
  fixes E :: "('x, 'b) Engine"
  assumes app: "\<And>P. Q P \<Longrightarrow> Q (P @ [{}])"
    and add: "\<And>P a b P'. Q P \<Longrightarrow> ProximityAddBoth P a b = Some P' \<Longrightarrow> Q P'"
    and inv: "CutInv Q n C0 C First"
    and r: "CutSurface E IM Conn Cells Sp bP (C, First, Rem) Surface = Some (C', First', Rem')"
  shows "CutInv Q n C0 C' First'"
proof (cases "NonEmptyResults (BooleanResultsOf E Cells (AugMesh Surface)) > 1")
  case False
  with r inv show ?thesis
    by (auto simp: CutSurface_def bind_eq_Some_conv Let_def)
next
  case True
  let ?I = "\<lambda>St. CutInv Q n C0 (Coll St) (FirstIdx St)"
  from r True obtain I St Cn where
    loop: "CutCellsLoop E Surface Sp I [0..<length (CellMeshes Cells)]
            \<lparr>Coll = C, BooleanResults = BooleanResultsOf E Cells (AugMesh Surface), PlanesInOutput = [],
             CellToGeometry = [], GeometryToResultMesh = [], SubPartIndex = 0, FirstIdx = First\<rparr> = Some St"
    and prox: "(if bP then do { P \<leftarrow> Proximity (Coll St);
                    P' \<leftarrow> LinkPlanes E Conn Cells St (PlanesInOutput St) P;
                    Some ((Coll St) \<lparr>Proximity := Some P'\<rparr>) }
                else Some (Coll St)) = Some Cn"
    and res: "C' = Cn" "First' = FirstIdx St"
    by (auto simp: CutSurface_def bind_eq_Some_conv Let_def)
  have "?I St"
  proof (rule CutCellsLoop_preserves [where I = ?I, OF _ _ _ loop])
    show "?I St' \<Longrightarrow> AppendResult E Surface Sp I CellIdx St' Sub = Some St'' \<Longrightarrow> ?I St''"
      for St' Sub St'' CellIdx
      by (rule AppendResult_CutInv [where Q = Q, OF app])
    show "?I St' \<Longrightarrow> ?I (St' \<lparr>PlanesInOutput := Ps\<rparr>)" for St' Ps by simp
    show "?I \<lparr>Coll = C, BooleanResults = BooleanResultsOf E Cells (AugMesh Surface), PlanesInOutput = [],
             CellToGeometry = [], GeometryToResultMesh = [], SubPartIndex = 0, FirstIdx = First\<rparr>"
      using inv by simp
  qed
  show ?thesis
  proof (cases bP)
    case False
    with prox res \<open>?I St\<close> show ?thesis by simp
  next
    case True
    with prox obtain P P' where P: "Proximity (Coll St) = Some P"
      and L: "LinkPlanes E Conn Cells St (PlanesInOutput St) P = Some P'"
      and Cn: "Cn = (Coll St) \<lparr>Proximity := Some P'\<rparr>"
      by (auto simp: bind_eq_Some_conv)
    have len: "length P' = length P"
      by (rule LinkPlanes_preserves [where Q = "\<lambda>X. length X = length P", OF _ _ L])
        (simp_all add: length_ProximityAddBoth)
    from \<open>?I St\<close> P have "Q P" by (simp add: CutInv_def)
    have "Q P'"
      by (rule LinkPlanes_preserves [where Q = Q, OF add \<open>Q P\<close> L])
    from \<open>?I St\<close> have al: "Aligned (Coll St)" by (simp add: CutInv_def Grown_def)
    from Aligned_Proximity_update [OF al P len] \<open>?I St\<close> \<open>Q P'\<close> P
    show ?thesis
      unfolding res Cn by (simp add: CutInv_def Grown_def FirstNew_def)
  qed
qed

lemma CutSurfaces_CutInv:
  fixes E :: "('x, 'b) Engine"
  assumes app: "\<And>P. Q P \<Longrightarrow> Q (P @ [{}])"
    and add: "\<And>P a b P'. Q P \<Longrightarrow> ProximityAddBoth P a b = Some P' \<Longrightarrow> Q P'"
  shows "CutInv Q n C0 C First \<Longrightarrow>
    CutSurfaces E IM Conn Cells Sp bP Meshes (C, First, Rem) = Some (C', First', Rem') \<Longrightarrow>
    CutInv Q n C0 C' First'"
proof (induction Meshes arbitrary: C First Rem)
  case Nil
  then show ?case by simp
next
  case (Cons Surface Meshes)
  from Cons.prems(2) obtain C1 First1 Rem1 where
    a: "CutSurface E IM Conn Cells Sp bP (C, First, Rem) Surface = Some (C1, First1, Rem1)"
    and b: "CutSurfaces E IM Conn Cells Sp bP Meshes (C1, First1, Rem1) = Some (C', First', Rem')"
    by (auto simp: bind_eq_Some_conv)
  from CutSurface_CutInv [where Q = Q, OF app add Cons.prems(1) a] have "CutInv Q n C0 C1 First1" .
  from Cons.IH [OF this b] show ?case .
qed

lemma SetVisibleRange_None: "fold (\<lambda>FaceIdx r. do { V \<leftarrow> r; array_set V FaceIdx b }) fs None = None"
  by (induction fs) simp_all

lemma SetVisibleRange_frame:
  "SetVisibleRange Vis fs b = Some V \<Longrightarrow>
     length V = length Vis \<and> (\<forall>f. int f \<notin> set fs \<longrightarrow> V ! f = Vis ! f)"
proof (induction fs arbitrary: Vis)
  case Nil
  then show ?case by (simp add: SetVisibleRange_def)
next
  case (Cons x fs)
  show ?case
  proof (cases "array_set Vis x b")
    case None
    with Cons.prems show ?thesis by (simp add: SetVisibleRange_def SetVisibleRange_None)
  next
    case (Some V1)
    with Cons.prems have "SetVisibleRange V1 fs b = Some V" by (simp add: SetVisibleRange_def)
    from Cons.IH [OF this] Some show ?thesis
      by (auto simp: array_set_def split: if_splits)
  qed
qed

lemma SetGeometryVisibility_frame:
  "SetGeometryVisibility C Gs b = Some C' \<Longrightarrow>
     \<exists>V. C' = C \<lparr>Visible := V\<rparr> \<and> length V = length (Visible C) \<and>
         (\<forall>f. (\<forall>g \<in> set Gs. int f \<notin> FacesOf C g) \<longrightarrow> V ! f = Visible C ! f)"
proof (induction Gs arbitrary: C)
  case Nil
  then show ?case by (intro exI [of _ "Visible C"]) simp
next
  case (Cons g Gs)
  from Cons.prems obtain s c V1 where
    s: "array_get (FaceStart C) g = Some s" and c: "array_get (FaceCount C) g = Some c"
    and v: "SetVisibleRange (Visible C) [s..s + c - 1] b = Some V1"
    and r: "SetGeometryVisibility (C \<lparr>Visible := V1\<rparr>) Gs b = Some C'"
    by (auto simp: bind_eq_Some_conv)
  from Cons.IH [OF r] obtain V where
    V: "C' = C \<lparr>Visible := V\<rparr>" "length V = length V1"
    "\<forall>f. (\<forall>g \<in> set Gs. int f \<notin> FacesOf (C \<lparr>Visible := V1\<rparr>) g) \<longrightarrow> V ! f = V1 ! f"
    by auto
  have fo: "FacesOf (C \<lparr>Visible := V1\<rparr>) g' = FacesOf C g'" for g'
    by (simp add: FacesOf_def)
  have fg: "FacesOf C g = {s..<s + c}" by (simp add: FacesOf_def s c)
  from SetVisibleRange_frame [OF v] have
    v1: "length V1 = length (Visible C)" "\<forall>f. int f \<notin> set [s..s + c - 1] \<longrightarrow> V1 ! f = Visible C ! f"
    by simp_all
  show ?case
  proof (intro exI [of _ V] conjI allI impI)
    show "C' = C \<lparr>Visible := V\<rparr>" by (rule V(1))
    show "length V = length (Visible C)" using V(2) v1(1) by simp
    fix f assume a: "\<forall>g' \<in> set (g # Gs). int f \<notin> FacesOf C g'"
    then have "int f \<notin> set [s..s + c - 1]" by (auto simp: fg)
    with v1(2) have "V1 ! f = Visible C ! f" by simp
    moreover from a V(3) have "V ! f = V1 ! f" by (simp add: fo)
    ultimately show "V ! f = Visible C ! f" by simp
  qed
qed

lemma CutWithCellMeshes_CutInv:
  fixes E :: "('x, 'b) Engine"
  assumes app: "\<And>P. Q P \<Longrightarrow> Q (P @ [{}])"
    and add: "\<And>P a b P'. Q P \<Longrightarrow> ProximityAddBoth P a b = Some P' \<Longrightarrow> Q P'"
    and al: "Aligned C"
    and q: "case Proximity C of None \<Rightarrow> True | Some P \<Rightarrow> Q P"
    and r: "CutWithCellMeshes E Meshes IM Conn Cells C Sp = Some (r, C')"
  shows "\<exists>C1 V. CutInv Q (length (FaceStart C)) C C1 r \<and> C' = C1 \<lparr>Visible := V\<rparr> \<and>
           length V = length (Visible C1)"
proof -
  from r obtain C1 Rem where
    s: "CutSurfaces E IM Conn Cells Sp (Proximity C \<noteq> None) Meshes (C, - 1, []) = Some (C1, r, Rem)"
    and v: "(if length Rem > 0 then SetGeometryVisibility C1 Rem False else Some C1) = Some C'"
    by (auto simp: CutWithCellMeshes_def bind_eq_Some_conv Let_def)
  have "CutInv Q (length (FaceStart C)) C C (- 1)"
    using al q by (simp add: CutInv_def Grown_refl FirstNew_def)
  from CutSurfaces_CutInv [where Q = Q, OF app add this s]
  have i: "CutInv Q (length (FaceStart C)) C C1 r" .
  show ?thesis
  proof (cases "length Rem > 0")
    case True
    with v SetGeometryVisibility_frame [of C1 Rem False C'] i show ?thesis by auto
  next
    case False
    with v have "C' = C1 \<lparr>Visible := Visible C1\<rparr>" by simp
    with i show ?thesis by blast
  qed
qed

lemma AppendPiece_CutInv:
  fixes E :: "('x, 'b) Engine"
  assumes app: "\<And>P. Q P \<Longrightarrow> Q (P @ [{}])"
    and inv: "CutInv Q n C0 (OutColl St) (FirstCreatedIndex St)"
    and r: "AppendPiece E Sp IM St Sub = Some St'"
  shows "CutInv Q n C0 (OutColl St') (FirstCreatedIndex St')"
proof -
  from inv have al: "Aligned (OutColl St)" by (simp add: CutInv_def Grown_def)
  obtain k ToCutIdx where Sub: "Sub = (k, ToCutIdx)" by (cases Sub)
  from r have "\<exists>(D :: 'x FMeshData) Name g M' C'.
      AppendToCollection E (FromCollection D) (AugMesh D) Sp (MeshTransformIndex D) Name (OutColl St) IM
          = Some (g, M', C') \<and> OutColl St' = C' \<and>
      FirstCreatedIndex St' = (if FirstCreatedIndex St = - 1 then g else FirstCreatedIndex St)"
    by (fastforce simp: AppendPiece_def Sub bind_eq_Some_conv)
  then obtain D :: "'x FMeshData" and Name g M' C' where
    a: "AppendToCollection E (FromCollection D) (AugMesh D) Sp (MeshTransformIndex D) Name (OutColl St) IM
          = Some (g, M', C')"
    and c: "OutColl St' = C'"
    and f: "FirstCreatedIndex St' = (if FirstCreatedIndex St = - 1 then g else FirstCreatedIndex St)"
    by blast
  from AppendToCollection_cases [OF al a] show ?thesis
  proof
    assume "g = - 1 \<and> M' = AugMesh D \<and> C' = OutColl St"
    with c f have "OutColl St' = OutColl St" "FirstCreatedIndex St' = FirstCreatedIndex St" by simp_all
    with inv show ?thesis by simp
  next
    assume b: "g = int (length (FaceStart (OutColl St))) \<and> M' = PreparedForAppend E (AugMesh D) Sp \<and>
       IsCompact M' \<and>
       C' = AppendedCollection E (FromCollection D) M' (MeshTransformIndex D) Name (OutColl St) IM"
    from inv have g: "Grown C0 (OutColl St)" and fn: "FirstNew n (OutColl St) (FirstCreatedIndex St)"
      and q: "case Proximity (OutColl St) of None \<Rightarrow> True | Some P \<Rightarrow> Q P"
      by (simp_all add: CutInv_def)
    from b have C: "OutColl St' = AppendedCollection E (FromCollection D) M' (MeshTransformIndex D) Name (OutColl St) IM"
      and M: "IsCompact M'" and F: "FirstCreatedIndex St' =
        (if FirstCreatedIndex St = - 1 then int (length (FaceStart (OutColl St))) else FirstCreatedIndex St)"
      using c f by auto
    have "Grown C0 (OutColl St')"
      unfolding C by (rule Grown_trans [OF g Grown_Appended [OF al M]])
    moreover have "FirstNew n (OutColl St') (FirstCreatedIndex St')"
      using fn unfolding C F FirstNew_def length_FaceStart_Appended by auto
    moreover have "case Proximity (OutColl St') of None \<Rightarrow> True | Some P \<Rightarrow> Q P"
      using q unfolding C Proximity_Appended by (auto split: option.splits intro: app)
    ultimately show ?thesis by (simp add: CutInv_def)
  qed
qed

lemma AppendPieces_CutInv:
  fixes E :: "('x, 'b) Engine"
  assumes app: "\<And>P. Q P \<Longrightarrow> Q (P @ [{}])"
  shows "CutInv Q n C0 (OutColl St) (FirstCreatedIndex St) \<Longrightarrow>
    AppendPieces E Sp IM Subs St = Some St' \<Longrightarrow>
    CutInv Q n C0 (OutColl St') (FirstCreatedIndex St')"
proof (induction Subs arbitrary: St)
  case Nil
  then show ?case by simp
next
  case (Cons Sub Subs)
  from Cons.prems(2) obtain St1 where
    a: "AppendPiece E Sp IM St Sub = Some St1"
    and b: "AppendPieces E Sp IM Subs St1 = Some St'"
    by (auto simp: bind_eq_Some_conv)
  from AppendPiece_CutInv [where Q = Q, OF app Cons.prems(1) a]
  have "CutInv Q n C0 (OutColl St1) (FirstCreatedIndex St1)" .
  from Cons.IH [OF this b] show ?case .
qed

lemma AppendChildren_CutInv:
  fixes E :: "('x, 'b) Engine"
  assumes app: "\<And>P. Q P \<Longrightarrow> Q (P @ [{}])"
    and inv: "CutInv Q n C0 (OutColl St) (FirstCreatedIndex St)"
    and r: "AppendChildren E IM Sp PTC (St, Rem) MeshData = Some (St', Rem')"
  shows "CutInv Q n C0 (OutColl St') (FirstCreatedIndex St')"
  using r inv
  by (auto simp: AppendChildren_def bind_eq_Some_conv Let_def split: if_splits
      dest: AppendPieces_CutInv [where Q = Q, OF app, rotated])

lemma AppendAllChildren_CutInv:
  fixes E :: "('x, 'b) Engine"
  assumes app: "\<And>P. Q P \<Longrightarrow> Q (P @ [{}])"
  shows "CutInv Q n C0 (OutColl St) (FirstCreatedIndex St) \<Longrightarrow>
    AppendAllChildren E IM Sp PTC Meshes (St, Rem) = Some (St', Rem') \<Longrightarrow>
    CutInv Q n C0 (OutColl St') (FirstCreatedIndex St')"
proof (induction Meshes arbitrary: St Rem)
  case Nil
  then show ?case by simp
next
  case (Cons MeshData Meshes)
  from Cons.prems(2) obtain St1 Rem1 where
    a: "AppendChildren E IM Sp PTC (St, Rem) MeshData = Some (St1, Rem1)"
    and b: "AppendAllChildren E IM Sp PTC Meshes (St1, Rem1) = Some (St', Rem')"
    by (auto simp: bind_eq_Some_conv)
  from AppendChildren_CutInv [where Q = Q, OF app Cons.prems(1) a]
  have "CutInv Q n C0 (OutColl St1) (FirstCreatedIndex St1)" .
  from Cons.IH [OF this b] show ?case .
qed

lemma length_PopulateProximity: "PopulateProximity G L P = Some P' \<Longrightarrow> length P' = length P"
proof (induction L arbitrary: P)
  case Nil
  then show ?case by simp
next
  case (Cons Link L)
  from Cons.prems obtain A B P1 where "ProximityAdd P A B = Some P1" "PopulateProximity G L P1 = Some P'"
    by (auto simp: bind_eq_Some_conv)
  with Cons.IH [of P1] length_ProximityAdd [of P A B P1] show ?case by simp
qed

text \<open>The run without grout, taken apart.\<close>

lemma CutWithMultiplePlanes_parts:
  fixes E :: "('x, 'b) Engine"
  assumes app: "\<And>P. Q P \<Longrightarrow> Q (P @ [{}])"
    and al: "Aligned C"
    and q: "case Proximity C of None \<Rightarrow> True | Some P \<Rightarrow> Q P"
    and g: "\<not> Grout > 0"
    and r: "CutWithMultiplePlanes E Ops Meshes Planes Grout Sp C IM = Some (r, C')"
  shows "\<exists>St (A :: ('x, 'b) AppendLoop) P' V.
           CutPlanes E Ops (Proximity C \<noteq> None) Planes \<lparr>ToCut = Meshes, VerticesHashes = [], ProximityLinks = []\<rparr>
             = Some St \<and>
           CutInv Q (length (FaceStart C)) C (OutColl A) r \<and>
           (case Proximity (OutColl A) of None \<Rightarrow> P' = None
            | Some P \<Rightarrow> \<exists>P1. P' = Some P1 \<and>
                 PopulateProximity (ToCutIdxToGeometryIdx A) (ProximityLinks St) P = Some P1) \<and>
           C' = (OutColl A) \<lparr>Proximity := P', Visible := V\<rparr> \<and> length V = length (Visible (OutColl A))"
proof -
  let ?bP = "Proximity C \<noteq> None"
  from r g obtain St A Rem C1 where
    st: "CutPlanes E Ops ?bP Planes \<lparr>ToCut = Meshes, VerticesHashes = [], ProximityLinks = []\<rparr> = Some St"
    and a: "AppendAllChildren E IM Sp
              (ParentTransformToChildrenOf (ToCut St))
              Meshes
              (\<lparr>OutColl = C, Pieces = ToCut St, ToCutIdxToGeometryIdx = replicate (length (ToCut St)) (- 1),
                FirstCreatedIndex = - 1\<rparr>, []) = Some (A, Rem)"
    and p: "(if ?bP then do { P \<leftarrow> Proximity (OutColl A);
                P' \<leftarrow> PopulateProximity (ToCutIdxToGeometryIdx A) (ProximityLinks St) P;
                Some ((OutColl A) \<lparr>Proximity := Some P'\<rparr>) }
             else Some (OutColl A)) = Some C1"
    and v: "(if length Rem > 0 then SetGeometryVisibility C1 Rem False else Some C1) = Some C'"
    and f: "r = FirstCreatedIndex A"
    by (auto simp: CutWithMultiplePlanes_def bind_eq_Some_conv Let_def)
  have "CutInv Q (length (FaceStart C)) C C (- 1)"
    using al q by (simp add: CutInv_def Grown_refl FirstNew_def)
  from AppendAllChildren_CutInv [where Q = Q and St = "\<lparr>OutColl = C, Pieces = ToCut St,
      ToCutIdxToGeometryIdx = replicate (length (ToCut St)) (- 1), FirstCreatedIndex = - 1\<rparr>", OF app _ a] this
  have i: "CutInv Q (length (FaceStart C)) C (OutColl A) r" unfolding f by simp
  then have same: "(Proximity C = None) = (Proximity (OutColl A) = None)"
    by (simp add: CutInv_def Grown_def)
  obtain P' where p': "C1 = (OutColl A) \<lparr>Proximity := P'\<rparr>"
    "case Proximity (OutColl A) of None \<Rightarrow> P' = None
     | Some P \<Rightarrow> \<exists>P1. P' = Some P1 \<and>
         PopulateProximity (ToCutIdxToGeometryIdx A) (ProximityLinks St) P = Some P1"
  proof (cases "Proximity (OutColl A)")
    case None
    with p same have "C1 = (OutColl A) \<lparr>Proximity := None\<rparr>" by simp
    with None that show ?thesis by simp
  next
    case (Some P)
    with p same obtain P1 where "PopulateProximity (ToCutIdxToGeometryIdx A) (ProximityLinks St) P = Some P1"
      "C1 = (OutColl A) \<lparr>Proximity := Some P1\<rparr>"
      by (auto simp: bind_eq_Some_conv)
    with Some that show ?thesis by simp
  qed
  obtain V where V: "C' = C1 \<lparr>Visible := V\<rparr>" "length V = length (Visible C1)"
  proof (cases "length Rem > 0")
    case True
    with v SetGeometryVisibility_frame [of C1 Rem False C'] that show ?thesis by auto
  next
    case False
    with v have "C' = C1 \<lparr>Visible := Visible C1\<rparr>" by simp
    with that show ?thesis by blast
  qed
  have "CutPlanes E Ops (Proximity C \<noteq> None) Planes \<lparr>ToCut = Meshes, VerticesHashes = [], ProximityLinks = []\<rparr>
             = Some St \<and>
           CutInv Q (length (FaceStart C)) C (OutColl A) r \<and>
           (case Proximity (OutColl A) of None \<Rightarrow> P' = None
            | Some P \<Rightarrow> \<exists>P1. P' = Some P1 \<and>
                 PopulateProximity (ToCutIdxToGeometryIdx A) (ProximityLinks St) P = Some P1) \<and>
           C' = (OutColl A) \<lparr>Proximity := P', Visible := V\<rparr> \<and> length V = length (Visible (OutColl A))"
    using st i p' V by simp
  then show ?thesis by blast
qed

subsection \<open>The returned geometry index\<close>

lemma FirstNew_result:
  assumes "CutInv Q (length (FaceStart C)) C C1 r"
  shows "((r = - 1) = (length (FaceStart C1) = length (FaceStart C))) \<and>
         (r \<noteq> - 1 \<longrightarrow> r = int (length (FaceStart C))) \<and>
         prefix (FaceStart C) (FaceStart C1) \<and> prefix (FaceCount C) (FaceCount C1)"
  using assms by (auto simp: CutInv_def FirstNew_def Grown_def)

lemma CutWithCellMeshes_first_new:
  fixes E :: "('x, 'b) Engine"
  assumes al: "Aligned C" and r: "CutWithCellMeshes E Meshes IM Conn Cells C Sp = Some (r, C')"
  shows "ReturnsFirstNew C r C'"
proof -
  have "case Proximity C of None \<Rightarrow> True | Some P \<Rightarrow> (\<lambda>_. True) P"
    by (simp split: option.splits)
  from CutWithCellMeshes_CutInv [where Q = "\<lambda>_. True", OF _ _ al this r]
  obtain C1 V where "CutInv (\<lambda>_. True) (length (FaceStart C)) C C1 r" "C' = C1 \<lparr>Visible := V\<rparr>"
    by auto
  with FirstNew_result [of "\<lambda>_. True" C C1 r] show ?thesis
    by (simp add: ReturnsFirstNew_def NumElements_def)
qed

lemma CutWithMultiplePlanes_first_new:
  fixes E :: "('x, 'b) Engine"
  assumes al: "Aligned C" and r: "CutWithMultiplePlanes E Ops Meshes Planes Grout Sp C IM = Some (r, C')"
  shows "ReturnsFirstNew C r C'"
proof (cases "Grout > 0")
  case True
  with r have "CutWithCellMeshes E Meshes IM [(0, - 1)]
           \<lparr>CellMeshes = [GroutMeshOf Ops Planes Grout, GroutMeshOf Ops Planes Grout],
            OutsideCellIndex = 1, NumUVLayers = 1\<rparr> C Sp = Some (r, C')"
    by (simp add: CutWithMultiplePlanes_def)
  from CutWithCellMeshes_first_new [OF al this] show ?thesis .
next
  case False
  have "case Proximity C of None \<Rightarrow> True | Some P \<Rightarrow> (\<lambda>_. True) P"
    by (simp split: option.splits)
  from CutWithMultiplePlanes_parts [where Q = "\<lambda>_. True", OF _ al this False r]
  obtain A :: "('x, 'b) AppendLoop" and P' V where
    "CutInv (\<lambda>_. True) (length (FaceStart C)) C (OutColl A) r"
    "C' = (OutColl A) \<lparr>Proximity := P', Visible := V\<rparr>"
    by auto
  with FirstNew_result [of "\<lambda>_. True" C "OutColl A" r] show ?thesis
    by (simp add: ReturnsFirstNew_def NumElements_def)
qed

lemma Aligned_AddProximity: "Aligned C \<Longrightarrow> Aligned (AddProximityAttribute C)"
  by (simp add: Aligned_def AddProximityAttribute_def NumElements_def)

lemma Aligned_with_Proximity:
  "Aligned C \<Longrightarrow> Aligned (if Proximity C = None then AddProximityAttribute C else C)"
  by (simp add: Aligned_AddProximity)

lemma ReturnsFirstNew_boundary:
  assumes k: "KeepsGeometry f"
    and r: "ReturnsFirstNew (if Proximity C = None then AddProximityAttribute C else C) r C'"
  shows "ReturnsFirstNew C r (f C')"
proof -
  from k have "FaceStart (f C') = FaceStart C'" "FaceCount (f C') = FaceCount C'"
    by (simp_all add: KeepsGeometry_def)
  moreover have "FaceStart (if Proximity C = None then AddProximityAttribute C else C) = FaceStart C"
    "FaceCount (if Proximity C = None then AddProximityAttribute C else C) = FaceCount C"
    by (simp_all add: AddProximityAttribute_def)
  ultimately show ?thesis
    using r by (simp add: ReturnsFirstNew_def NumElements_def)
qed

lemma CutMultipleWithPlanarCells_first_new:
  fixes E :: "('x, 'b) Engine"
  assumes al: "Aligned C" and k: "KeepsGeometry (ReindexMaterials B)"
    and r: "CutMultipleWithPlanarCells E B Cells C TransformIndices Grout Sp TC bOutside bSet = Some (r, C')"
  shows "ReturnsFirstNew C r C'"
proof -
  let ?C = "if Proximity C = None then AddProximityAttribute C else C"
  from r obtain Meshes IM Conn Cut C1 where
    c: "CutWithCellMeshes E Meshes IM Conn Cut ?C Sp = Some (r, C1)"
    and C': "C' = ReindexMaterials B C1"
    by (auto simp: CutMultipleWithPlanarCells_def bind_eq_Some_conv Let_def)
  from CutWithCellMeshes_first_new [OF Aligned_with_Proximity [OF al] c]
  show ?thesis unfolding C' by (rule ReturnsFirstNew_boundary [OF k])
qed

lemma CutMultipleWithMultiplePlanes_first_new:
  fixes E :: "('x, 'b) Engine"
  assumes al: "Aligned C" and k: "KeepsGeometry (ReindexMaterials B)"
    and r: "CutMultipleWithMultiplePlanes E B Planes Materials C TransformIndices Grout Sp TC bSet = Some (r, C')"
  shows "ReturnsFirstNew C r C'"
proof -
  let ?C = "if Proximity C = None then AddProximityAttribute C else C"
  from r obtain Ops Meshes IM C1 where
    c: "CutWithMultiplePlanes E Ops Meshes Planes Grout Sp ?C IM = Some (r, C1)"
    and C': "C' = ReindexMaterials B C1"
    by (auto simp: CutMultipleWithMultiplePlanes_def bind_eq_Some_conv Let_def)
  from CutWithMultiplePlanes_first_new [OF Aligned_with_Proximity [OF al] c]
  show ?thesis unfolding C' by (rule ReturnsFirstNew_boundary [OF k])
qed

lemma CutWithMesh_first_new:
  fixes E :: "('x, 'b) Engine"
  assumes al: "Aligned C" and k: "KeepsGeometry (ReindexMaterials B)"
    and r: "CutWithMesh E B CuttingMesh T Materials C TransformIndices Sp TC bSet = Some (r, C')"
  shows "ReturnsFirstNew C r C'"
proof -
  let ?C = "if Proximity C = None then AddProximityAttribute C else C"
  from r obtain Meshes IM Conn Cut C1 where
    c: "CutWithCellMeshes E Meshes IM Conn Cut ?C Sp = Some (r, C1)"
    and C': "C' = ReindexMaterials B C1"
    by (auto simp: CutWithMesh_def bind_eq_Some_conv Let_def)
  from CutWithCellMeshes_first_new [OF Aligned_with_Proximity [OF al] c]
  show ?thesis unfolding C' by (rule ReturnsFirstNew_boundary [OF k])
qed

text \<open>
  C2.  On a collection whose columns have the length of their group, whenever
  \<open>CutWithCellMeshes\<close> returns, it returns \<open>-1\<close> exactly if the collection has as many
  geometry entries as before, and otherwise the index of the first entry after the
  earlier ones, which are kept where they were (no entry is removed or moved: the
  superseded geometry is only hidden).  \<open>CutWithMultiplePlanes\<close>, with or without grout,
  returns the same way.  So do the three operations at the boundary,
  \<open>CutMultipleWithPlanarCells\<close>, \<open>CutMultipleWithMultiplePlanes\<close> and \<open>CutWithMesh\<close>, when
  \<open>ReindexMaterials\<close>, which they call last and which is outside the translated files,
  keeps the geometry rows: they add the \<open>Proximity\<close> column when it is missing, build the
  target meshes and the cells, cut, and pass the returned index on.
\<close>

theorem Cut_returns_first_new_geometry:
  fixes E :: "('x, 'b) Engine" and B :: "('x, 'b, 'p, 'c, 'm, 'd) Boundary"
  shows
    "(Aligned C \<and> CutWithCellMeshes E Meshes IM Conn Cells C Sp = Some (r, C') \<longrightarrow>
        ((r = - 1) = (NumElements C' GeometryGroup = NumElements C GeometryGroup)) \<and>
        (r \<noteq> - 1 \<longrightarrow> r = int (NumElements C GeometryGroup)) \<and>
        prefix (FaceStart C) (FaceStart C') \<and> prefix (FaceCount C) (FaceCount C')) \<and>
     (Aligned C \<and> CutWithMultiplePlanes E Ops Meshes Planes Grout Sp C IM = Some (r2, C2) \<longrightarrow>
        ((r2 = - 1) = (NumElements C2 GeometryGroup = NumElements C GeometryGroup)) \<and>
        (r2 \<noteq> - 1 \<longrightarrow> r2 = int (NumElements C GeometryGroup)) \<and>
        prefix (FaceStart C) (FaceStart C2) \<and> prefix (FaceCount C) (FaceCount C2)) \<and>
     (Aligned C \<and> KeepsGeometry (ReindexMaterials B) \<and>
      CutMultipleWithPlanarCells E B PlanarCells C TransformIndices Grout Sp TC bOutside bSet = Some (r3, C3) \<longrightarrow>
        ReturnsFirstNew C r3 C3) \<and>
     (Aligned C \<and> KeepsGeometry (ReindexMaterials B) \<and>
      CutMultipleWithMultiplePlanes E B Planes Materials C TransformIndices Grout Sp TC bSet = Some (r4, C4) \<longrightarrow>
        ReturnsFirstNew C r4 C4) \<and>
     (Aligned C \<and> KeepsGeometry (ReindexMaterials B) \<and>
      CutWithMesh E B CuttingMesh T Materials C TransformIndices Sp TC bSet = Some (r5, C5) \<longrightarrow>
        ReturnsFirstNew C r5 C5)"
proof (intro conjI impI)
  assume a: "Aligned C \<and> CutWithCellMeshes E Meshes IM Conn Cells C Sp = Some (r, C')"
  then have "ReturnsFirstNew C r C'" by (blast intro: CutWithCellMeshes_first_new)
  then show "(r = - 1) = (NumElements C' GeometryGroup = NumElements C GeometryGroup)"
    "r \<noteq> - 1 \<Longrightarrow> r = int (NumElements C GeometryGroup)"
    "prefix (FaceStart C) (FaceStart C')" "prefix (FaceCount C) (FaceCount C')"
    by (simp_all add: ReturnsFirstNew_def)
next
  assume a: "Aligned C \<and> CutWithMultiplePlanes E Ops Meshes Planes Grout Sp C IM = Some (r2, C2)"
  then have "ReturnsFirstNew C r2 C2" by (blast intro: CutWithMultiplePlanes_first_new)
  then show "(r2 = - 1) = (NumElements C2 GeometryGroup = NumElements C GeometryGroup)"
    "r2 \<noteq> - 1 \<Longrightarrow> r2 = int (NumElements C GeometryGroup)"
    "prefix (FaceStart C) (FaceStart C2)" "prefix (FaceCount C) (FaceCount C2)"
    by (simp_all add: ReturnsFirstNew_def)
next
  assume "Aligned C \<and> KeepsGeometry (ReindexMaterials B) \<and>
      CutMultipleWithPlanarCells E B PlanarCells C TransformIndices Grout Sp TC bOutside bSet = Some (r3, C3)"
  then show "ReturnsFirstNew C r3 C3" by (blast intro: CutMultipleWithPlanarCells_first_new)
next
  assume "Aligned C \<and> KeepsGeometry (ReindexMaterials B) \<and>
      CutMultipleWithMultiplePlanes E B Planes Materials C TransformIndices Grout Sp TC bSet = Some (r4, C4)"
  then show "ReturnsFirstNew C r4 C4" by (blast intro: CutMultipleWithMultiplePlanes_first_new)
next
  assume "Aligned C \<and> KeepsGeometry (ReindexMaterials B) \<and>
      CutWithMesh E B CuttingMesh T Materials C TransformIndices Sp TC bSet = Some (r5, C5)"
  then show "ReturnsFirstNew C r5 C5" by (blast intro: CutWithMesh_first_new)
qed

lemma Example_cut_cells:
  "map_option fst (CutWithCellMeshes ExampleEngine [ExampleTarget] (Some 7) [(0, 1)] ExampleCells (OneGeometry 3) 0)
     = Some 1"
  by code_simp

lemma Example_no_cut_planes:
  "map_option fst (CutWithMultiplePlanes ExampleEngine ExamplePlaneOps [ExampleTarget] [False] 0 0 (OneGeometry 3) (Some 7))
     = Some (- 1)"
  by code_simp

lemma Example_boundary_cells:
  "map_option fst (CutMultipleWithPlanarCells ExampleEngine ExampleBoundary () (OneGeometry 3) [0] 0 0 None True False)
     = Some 1"
  by code_simp

lemma Example_boundary_planes:
  "map_option fst (CutMultipleWithMultiplePlanes ExampleEngine ExampleBoundary [True] () (OneGeometry 3) [0] 0 0
     None False) = Some 1"
  by code_simp

lemma Example_boundary_mesh:
  "map_option fst (CutWithMesh ExampleEngine ExampleBoundary () () () (OneGeometry 3) [0] 0 None False) = Some 1"
  by code_simp

theorem Cut_returns_first_new_geometry_witness:
  "Aligned (OneGeometry 3) \<and> KeepsGeometry (ReindexMaterials ExampleBoundary) \<and>
   NumElements (OneGeometry 3) GeometryGroup = 1 \<and>
   (\<exists>C'. CutWithCellMeshes ExampleEngine [ExampleTarget] (Some 7) [(0, 1)] ExampleCells (OneGeometry 3) 0
            = Some (1, C') \<and>
          NumElements C' GeometryGroup \<noteq> NumElements (OneGeometry 3) GeometryGroup \<and>
          prefix [0] (FaceStart C') \<and> prefix [1] (FaceCount C')) \<and>
   (\<exists>C2. CutWithMultiplePlanes ExampleEngine ExamplePlaneOps [ExampleTarget] [False] 0 0 (OneGeometry 3) (Some 7)
            = Some (- 1, C2) \<and>
          NumElements C2 GeometryGroup = NumElements (OneGeometry 3) GeometryGroup) \<and>
   (\<exists>C3. CutMultipleWithPlanarCells ExampleEngine ExampleBoundary () (OneGeometry 3) [0] 0 0 None True False
            = Some (1, C3) \<and> ReturnsFirstNew (OneGeometry 3) 1 C3) \<and>
   (\<exists>C4. CutMultipleWithMultiplePlanes ExampleEngine ExampleBoundary [True] () (OneGeometry 3) [0] 0 0 None False
            = Some (1, C4) \<and> ReturnsFirstNew (OneGeometry 3) 1 C4) \<and>
   (\<exists>C5. CutWithMesh ExampleEngine ExampleBoundary () () () (OneGeometry 3) [0] 0 None False
            = Some (1, C5) \<and> ReturnsFirstNew (OneGeometry 3) 1 C5)"
proof -
  have al: "Aligned (OneGeometry 3)"
    by (simp add: Aligned_def OneGeometry_def)
  have k: "KeepsGeometry (ReindexMaterials ExampleBoundary)"
    by (simp add: KeepsGeometry_def ExampleBoundary_def)
  have n: "NumElements (OneGeometry 3) GeometryGroup = 1" "FaceStart (OneGeometry 3) = [0]"
    "FaceCount (OneGeometry 3) = [1]"
    by (simp_all add: NumElements_def OneGeometry_def)
  from Example_cut_cells obtain C' where
    c: "CutWithCellMeshes ExampleEngine [ExampleTarget] (Some 7) [(0, 1)] ExampleCells (OneGeometry 3) 0
          = Some (1, C')"
    by auto
  from Example_no_cut_planes obtain C2 where
    p: "CutWithMultiplePlanes ExampleEngine ExamplePlaneOps [ExampleTarget] [False] 0 0 (OneGeometry 3) (Some 7)
          = Some (- 1, C2)"
    by auto
  from Example_boundary_cells obtain C3 where
    b3: "CutMultipleWithPlanarCells ExampleEngine ExampleBoundary () (OneGeometry 3) [0] 0 0 None True False
          = Some (1, C3)"
    by auto
  from Example_boundary_planes obtain C4 where
    b4: "CutMultipleWithMultiplePlanes ExampleEngine ExampleBoundary [True] () (OneGeometry 3) [0] 0 0 None False
          = Some (1, C4)"
    by auto
  from Example_boundary_mesh obtain C5 where
    b5: "CutWithMesh ExampleEngine ExampleBoundary () () () (OneGeometry 3) [0] 0 None False = Some (1, C5)"
    by auto
  from Cut_returns_first_new_geometry [where C = "OneGeometry 3" and E = ExampleEngine
      and Meshes = "[ExampleTarget]" and IM = "Some 7" and Conn = "[(0, 1)]" and Cells = ExampleCells
      and Sp = 0 and r = 1 and C' = C' and Ops = ExamplePlaneOps and Planes = "[False]" and Grout = 0
      and ?r2.0 = "- 1" and ?C2.0 = C2 and B = ExampleBoundary and PlanarCells = "()"
      and TransformIndices = "[0]" and TC = None and bOutside = True and bSet = False
      and ?r3.0 = 1 and ?C3.0 = C3 and Materials = "()" and ?r4.0 = "- 1" and ?C4.0 = C2
      and CuttingMesh = "()" and T = "()" and ?r5.0 = 1 and ?C5.0 = C5]
    Cut_returns_first_new_geometry [where C = "OneGeometry 3" and E = ExampleEngine
      and B = ExampleBoundary and Planes = "[True]" and Materials = "()" and Grout = 0 and Sp = 0
      and TransformIndices = "[0]" and TC = None and bSet = False and ?r4.0 = 1 and ?C4.0 = C4]
    al k c p b3 b4 b5 n
  show ?thesis by simp
qed

subsection \<open>Links between the meshes of a multi-plane cut\<close>

lemma count_list_remove1: "count_list (remove1 x xs) y = count_list xs y - (if x = y then 1 else 0)"
proof (induction xs)
  case Nil
  show ?case by simp
next
  case (Cons z zs)
  show ?case
  proof (cases "x = z")
    case True
    then show ?thesis by simp
  next
    case False
    with Cons show ?thesis by (cases "x = y") simp_all
  qed
qed

lemma count_list_ProxLink:
  "count_list (ProxLink L A B) p =
     count_list L p + (if p = (A, B) then 1 else 0) + (if p = (B, A) then 1 else 0)"
  by (simp add: ProxLink_def)

lemma count_list_ProxUnlink:
  "count_list (ProxUnlink L A B) p =
     count_list L p - (if (A, B) = p then 1 else 0) - (if (B, A) = p then 1 else 0)"
  unfolding ProxUnlink_def count_list_remove1 ..

lemma mirrored_sum:
  "c = c' \<Longrightarrow> p = p' \<Longrightarrow> q = q' \<Longrightarrow>
   c + (if p then 1 else 0) + (if q then 1 else 0) = c' + (if q' then 1 else 0) + (if p' then (1::nat) else 0)"
  by simp

lemma mirrored_difference:
  "c = c' \<Longrightarrow> p = p' \<Longrightarrow> q = q' \<Longrightarrow>
   c - (if p then 1 else 0) - (if q then 1 else 0) = c' - (if q' then 1 else 0) - (if p' then (1::nat) else 0)"
  by simp

lemma SymmetricLinks_ProxLink:
  assumes "SymmetricLinks L"
  shows "SymmetricLinks (ProxLink L A B)"
  unfolding SymmetricLinks_def
proof (intro allI)
  fix a b
  from assms have c: "count_list L (a, b) = count_list L (b, a)" by (simp add: SymmetricLinks_def)
  have p: "((a, b) = (A, B)) = ((b, a) = (B, A))" and q: "((a, b) = (B, A)) = ((b, a) = (A, B))"
    by auto
  show "count_list (ProxLink L A B) (a, b) = count_list (ProxLink L A B) (b, a)"
    unfolding count_list_ProxLink by (rule mirrored_sum [OF c p q])
qed

lemma SymmetricLinks_ProxUnlink:
  assumes "SymmetricLinks L"
  shows "SymmetricLinks (ProxUnlink L A B)"
  unfolding SymmetricLinks_def
proof (intro allI)
  fix a b
  from assms have c: "count_list L (a, b) = count_list L (b, a)" by (simp add: SymmetricLinks_def)
  have p: "((A, B) = (a, b)) = ((B, A) = (b, a))" and q: "((B, A) = (a, b)) = ((A, B) = (b, a))"
    by auto
  show "count_list (ProxUnlink L A B) (a, b) = count_list (ProxUnlink L A B) (b, a)"
    unfolding count_list_ProxUnlink by (rule mirrored_difference [OF c p q])
qed

lemma SymmetricLinks_Relinked: "Relinked S L L' \<Longrightarrow> SymmetricLinks L \<Longrightarrow> SymmetricLinks L'"
  by (induction rule: Relinked.induct) (simp_all add: SymmetricLinks_ProxLink SymmetricLinks_ProxUnlink)

lemma SymmetricLinks_set: "SymmetricLinks L \<Longrightarrow> ((a, b) \<in> set L) = ((b, a) \<in> set L)"
  by (metis SymmetricLinks_def count_list_0_iff)

lemma Relinked_trans: "Relinked S L' L'' \<Longrightarrow> Relinked S L L' \<Longrightarrow> Relinked S L L''"
  by (induction rule: Relinked.induct) (auto intro: Relinked.intros)

lemma Relinked_mono: "Relinked S L L' \<Longrightarrow> S \<subseteq> T \<Longrightarrow> Relinked T L L'"
  by (induction rule: Relinked.induct) (auto intro: Relinked.intros)

lemma ProxOf_append: "ProxOf (P @ [{}]) a = ProxOf P a"
  by (auto simp: ProxOf_def nth_append)

lemma SymmetricProximity_append: "SymmetricProximity P \<Longrightarrow> SymmetricProximity (P @ [{}])"
  by (simp add: SymmetricProximity_def ProxOf_append)

lemma ProxOf_ProximityAdd:
  "ProximityAdd P A B = Some P' \<Longrightarrow>
     ProxOf P' a = (if a = A then insert B (ProxOf P A) else ProxOf P a)"
  by (auto simp: ProximityAdd_def array_get_def array_set_def ProxOf_def bind_eq_Some_conv
      split: if_splits)

lemma SymmetricProximity_AddBoth:
  assumes "SymmetricProximity P" and "ProximityAddBoth P A B = Some P'"
  shows "SymmetricProximity P'"
proof -
  from assms(2) obtain P1 where 1: "ProximityAdd P A B = Some P1" and 2: "ProximityAdd P1 B A = Some P'"
    by (auto simp: ProximityAddBoth_def bind_eq_Some_conv)
  show ?thesis
    unfolding SymmetricProximity_def ProxOf_ProximityAdd [OF 2] ProxOf_ProximityAdd [OF 1]
    using assms(1) by (auto simp: SymmetricProximity_def)
qed

lemma ProxOf_PopulateProximity:
  "PopulateProximity G L P = Some P' \<Longrightarrow>
     ProxOf P' a = ProxOf P a \<union> {b. \<exists>k v. (k, v) \<in> set L \<and> array_get G k = Some a \<and> array_get G v = Some b}"
proof (induction L arbitrary: P)
  case Nil
  then show ?case by simp
next
  case (Cons Link L)
  obtain k0 v0 where Link: "Link = (k0, v0)" by (cases Link)
  from Cons.prems obtain A B P1 where g: "array_get G k0 = Some A" "array_get G v0 = Some B"
    and a: "ProximityAdd P A B = Some P1" and r: "PopulateProximity G L P1 = Some P'"
    by (auto simp: Link bind_eq_Some_conv)
  from a have "0 \<le> A \<and> A < int (length P)"
    by (auto simp: ProximityAdd_def array_get_def bind_eq_Some_conv split: if_splits)
  then have ne: "ProxOf P A = P ! nat A" by (simp add: ProxOf_def)
  show ?case
    unfolding Cons.IH [OF r] ProxOf_ProximityAdd [OF a] Link
    using g by auto
qed

lemma SymmetricProximity_Populate:
  assumes s: "SymmetricProximity P" and l: "SymmetricLinks L"
    and r: "PopulateProximity G L P = Some P'"
  shows "SymmetricProximity P'"
  unfolding SymmetricProximity_def ProxOf_PopulateProximity [OF r]
  using s SymmetricLinks_set [OF l] by (auto simp: SymmetricProximity_def)

lemma MultiFind_subset: "set (MultiFind L k) \<subseteq> snd ` set L"
  by (auto simp: MultiFind_def)

lemma HashMeshVertices_frame:
  "HashMeshVertices St i = Some St' \<Longrightarrow> ToCut St' = ToCut St \<and> ProximityLinks St' = ProximityLinks St"
  by (auto simp: HashMeshVertices_def bind_eq_Some_conv Let_def split: if_splits)

lemma ClearHash_frame:
  "ClearHash St i = Some St' \<Longrightarrow> ToCut St' = ToCut St \<and> ProximityLinks St' = ProximityLinks St"
  by (auto simp: ClearHash_def bind_eq_Some_conv split: if_splits)

lemma HashAll_frame:
  "HashAll is St = Some St' \<Longrightarrow> ToCut St' = ToCut St \<and> ProximityLinks St' = ProximityLinks St"
proof (induction "is" arbitrary: St)
  case Nil
  then show ?case by simp
next
  case (Cons i "is")
  from Cons.prems obtain St1 where "HashMeshVertices St i = Some St1" "HashAll is St1 = Some St'"
    by (auto simp: bind_eq_Some_conv)
  with Cons.IH [of St1] HashMeshVertices_frame [of St i St1] show ?case by simp
qed

lemma Relinks_same: "Relinks S St St"
  by (simp add: Relinks_def Relinked_same)

lemma Relinks_frame:
  "ToCut St' = ToCut St \<and> ProximityLinks St' = ProximityLinks St \<Longrightarrow> Relinks S St St'"
  by (simp add: Relinks_def Relinked_same)

lemma Relinks_trans: "Relinks S St St' \<Longrightarrow> Relinks S St' St'' \<Longrightarrow> Relinks S St St''"
  by (auto simp: Relinks_def intro: Relinked_trans)

lemma Relinks_link:
  "A \<in> S \<Longrightarrow> B \<in> S \<Longrightarrow> Relinks S St (St \<lparr>ProximityLinks := ProxLink (ProximityLinks St) A B\<rparr>)"
  by (simp add: Relinks_def Relinked_link Relinked_same)

lemma Relinks_unlink: "Relinks S St (St \<lparr>ProximityLinks := ProxUnlink (ProximityLinks St) A B\<rparr>)"
  by (simp add: Relinks_def Relinked_unlink Relinked_same)

lemma LinkResults_Relinks:
  "set RIs \<subseteq> S \<Longrightarrow> Old \<in> S \<Longrightarrow> LinkResults E Old RIs St = Some St' \<Longrightarrow> Relinks S St St'"
proof (induction RIs arbitrary: St)
  case Nil
  then show ?case by (simp add: Relinks_same)
next
  case (Cons ResultIdx RIs)
  from Cons.prems(3) obtain b where
    r: "LinkResults E Old RIs
          (if b then St \<lparr>ProximityLinks := ProxLink (ProximityLinks St) ResultIdx Old\<rparr> else St) = Some St'"
    by (auto simp: bind_eq_Some_conv)
  have "Relinks S St (if b then St \<lparr>ProximityLinks := ProxLink (ProximityLinks St) ResultIdx Old\<rparr> else St)"
    using Cons.prems(1,2) by (simp add: Relinks_same Relinks_link)
  moreover from Cons.IH [OF _ Cons.prems(2) r] Cons.prems(1)
  have "Relinks S (if b then St \<lparr>ProximityLinks := ProxLink (ProximityLinks St) ResultIdx Old\<rparr> else St) St'"
    by simp
  ultimately show ?case by (rule Relinks_trans)
qed

lemma RelinkNbrs_Relinks:
  "set RIs \<subseteq> S \<Longrightarrow> set Nbrs \<subseteq> S \<Longrightarrow> RelinkNbrs E ToCutIdx RIs Nbrs St = Some St' \<Longrightarrow> Relinks S St St'"
proof (induction Nbrs arbitrary: St)
  case Nil
  then show ?case by (simp add: Relinks_same)
next
  case (Cons Nbr Nbrs)
  let ?St0 = "St \<lparr>ProximityLinks := ProxUnlink (ProximityLinks St) ToCutIdx Nbr\<rparr>"
  from Cons.prems(3) obtain St1 St2 where
    h: "HashMeshVertices ?St0 Nbr = Some St1"
    and l: "LinkResults E Nbr RIs St1 = Some St2"
    and r: "RelinkNbrs E ToCutIdx RIs Nbrs St2 = Some St'"
    by (auto simp: bind_eq_Some_conv)
  have "Relinks S St ?St0" by (rule Relinks_unlink)
  moreover have "Relinks S ?St0 St1" by (rule Relinks_frame [OF HashMeshVertices_frame [OF h]])
  moreover have "Relinks S St1 St2"
    using LinkResults_Relinks [OF Cons.prems(1) _ l] Cons.prems(2) by simp
  moreover have "Relinks S St2 St'"
    using Cons.IH [OF Cons.prems(1) _ r] Cons.prems(2) by simp
  ultimately show ?case by (blast intro: Relinks_trans)
qed

lemma array_get_in_set: "array_get xs i = Some x \<Longrightarrow> x \<in> set xs"
  by (auto simp: array_get_def split: if_splits)

lemma LinkSeconds_Relinks:
  "set RIs \<subseteq> S \<Longrightarrow> LinkSeconds E RIs PIs iFirst FirstParent Seconds St = Some St' \<Longrightarrow> Relinks S St St'"
proof (induction Seconds arbitrary: St)
  case Nil
  then show ?case by (simp add: Relinks_same)
next
  case (Cons iSecond Seconds)
  from Cons.prems(2) obtain SecondParent St1 where
    a: "(if FirstParent = SecondParent then Some St
          else do {
            A \<leftarrow> array_get RIs (int iFirst);
            B \<leftarrow> array_get RIs (int iSecond);
            b \<leftarrow> IsNeighbor E St A B;
            Some (if b then St \<lparr>ProximityLinks := ProxLink (ProximityLinks St) A B\<rparr> else St)
          }) = Some St1"
    and r: "LinkSeconds E RIs PIs iFirst FirstParent Seconds St1 = Some St'"
    by (auto simp: bind_eq_Some_conv)
  from a Cons.prems(1) have "Relinks S St St1"
    by (auto simp: bind_eq_Some_conv Relinks_same split: if_splits
        intro!: Relinks_link dest!: array_get_in_set)
  moreover from Cons.IH [OF Cons.prems(1) r] have "Relinks S St1 St'" .
  ultimately show ?case by (rule Relinks_trans)
qed

lemma LinkFirsts_Relinks:
  "set RIs \<subseteq> S \<Longrightarrow> LinkFirsts E RIs PIs Firsts St = Some St' \<Longrightarrow> Relinks S St St'"
proof (induction Firsts arbitrary: St)
  case Nil
  then show ?case by (simp add: Relinks_same)
next
  case (Cons iFirst Firsts)
  from Cons.prems(2) obtain FirstParent St1 where
    a: "LinkSeconds E RIs PIs iFirst FirstParent [iFirst + 1..<length RIs] St = Some St1"
    and r: "LinkFirsts E RIs PIs Firsts St1 = Some St'"
    by (auto simp: bind_eq_Some_conv)
  from LinkSeconds_Relinks [OF Cons.prems(1) a] Cons.IH [OF Cons.prems(1) r]
  show ?case by (rule Relinks_trans)
qed

lemma UpdateProximityLinks_Relinks:
  assumes "UpdateProximityLinks E ToCutIdx RIs PIs St0 = Some St'"
  shows "Relinks (set RIs \<union> snd ` set (ProximityLinks St0)) St0 St'"
proof -
  let ?S = "set RIs \<union> snd ` set (ProximityLinks St0)"
  from assms obtain St1 St2 where
    c: "ClearHash St0 ToCutIdx = Some St1"
    and n: "(if length (MultiFind (ProximityLinks St1) ToCutIdx) > 0
             then do { St' \<leftarrow> HashAll RIs St1;
                       RelinkNbrs E ToCutIdx RIs (MultiFind (ProximityLinks St1) ToCutIdx) St' }
             else Some St1) = Some St2"
    and f: "(if length RIs = 2
             then do { A \<leftarrow> array_get RIs 0; B \<leftarrow> array_get RIs 1;
                       Some (St2 \<lparr>ProximityLinks := ProxLink (ProximityLinks St2) A B\<rparr>) }
             else do { St \<leftarrow> (if length (MultiFind (ProximityLinks St1) ToCutIdx) = 0
                              then HashAll RIs St2 else Some St2);
                       LinkFirsts E RIs PIs [0..<length RIs - 1] St }) = Some St'"
    by (auto simp: UpdateProximityLinks_def bind_eq_Some_conv Let_def)
  from ClearHash_frame [OF c] have 1: "Relinks ?S St0 St1" by (rule Relinks_frame)
  from ClearHash_frame [OF c] have nb: "set (MultiFind (ProximityLinks St1) ToCutIdx) \<subseteq> ?S"
    using MultiFind_subset [of "ProximityLinks St0" ToCutIdx] by auto
  have 2: "Relinks ?S St1 St2"
  proof (cases "length (MultiFind (ProximityLinks St1) ToCutIdx) > 0")
    case True
    with n obtain Sth where h: "HashAll RIs St1 = Some Sth"
      and r: "RelinkNbrs E ToCutIdx RIs (MultiFind (ProximityLinks St1) ToCutIdx) Sth = Some St2"
      by (auto simp: bind_eq_Some_conv)
    from Relinks_frame [OF HashAll_frame [OF h]] RelinkNbrs_Relinks [OF _ nb r]
    show ?thesis by (auto intro: Relinks_trans)
  next
    case False
    with n show ?thesis by (simp add: Relinks_same)
  qed
  have 3: "Relinks ?S St2 St'"
  proof (cases "length RIs = 2")
    case True
    with f obtain A B where "array_get RIs 0 = Some A" "array_get RIs 1 = Some B"
      "St' = St2 \<lparr>ProximityLinks := ProxLink (ProximityLinks St2) A B\<rparr>"
      by (auto simp: bind_eq_Some_conv)
    then show ?thesis by (auto intro!: Relinks_link dest!: array_get_in_set)
  next
    case False
    with f obtain Sth where
      h: "(if length (MultiFind (ProximityLinks St1) ToCutIdx) = 0 then HashAll RIs St2 else Some St2) = Some Sth"
      and l: "LinkFirsts E RIs PIs [0..<length RIs - 1] Sth = Some St'"
      by (auto simp: bind_eq_Some_conv)
    from h have "Relinks ?S St2 Sth"
      by (auto split: if_splits intro: Relinks_same Relinks_frame [OF HashAll_frame])
    moreover from LinkFirsts_Relinks [OF _ l] have "Relinks ?S Sth St'" by simp
    ultimately show ?thesis by (rule Relinks_trans)
  qed
  from 1 2 3 show ?thesis by (blast intro: Relinks_trans)
qed

lemma SplitKept_refl: "SplitKept t Cut RIs Cut RIs"
  by (simp add: SplitKept_def)

lemma SplitKept_trans:
  assumes 1: "SplitKept t Cut0 RIs0 Cut1 RIs1" and 2: "SplitKept t Cut1 RIs1 Cut2 RIs2"
  shows "SplitKept t Cut0 RIs0 Cut2 RIs2"
  unfolding SplitKept_def
proof (intro conjI allI impI)
  from 1 2 show "length Cut0 \<le> length Cut2" by (simp add: SplitKept_def)
next
  fix j assume j: "j < length Cut0" "int j \<notin> set RIs0"
  with 1 have a: "Cut1 ! j = Cut0 ! j" "int j \<notin> set RIs1" "j < length Cut1"
    by (auto simp: SplitKept_def)
  with 2 have "Cut2 ! j = Cut1 ! j" by (simp add: SplitKept_def)
  with a show "Cut2 ! j = Cut0 ! j" by simp
next
  fix j assume j: "j < length Cut0"
  with 1 have a: "MeshTransformIndex (Cut1 ! j) = MeshTransformIndex (Cut0 ! j)" "j < length Cut1"
    by (auto simp: SplitKept_def)
  with 2 show "MeshTransformIndex (Cut2 ! j) = MeshTransformIndex (Cut0 ! j)"
    by (simp add: SplitKept_def)
next
  fix j assume j: "length Cut0 \<le> j \<and> j < length Cut2"
  show "MeshTransformIndex (Cut2 ! j) = t"
  proof (cases "j < length Cut1")
    case True
    with 2 have "MeshTransformIndex (Cut2 ! j) = MeshTransformIndex (Cut1 ! j)"
      by (simp add: SplitKept_def)
    with 1 True j show ?thesis by (simp add: SplitKept_def)
  next
    case False
    with 2 j show ?thesis by (simp add: SplitKept_def)
  qed
next
  from 1 2 show "set RIs2 \<subseteq> set RIs0 \<union> {int (length Cut0)..<int (length Cut2)}"
    by (fastforce simp: SplitKept_def)
qed

lemma SplitResult_kept:
  assumes "SplitResult E t F (Cut0, RIs0, PIs0) u = Some (Cut, RIs, PIs)"
  shows "SplitKept t Cut0 RIs0 Cut RIs"
proof -
  from assms obtain Idx D where
    i: "array_get RIs0 (int u) = Some Idx" and d: "array_get Cut0 Idx = Some D"
    and r: "(case SplitIslands E (AugMesh D) of
          None \<Rightarrow> Some (Cut0, RIs0, PIs0)
        | Some SplitMeshes \<Rightarrow>
            do {
              M0 \<leftarrow> array_get SplitMeshes 0;
              Cut' \<leftarrow> array_set Cut0 Idx (D \<lparr>AugMesh := M0\<rparr>);
              let Others = drop 1 SplitMeshes;
              Some (Cut' @ map (\<lambda>M. \<lparr>AugMesh = M, MeshTransformIndex = t, FromCollection = F\<rparr>) Others,
                    RIs0 @ map int [length Cut'..<length Cut' + length Others],
                    PIs0 @ replicate (length Others) (int u))
            }) = Some (Cut, RIs, PIs)"
    by (auto simp: SplitResult_def bind_eq_Some_conv)
  show ?thesis
  proof (cases "SplitIslands E (AugMesh D)")
    case None
    with r show ?thesis by (simp add: SplitKept_refl)
  next
    case (Some SplitMeshes)
    from d have D: "0 \<le> Idx" "nat Idx < length Cut0" "D = Cut0 ! nat Idx"
      by (auto simp: array_get_def split: if_splits)
    from i have m: "Idx \<in> set RIs0" by (rule array_get_in_set)
    from r Some obtain M0 where
      C: "Cut = Cut0 [nat Idx := D \<lparr>AugMesh := M0\<rparr>] @
            map (\<lambda>M. \<lparr>AugMesh = M, MeshTransformIndex = t, FromCollection = F\<rparr>) (drop 1 SplitMeshes)"
      and R: "RIs = RIs0 @ map int [length Cut0..<length Cut0 + length (drop 1 SplitMeshes)]"
      by (auto simp: bind_eq_Some_conv array_set_def Let_def split: if_splits)
    show ?thesis
      unfolding SplitKept_def
    proof (intro conjI allI impI)
      show "length Cut0 \<le> length Cut" by (simp add: C)
    next
      fix j assume "j < length Cut0" "int j \<notin> set RIs0"
      with m D have "j \<noteq> nat Idx" by auto
      with \<open>j < length Cut0\<close> show "Cut ! j = Cut0 ! j" by (simp add: C nth_append)
    next
      fix j assume "j < length Cut0"
      then show "MeshTransformIndex (Cut ! j) = MeshTransformIndex (Cut0 ! j)"
        using D by (cases "j = nat Idx") (simp_all add: C nth_append)
    next
      fix j assume "length Cut0 \<le> j \<and> j < length Cut"
      then have "\<not> j < length Cut0" "j - length Cut0 < length (drop 1 SplitMeshes)"
        by (auto simp: C)
      then show "MeshTransformIndex (Cut ! j) = t"
        unfolding C by (simp only: nth_append length_list_update if_False nth_map) simp
    next
      show "set RIs \<subseteq> set RIs0 \<union> {int (length Cut0)..<int (length Cut)}"
        by (auto simp: R C)
    qed
  qed
qed

lemma SplitResults_kept:
  "SplitResults E t F us (Cut0, RIs0, PIs0) = Some (Cut, RIs, PIs) \<Longrightarrow> SplitKept t Cut0 RIs0 Cut RIs"
proof (induction us arbitrary: Cut0 RIs0 PIs0)
  case Nil
  then show ?case by (simp add: SplitKept_refl)
next
  case (Cons u us)
  from Cons.prems obtain Cut1 RIs1 PIs1 where
    a: "SplitResult E t F (Cut0, RIs0, PIs0) u = Some (Cut1, RIs1, PIs1)"
    and r: "SplitResults E t F us (Cut1, RIs1, PIs1) = Some (Cut, RIs, PIs)"
    by (auto simp: bind_eq_Some_conv)
  from SplitResult_kept [OF a] Cons.IH [OF r] show ?case by (rule SplitKept_trans)
qed

lemma CutPiece_cases:
  fixes E :: "('x, 'b) Engine"
  assumes r: "CutPiece E Ops bP Plane Cells St ToCutIdx = Some St'"
  shows "St' = St \<or>
     (PlaneAABBIntersection Ops Plane (AugMesh (ToCut St ! ToCutIdx)) \<and>
      PlaneBoolResults E Cells (AugMesh (ToCut St ! ToCutIdx)) \<noteq> None \<and> WasCut ToCutIdx St St')"
proof -
  from r obtain Surface where s: "array_get (ToCut St) (int ToCutIdx) = Some Surface"
    by (auto simp: CutPiece_def bind_eq_Some_conv)
  then have S: "ToCutIdx < length (ToCut St)" "Surface = ToCut St ! ToCutIdx"
    by (auto simp: array_get_def split: if_splits)
  show ?thesis
  proof (cases "PlaneAABBIntersection Ops Plane (AugMesh Surface) \<and>
      PlaneBoolResults E Cells (AugMesh Surface) \<noteq> None")
    case False
    with r s have "St' = St"
      by (cases "PlaneBoolResults E Cells (AugMesh Surface)")
        (auto simp: CutPiece_def bind_eq_Some_conv check_def split: if_splits)
    then show ?thesis ..
  next
    case True
    then obtain R0 R1 where b: "PlaneBoolResults E Cells (AugMesh Surface) = Some (R0, R1)" by auto
    let ?Cut0 = "(ToCut St) [ToCutIdx := Surface \<lparr>AugMesh := R0\<rparr>] @ [Surface \<lparr>AugMesh := R1\<rparr>]"
    let ?RIs0 = "[int ToCutIdx, int (length (ToCut St))]"
    from r s True b obtain Cut RIs PIs where
      sp: "SplitResults E (MeshTransformIndex Surface) (FromCollection Surface) [0, 1]
             (?Cut0, ?RIs0, [0, 1]) = Some (Cut, RIs, PIs)"
      and u: "(if bP then UpdateProximityLinks E (int ToCutIdx) RIs PIs (St \<lparr>ToCut := Cut\<rparr>)
               else Some (St \<lparr>ToCut := Cut\<rparr>)) = Some St'"
      by (auto simp: CutPiece_def bind_eq_Some_conv check_def Let_def split: if_splits)
    from SplitResults_kept [OF sp] have k: "SplitKept (MeshTransformIndex Surface) ?Cut0 ?RIs0 Cut RIs" .
    let ?S = "{int ToCutIdx} \<union> {int (length (ToCut St))..} \<union> snd ` set (ProximityLinks St)"
    from k have ri: "set RIs \<subseteq> ?S" by (auto simp: SplitKept_def)
    have rel: "ToCut St' = Cut \<and> Relinked ?S (ProximityLinks St) (ProximityLinks St')"
    proof (cases bP)
      case False
      with u show ?thesis by (auto simp: Relinked_same)
    next
      case True
      with u have "UpdateProximityLinks E (int ToCutIdx) RIs PIs (St \<lparr>ToCut := Cut\<rparr>) = Some St'" by simp
      from UpdateProximityLinks_Relinks [OF this]
      have "ToCut St' = Cut" "Relinked (set RIs \<union> snd ` set (ProximityLinks St)) (ProximityLinks St) (ProximityLinks St')"
        by (simp_all add: Relinks_def)
      with ri show ?thesis by (auto intro: Relinked_mono)
    qed
    have "WasCut ToCutIdx St St'"
      unfolding WasCut_def
    proof (intro conjI allI impI)
      show "ToCutIdx < length (ToCut St)" by (rule S(1))
      from k rel show "length (ToCut St) < length (ToCut St')" by (simp add: SplitKept_def)
      from rel show "Relinked ?S (ProximityLinks St) (ProximityLinks St')" by simp
    next
      fix j assume j: "j < length (ToCut St)" "j \<noteq> ToCutIdx"
      then have "j < length ?Cut0" "int j \<notin> set ?RIs0" by auto
      with k have "Cut ! j = ?Cut0 ! j" unfolding SplitKept_def by blast
      with j rel show "ToCut St' ! j = ToCut St ! j" by (simp add: nth_append)
    next
      fix j assume j: "j < length (ToCut St')" "j = ToCutIdx \<or> length (ToCut St) \<le> j"
      have "MeshTransformIndex (Cut ! j) = MeshTransformIndex Surface"
      proof (cases "j < length ?Cut0")
        case True
        with k have "MeshTransformIndex (Cut ! j) = MeshTransformIndex (?Cut0 ! j)"
          unfolding SplitKept_def by blast
        also from j(2) True S(1) have "\<dots> = MeshTransformIndex Surface"
          by (auto simp: nth_append)
        finally show ?thesis .
      next
        case False
        with k j(1) rel show ?thesis unfolding SplitKept_def by auto
      qed
      with rel S(2) show "MeshTransformIndex (ToCut St' ! j) = MeshTransformIndex (ToCut St ! ToCutIdx)"
        by simp
    qed
    with True S(2) show ?thesis by simp
  qed
qed

subsection \<open>Symmetry of the proximity\<close>

lemma CutPieces_preserves:
  assumes step: "\<And>St i St'. I St \<Longrightarrow> CutPiece E Ops bP Plane Cells St i = Some St' \<Longrightarrow> I St'"
  shows "I St \<Longrightarrow> CutPieces E Ops bP Plane Cells Idxs St = Some St' \<Longrightarrow> I St'"
proof (induction Idxs arbitrary: St)
  case Nil
  then show ?case by simp
next
  case (Cons i Idxs)
  from Cons.prems(2) obtain St1 where
    a: "CutPiece E Ops bP Plane Cells St i = Some St1"
    and b: "CutPieces E Ops bP Plane Cells Idxs St1 = Some St'"
    by (auto simp: bind_eq_Some_conv)
  from step [OF Cons.prems(1) a] have "I St1" .
  from Cons.IH [OF this b] show ?case .
qed

lemma CutPlanes_preserves:
  assumes step: "\<And>Plane St i St'. Plane \<in> set Planes \<Longrightarrow> I St \<Longrightarrow>
      CutPiece E Ops bP Plane (PlaneCellMeshes Ops Plane) St i = Some St' \<Longrightarrow> I St'"
  shows "I St \<Longrightarrow> CutPlanes E Ops bP Planes St = Some St' \<Longrightarrow> I St'"
  using step
proof (induction Planes arbitrary: St)
  case Nil
  then show ?case by simp
next
  case (Cons Plane Planes)
  from Cons.prems(2) obtain St1 where
    a: "CutPieces E Ops bP Plane (PlaneCellMeshes Ops Plane) [0..<length (ToCut St)] St = Some St1"
    and b: "CutPlanes E Ops bP Planes St1 = Some St'"
    by (auto simp: bind_eq_Some_conv)
  have "I St1"
    by (rule CutPieces_preserves [where I = I, OF _ Cons.prems(1) a]) (rule Cons.prems(3), simp_all)
  show ?case
  proof (rule Cons.IH [OF \<open>I St1\<close> b])
    fix P St i St'
    assume "P \<in> set Planes" "I St" "CutPiece E Ops bP P (PlaneCellMeshes Ops P) St i = Some St'"
    then show "I St'" using Cons.prems(3) [of P St i St'] by simp
  qed
qed

lemma CutPiece_SymmetricLinks:
  assumes "SymmetricLinks (ProximityLinks St)" and "CutPiece E Ops bP Plane Cells St i = Some St'"
  shows "SymmetricLinks (ProximityLinks St')"
  using CutPiece_cases [OF assms(2)] assms(1)
  by (auto simp: WasCut_def dest: SymmetricLinks_Relinked)

lemma CutPlanes_SymmetricLinks:
  assumes "CutPlanes E Ops bP Planes \<lparr>ToCut = Meshes, VerticesHashes = [], ProximityLinks = []\<rparr> = Some St"
  shows "SymmetricLinks (ProximityLinks St)"
proof (rule CutPlanes_preserves [where I = "\<lambda>St. SymmetricLinks (ProximityLinks St)", OF _ _ assms])
  show "SymmetricLinks (ProximityLinks \<lparr>ToCut = Meshes, VerticesHashes = [], ProximityLinks = []\<rparr>)"
    by (simp add: SymmetricLinks_def)
qed (rule CutPiece_SymmetricLinks)

lemma CopyVertices_Proximity:
  "CopyVertices E F M L b vs t VIDs C = Some C' \<Longrightarrow> Proximity C' = Proximity C"
proof (induction VIDs arbitrary: C)
  case Nil
  then show ?case by simp
next
  case (Cons VID VIDs)
  from Cons.prems obtain C1 where a: "CopyVertex E F M L b vs t C VID = Some C1"
    and r: "CopyVertices E F M L b vs t VIDs C1 = Some C'"
    by (auto simp: bind_eq_Some_conv)
  from a have "Proximity C1 = Proximity C"
    by (auto simp: CopyVertex_def bind_eq_Some_conv Let_def)
  with Cons.IH [OF r] show ?case by simp
qed

lemma CopyTriangles_Proximity:
  "CopyTriangles M I fs vs TIDs C = Some C' \<Longrightarrow> Proximity C' = Proximity C"
proof (induction TIDs arbitrary: C)
  case Nil
  then show ?case by simp
next
  case (Cons TID TIDs)
  from Cons.prems obtain C1 where a: "CopyTriangle M I fs vs C TID = Some C1"
    and r: "CopyTriangles M I fs vs TIDs C1 = Some C'"
    by (auto simp: bind_eq_Some_conv)
  from a have "Proximity C1 = Proximity C"
    by (auto simp: CopyTriangle_def bind_eq_Some_conv Let_def)
  with Cons.IH [OF r] show ?case by simp
qed

lemma UpdateBoundingBox_Proximity:
  "UpdateBoundingBox E g Idxs C = Some C' \<Longrightarrow> Proximity C' = Proximity C"
  by (auto simp: UpdateBoundingBox_def bind_eq_Some_conv split: if_splits)

lemma UpdateCollection_Proximity:
  assumes k: "\<forall>n. KeepsProximity (SetNumUVLayers E n)"
    and r: "UpdateCollection E F M g C I = Some (b, M', C')"
  shows "Proximity C' = Proximity C"
proof -
  from k have s: "Proximity (SetNumUVLayers E n C) = Proximity C" for n
    by (simp add: KeepsProximity_def)
  from r show ?thesis
    by (auto simp: UpdateCollection_def bind_eq_Some_conv Let_def s split: if_splits
        dest!: CopyVertices_Proximity CopyTriangles_Proximity UpdateBoundingBox_Proximity)
qed

lemma UpdateMeshes_Proximity:
  assumes k: "\<forall>n. KeepsProximity (SetNumUVLayers E n)"
  shows "UpdateMeshes E Meshes (b, Done, C) = Some (b', Done', C') \<Longrightarrow> Proximity C' = Proximity C"
proof (induction Meshes arbitrary: b Done C)
  case Nil
  then show ?case by simp
next
  case (Cons MeshData Meshes)
  from Cons.prems obtain g b1 M1 C1 where
    u: "UpdateCollection E (FromCollection MeshData) (AugMesh MeshData) g C (- 1) = Some (b1, M1, C1)"
    and r: "UpdateMeshes E Meshes (b \<and> b1, Done @ [MeshData \<lparr>AugMesh := M1\<rparr>], C1) = Some (b', Done', C')"
    by (auto simp: bind_eq_Some_conv)
  from UpdateCollection_Proximity [OF k u] Cons.IH [OF r] show ?case by simp
qed

lemma UpdateAllCollections_Proximity:
  assumes k: "\<forall>n. KeepsProximity (SetNumUVLayers E n)"
    and z: "\<forall>NewFaceCounts NewVertexCounts.
         KeepsProximity (\<lambda>C. ResizeGeometries X C NewFaceCounts NewVertexCounts)"
    and r: "UpdateAllCollections E X Meshes C = Some (b, Meshes', C')"
  shows "Proximity C' = Proximity C"
proof -
  from r obtain fc vc where
    "UpdateMeshes E Meshes (True, [], ResizeGeometries X C fc vc) = Some (b, Meshes', C')"
    by (auto simp: UpdateAllCollections_def bind_eq_Some_conv Let_def)
  from UpdateMeshes_Proximity [OF k this] z show ?thesis
    by (simp add: KeepsProximity_def)
qed

lemma ReparentChildren_Proximity:
  assumes p: "\<forall>TransformIdx Cs. KeepsProximity (\<lambda>C. ParentTransforms X C TransformIdx Cs)"
  shows "ReparentChildren X Groups C = Some C' \<Longrightarrow> Proximity C' = Proximity C"
proof (induction Groups arbitrary: C)
  case Nil
  then show ?case by simp
next
  case (Cons Group Groups)
  show ?case
  proof (cases "IsValidGroup Group")
    case False
    with Cons.prems Cons.IH [of C] show ?thesis by simp
  next
    case True
    with Cons.prems obtain t Cs where
      r: "ReparentChildren X Groups
            (if \<exists>S \<in> set Cs. S \<noteq> {} then ParentTransforms X C t Cs else C) = Some C'"
      by (auto simp: bind_eq_Some_conv)
    from Cons.IH [OF r] p show ?thesis
      by (simp add: KeepsProximity_def split: if_splits)
  qed
qed

lemma MergeBones_symmetric:
  fixes E :: "('x, 'b) Engine"
  assumes m: "MergeOperationsSymmetric E X"
    and r: "MergeBones E B X C TransformIndices Volumes MinVolume Small bUnion Method = Some (r, C')"
  shows "\<exists>P'. Proximity C' = Some P' \<and> SymmetricProximity P'"
proof -
  from m have u: "\<exists>P. Proximity (UpdateProximity X C) = Some P \<and> SymmetricProximity P"
    and k: "\<forall>n. KeepsProximity (SetNumUVLayers E n)"
    and z: "\<forall>NewFaceCounts NewVertexCounts.
         KeepsProximity (\<lambda>C. ResizeGeometries X C NewFaceCounts NewVertexCounts)"
    and p: "\<forall>TransformIdx Cs. KeepsProximity (\<lambda>C. ParentTransforms X C TransformIdx Cs)"
    and e: "\<And>G Idxs C P. Proximity C = Some P \<Longrightarrow> SymmetricProximity P \<Longrightarrow>
         \<exists>P'. Proximity (RemoveElements X G Idxs C) = Some P' \<and> SymmetricProximity P'"
    by (simp_all add: MergeOperationsSymmetric_def)
  let ?C = "UpdateProximity X C"
  let ?T = "if length TransformIndices = 0
              then map int [0..<length (TransformToGeometryIndex ?C)] else TransformIndices"
  show ?thesis
  proof (cases "length ?T \<noteq> length Volumes")
    case True
    with r have "C' = ?C"
      by (auto simp: MergeBones_def bind_eq_Some_conv Let_def split: if_splits)
    with u show ?thesis by simp
  next
    case False
    with r have "\<exists>(Joined :: 'x FMeshData list) b (Ms :: 'x FMeshData list) C1 C2 Idxs Rm.
        UpdateAllCollections E X Joined ?C = Some (b, Ms, C1) \<and>
        ReparentChildren X Idxs C1 = Some C2 \<and> C' = RemoveElements X TransformGroup Rm C2"
      by (fastforce simp: MergeBones_def bind_eq_Some_conv Let_def split: if_splits)
    then obtain Joined :: "'x FMeshData list" and b and Ms :: "'x FMeshData list" and C1 C2 Idxs where
      a: "UpdateAllCollections E X Joined ?C = Some (b, Ms, C1)"
      and c: "ReparentChildren X Idxs C1 = Some C2"
      and C': "\<exists>Rm. C' = RemoveElements X TransformGroup Rm C2"
      by blast
    from UpdateAllCollections_Proximity [OF k z a] ReparentChildren_Proximity [OF p c]
    have "Proximity C2 = Proximity ?C" by simp
    with u obtain P where "Proximity C2 = Some P" "SymmetricProximity P" by auto
    from e [OF this] C' show ?thesis by auto
  qed
qed

lemma CutWithCellMeshes_symmetric:
  fixes E :: "('x, 'b) Engine"
  assumes al: "Aligned C" and p: "Proximity C = Some P0" and s: "SymmetricProximity P0"
    and r: "CutWithCellMeshes E Meshes IM Conn Cells C Sp = Some (r, C')"
  shows "\<exists>P'. Proximity C' = Some P' \<and> SymmetricProximity P'"
proof -
  from p s have q: "case Proximity C of None \<Rightarrow> True | Some P \<Rightarrow> SymmetricProximity P" by simp
  have "\<exists>C1 V. CutInv SymmetricProximity (length (FaceStart C)) C C1 r \<and> C' = C1 \<lparr>Visible := V\<rparr> \<and>
         length V = length (Visible C1)"
    by (rule CutWithCellMeshes_CutInv [where Q = SymmetricProximity, OF _ _ al q r])
      (auto intro: SymmetricProximity_append SymmetricProximity_AddBoth)
  then obtain C1 V where i: "CutInv SymmetricProximity (length (FaceStart C)) C C1 r"
    and c: "C' = C1 \<lparr>Visible := V\<rparr>"
    by auto
  from i p obtain P' where "Proximity C1 = Some P'" "SymmetricProximity P'"
    by (cases "Proximity C1") (auto simp: CutInv_def Grown_def)
  with c show ?thesis by simp
qed

lemma CutWithMultiplePlanes_symmetric:
  fixes E :: "('x, 'b) Engine"
  assumes al: "Aligned C" and p: "Proximity C = Some P0" and s: "SymmetricProximity P0"
    and r: "CutWithMultiplePlanes E Ops Meshes Planes Grout Sp C IM = Some (r2, C2)"
  shows "\<exists>P'. Proximity C2 = Some P' \<and> SymmetricProximity P'"
proof (cases "Grout > 0")
  case True
  with r have "CutWithCellMeshes E Meshes IM [(0, - 1)]
           \<lparr>CellMeshes = [GroutMeshOf Ops Planes Grout, GroutMeshOf Ops Planes Grout],
            OutsideCellIndex = 1, NumUVLayers = 1\<rparr> C Sp = Some (r2, C2)"
    by (simp add: CutWithMultiplePlanes_def)
  from CutWithCellMeshes_symmetric [OF al p s this] show ?thesis .
next
  case False
  from p s have q: "case Proximity C of None \<Rightarrow> True | Some P \<Rightarrow> SymmetricProximity P" by simp
  have "\<exists>St (A :: ('x, 'b) AppendLoop) P' V.
         CutPlanes E Ops (Proximity C \<noteq> None) Planes \<lparr>ToCut = Meshes, VerticesHashes = [], ProximityLinks = []\<rparr>
           = Some St \<and>
         CutInv SymmetricProximity (length (FaceStart C)) C (OutColl A) r2 \<and>
         (case Proximity (OutColl A) of None \<Rightarrow> P' = None
          | Some P \<Rightarrow> \<exists>P1. P' = Some P1 \<and>
               PopulateProximity (ToCutIdxToGeometryIdx A) (ProximityLinks St) P = Some P1) \<and>
         C2 = (OutColl A) \<lparr>Proximity := P', Visible := V\<rparr> \<and> length V = length (Visible (OutColl A))"
    by (rule CutWithMultiplePlanes_parts [where Q = SymmetricProximity, OF _ al q False r])
      (rule SymmetricProximity_append)
  then obtain St' and A :: "('x, 'b) AppendLoop" and P' V where
    st: "CutPlanes E Ops (Proximity C \<noteq> None) Planes
           \<lparr>ToCut = Meshes, VerticesHashes = [], ProximityLinks = []\<rparr> = Some St'"
    and i: "CutInv SymmetricProximity (length (FaceStart C)) C (OutColl A) r2"
    and pp: "case Proximity (OutColl A) of None \<Rightarrow> P' = None
          | Some P \<Rightarrow> \<exists>P1. P' = Some P1 \<and>
               PopulateProximity (ToCutIdxToGeometryIdx A) (ProximityLinks St') P = Some P1"
    and c: "C2 = (OutColl A) \<lparr>Proximity := P', Visible := V\<rparr>"
    by blast
  from i p obtain Pa where a: "Proximity (OutColl A) = Some Pa" "SymmetricProximity Pa"
    by (cases "Proximity (OutColl A)") (auto simp: CutInv_def Grown_def)
  with pp obtain P1 where p1: "P' = Some P1"
    "PopulateProximity (ToCutIdxToGeometryIdx A) (ProximityLinks St') Pa = Some P1"
    by auto
  from SymmetricProximity_Populate [OF a(2) CutPlanes_SymmetricLinks [OF st] p1(2)] p1(1) c
  show ?thesis by simp
qed

lemma SymmetricProximity_replicate: "SymmetricProximity (replicate n {})"
  by (auto simp: SymmetricProximity_def ProxOf_def)

lemma Proximity_at_boundary:
  assumes "Proximity C = None \<or> (\<exists>P0. Proximity C = Some P0 \<and> SymmetricProximity P0)"
  shows "\<exists>P. Proximity (if Proximity C = None then AddProximityAttribute C else C) = Some P \<and>
             SymmetricProximity P"
  using assms by (auto simp: AddProximityAttribute_def SymmetricProximity_replicate)

lemma CutMultipleWithPlanarCells_symmetric:
  fixes E :: "('x, 'b) Engine"
  assumes al: "Aligned C"
    and s: "Proximity C = None \<or> (\<exists>P0. Proximity C = Some P0 \<and> SymmetricProximity P0)"
    and k: "KeepsProximity (ReindexMaterials B)"
    and r: "CutMultipleWithPlanarCells E B Cells C TransformIndices Grout Sp TC bOutside bSet = Some (r, C')"
  shows "\<exists>P'. Proximity C' = Some P' \<and> SymmetricProximity P'"
proof -
  let ?C = "if Proximity C = None then AddProximityAttribute C else C"
  from r obtain Meshes IM Conn Cut C1 where
    c: "CutWithCellMeshes E Meshes IM Conn Cut ?C Sp = Some (r, C1)"
    and C': "C' = ReindexMaterials B C1"
    by (auto simp: CutMultipleWithPlanarCells_def bind_eq_Some_conv Let_def)
  from Proximity_at_boundary [OF s] obtain P where "Proximity ?C = Some P" "SymmetricProximity P"
    by blast
  from CutWithCellMeshes_symmetric [OF Aligned_with_Proximity [OF al] this c] k
  show ?thesis unfolding C' by (simp add: KeepsProximity_def)
qed

lemma CutMultipleWithMultiplePlanes_symmetric:
  fixes E :: "('x, 'b) Engine"
  assumes al: "Aligned C"
    and s: "Proximity C = None \<or> (\<exists>P0. Proximity C = Some P0 \<and> SymmetricProximity P0)"
    and k: "KeepsProximity (ReindexMaterials B)"
    and r: "CutMultipleWithMultiplePlanes E B Planes Materials C TransformIndices Grout Sp TC bSet = Some (r, C')"
  shows "\<exists>P'. Proximity C' = Some P' \<and> SymmetricProximity P'"
proof -
  let ?C = "if Proximity C = None then AddProximityAttribute C else C"
  from r obtain Ops Meshes IM C1 where
    c: "CutWithMultiplePlanes E Ops Meshes Planes Grout Sp ?C IM = Some (r, C1)"
    and C': "C' = ReindexMaterials B C1"
    by (auto simp: CutMultipleWithMultiplePlanes_def bind_eq_Some_conv Let_def)
  from Proximity_at_boundary [OF s] obtain P where "Proximity ?C = Some P" "SymmetricProximity P"
    by blast
  from CutWithMultiplePlanes_symmetric [OF Aligned_with_Proximity [OF al] this c] k
  show ?thesis unfolding C' by (simp add: KeepsProximity_def)
qed

lemma CutWithMesh_symmetric:
  fixes E :: "('x, 'b) Engine"
  assumes al: "Aligned C"
    and s: "Proximity C = None \<or> (\<exists>P0. Proximity C = Some P0 \<and> SymmetricProximity P0)"
    and k: "KeepsProximity (ReindexMaterials B)"
    and r: "CutWithMesh E B CuttingMesh T Materials C TransformIndices Sp TC bSet = Some (r, C')"
  shows "\<exists>P'. Proximity C' = Some P' \<and> SymmetricProximity P'"
proof -
  let ?C = "if Proximity C = None then AddProximityAttribute C else C"
  from r obtain Meshes IM Conn Cut C1 where
    c: "CutWithCellMeshes E Meshes IM Conn Cut ?C Sp = Some (r, C1)"
    and C': "C' = ReindexMaterials B C1"
    by (auto simp: CutWithMesh_def bind_eq_Some_conv Let_def)
  from Proximity_at_boundary [OF s] obtain P where "Proximity ?C = Some P" "SymmetricProximity P"
    by blast
  from CutWithCellMeshes_symmetric [OF Aligned_with_Proximity [OF al] this c] k
  show ?thesis unfolding C' by (simp add: KeepsProximity_def)
qed

text \<open>
  C3.  \<open>ProxLink\<close> and \<open>ProxUnlink\<close> keep the multimap of the multi-plane cut symmetric
  (every pair is held as often as its mirror image), so it is symmetric when the loop
  over the planes ends; a link written in both directions keeps the \<open>Proximity\<close> sets
  symmetric.  On a collection whose columns have the length of their group and whose
  \<open>Proximity\<close> sets are symmetric, the sets are symmetric again whenever
  \<open>CutWithCellMeshes\<close> or \<open>CutWithMultiplePlanes\<close> (with or without grout) returns: for all
  \<open>A\<close> and \<open>B\<close>, \<open>B\<close> is in the set of \<open>A\<close> exactly if \<open>A\<close> is in the set of \<open>B\<close>.  The same
  holds of the three cutting operations at the boundary, which add the column with empty
  sets when it is missing, when \<open>ReindexMaterials\<close> keeps the column.  \<open>MergeBones\<close> writes
  no set itself: it calls \<open>UpdateProximity\<close>, rewrites the vertices and faces of the
  merge targets (\<open>UpdateAllCollections\<close>), gives the children a new parent and removes
  the merged transforms; the sets are symmetric whenever it returns, provided the
  operations that it calls outside the translated files do their part
  (\<open>MergeOperationsSymmetric\<close>).
\<close>

theorem Proximity_stays_symmetric:
  fixes E :: "('x, 'b) Engine" and B :: "('x, 'b, 'p, 'c, 'm, 'd) Boundary"
  shows
    "(SymmetricLinks L \<longrightarrow> SymmetricLinks (ProxLink L A B') \<and> SymmetricLinks (ProxUnlink L A B')) \<and>
     (CutPlanes E Ops bP Planes \<lparr>ToCut = Meshes, VerticesHashes = [], ProximityLinks = []\<rparr> = Some St \<longrightarrow>
        SymmetricLinks (ProximityLinks St)) \<and>
     (SymmetricProximity P \<and> ProximityAddBoth P A B' = Some P1 \<longrightarrow> SymmetricProximity P1) \<and>
     (Aligned C \<and> Proximity C = Some P0 \<and> SymmetricProximity P0 \<and>
      CutWithCellMeshes E Meshes IM Conn Cells C Sp = Some (r, C') \<longrightarrow>
        (\<exists>P'. Proximity C' = Some P' \<and> SymmetricProximity P')) \<and>
     (Aligned C \<and> Proximity C = Some P0 \<and> SymmetricProximity P0 \<and>
      CutWithMultiplePlanes E Ops Meshes Planes Grout Sp C IM = Some (r2, C2) \<longrightarrow>
        (\<exists>P'. Proximity C2 = Some P' \<and> SymmetricProximity P')) \<and>
     (Aligned C \<and> (Proximity C = None \<or> (\<exists>P0. Proximity C = Some P0 \<and> SymmetricProximity P0)) \<and>
      KeepsProximity (ReindexMaterials B) \<and>
      CutMultipleWithPlanarCells E B PlanarCells C TransformIndices Grout Sp TC bOutside bSet = Some (r3, C3) \<longrightarrow>
        (\<exists>P'. Proximity C3 = Some P' \<and> SymmetricProximity P')) \<and>
     (Aligned C \<and> (Proximity C = None \<or> (\<exists>P0. Proximity C = Some P0 \<and> SymmetricProximity P0)) \<and>
      KeepsProximity (ReindexMaterials B) \<and>
      CutMultipleWithMultiplePlanes E B Planes Materials C TransformIndices Grout Sp TC bSet = Some (r4, C4) \<longrightarrow>
        (\<exists>P'. Proximity C4 = Some P' \<and> SymmetricProximity P')) \<and>
     (Aligned C \<and> (Proximity C = None \<or> (\<exists>P0. Proximity C = Some P0 \<and> SymmetricProximity P0)) \<and>
      KeepsProximity (ReindexMaterials B) \<and>
      CutWithMesh E B CuttingMesh T Materials C TransformIndices Sp TC bSet = Some (r5, C5) \<longrightarrow>
        (\<exists>P'. Proximity C5 = Some P' \<and> SymmetricProximity P')) \<and>
     (MergeOperationsSymmetric E X \<and>
      MergeBones E B X C TransformIndices Volumes MinVolume Small bUnion Method = Some (r6, C6) \<longrightarrow>
        (\<exists>P'. Proximity C6 = Some P' \<and> SymmetricProximity P'))"
proof (intro conjI impI)
  assume "SymmetricLinks L"
  then show "SymmetricLinks (ProxLink L A B')" "SymmetricLinks (ProxUnlink L A B')"
    by (rule SymmetricLinks_ProxLink, rule SymmetricLinks_ProxUnlink)
next
  assume "CutPlanes E Ops bP Planes \<lparr>ToCut = Meshes, VerticesHashes = [], ProximityLinks = []\<rparr> = Some St"
  then show "SymmetricLinks (ProximityLinks St)" by (rule CutPlanes_SymmetricLinks)
next
  assume "SymmetricProximity P \<and> ProximityAddBoth P A B' = Some P1"
  then show "SymmetricProximity P1" by (blast intro: SymmetricProximity_AddBoth)
next
  assume "Aligned C \<and> Proximity C = Some P0 \<and> SymmetricProximity P0 \<and>
    CutWithCellMeshes E Meshes IM Conn Cells C Sp = Some (r, C')"
  then show "\<exists>P'. Proximity C' = Some P' \<and> SymmetricProximity P'"
    using CutWithCellMeshes_symmetric [of C P0 E Meshes IM Conn Cells Sp r C'] by blast
next
  assume "Aligned C \<and> Proximity C = Some P0 \<and> SymmetricProximity P0 \<and>
    CutWithMultiplePlanes E Ops Meshes Planes Grout Sp C IM = Some (r2, C2)"
  then show "\<exists>P'. Proximity C2 = Some P' \<and> SymmetricProximity P'"
    using CutWithMultiplePlanes_symmetric [of C P0 E Ops Meshes Planes Grout Sp IM r2 C2] by blast
next
  assume "Aligned C \<and> (Proximity C = None \<or> (\<exists>P0. Proximity C = Some P0 \<and> SymmetricProximity P0)) \<and>
      KeepsProximity (ReindexMaterials B) \<and>
      CutMultipleWithPlanarCells E B PlanarCells C TransformIndices Grout Sp TC bOutside bSet = Some (r3, C3)"
  then show "\<exists>P'. Proximity C3 = Some P' \<and> SymmetricProximity P'"
    using CutMultipleWithPlanarCells_symmetric [of C B E PlanarCells TransformIndices Grout Sp TC bOutside bSet r3 C3]
    by blast
next
  assume "Aligned C \<and> (Proximity C = None \<or> (\<exists>P0. Proximity C = Some P0 \<and> SymmetricProximity P0)) \<and>
      KeepsProximity (ReindexMaterials B) \<and>
      CutMultipleWithMultiplePlanes E B Planes Materials C TransformIndices Grout Sp TC bSet = Some (r4, C4)"
  then show "\<exists>P'. Proximity C4 = Some P' \<and> SymmetricProximity P'"
    using CutMultipleWithMultiplePlanes_symmetric [of C B E Planes Materials TransformIndices Grout Sp TC bSet r4 C4]
    by blast
next
  assume "Aligned C \<and> (Proximity C = None \<or> (\<exists>P0. Proximity C = Some P0 \<and> SymmetricProximity P0)) \<and>
      KeepsProximity (ReindexMaterials B) \<and>
      CutWithMesh E B CuttingMesh T Materials C TransformIndices Sp TC bSet = Some (r5, C5)"
  then show "\<exists>P'. Proximity C5 = Some P' \<and> SymmetricProximity P'"
    using CutWithMesh_symmetric [of C B E CuttingMesh T Materials TransformIndices Sp TC bSet r5 C5]
    by blast
next
  assume "MergeOperationsSymmetric E X \<and>
      MergeBones E B X C TransformIndices Volumes MinVolume Small bUnion Method = Some (r6, C6)"
  then show "\<exists>P'. Proximity C6 = Some P' \<and> SymmetricProximity P'"
    using MergeBones_symmetric [of E X B C TransformIndices Volumes MinVolume Small bUnion Method r6 C6]
    by blast
qed

lemma Example_cut_cells_proximity:
  "map_option (\<lambda>(r, C). (r, Proximity C))
     (CutWithCellMeshes ExampleEngine [ExampleTarget] (Some 7) [(0, 1)] ExampleCells (OneGeometry 3) 0)
     = Some (1, Some [{}, {2}, {1}])"
  by code_simp

lemma Example_cut_planes_proximity:
  "map_option (\<lambda>(r, C). (r, Proximity C))
     (CutWithMultiplePlanes ExampleEngine ExamplePlaneOps [ExampleTarget] [True] 0 0 (OneGeometry 3) (Some 7))
     = Some (1, Some [{}, {2}, {1}])"
  by code_simp

lemma Example_cut_planes_links:
  "map_option ProximityLinks
     (CutPlanes ExampleEngine ExamplePlaneOps True [True]
        \<lparr>ToCut = [ExampleTarget], VerticesHashes = [], ProximityLinks = []\<rparr>)
     = Some [(0, 1), (1, 0)]"
  by code_simp

lemma Example_boundary_cells_proximity:
  "map_option (\<lambda>(r, C). (r, Proximity C))
     (CutMultipleWithPlanarCells ExampleEngine ExampleBoundary () (OneGeometry 3) [0] 0 0 None True False)
     = Some (1, Some [{}, {2}, {1}])"
  by code_simp

lemma Example_boundary_planes_proximity:
  "map_option (\<lambda>(r, C). (r, Proximity C))
     (CutMultipleWithMultiplePlanes ExampleEngine ExampleBoundary [True] () (OneGeometry 3) [0] 0 0 None False)
     = Some (1, Some [{}, {2}, {1}])"
  by code_simp

lemma Example_boundary_mesh_proximity:
  "map_option (\<lambda>(r, C). (r, Proximity C))
     (CutWithMesh ExampleEngine ExampleBoundary () () () (OneGeometry 3) [0] 0 None False)
     = Some (1, Some [{}, {2}, {1}])"
  by code_simp

lemma Example_merge_proximity:
  "map_option (\<lambda>(r, C). (r, Proximity C))
     (MergeBones ExampleEngine ExampleBoundary ExampleMergeOps (OneGeometry 3) [0] [1] 1 [] False LargestNeighbor)
     = Some (- 1, Some [{}])"
  by code_simp

lemma Example_merge_operations: "MergeOperationsSymmetric ExampleEngine ExampleMergeOps"
  by (simp add: MergeOperationsSymmetric_def KeepsProximity_def ExampleMergeOps_def ExampleEngine_def
      SymmetricProximity_replicate)

theorem Proximity_stays_symmetric_witness:
  "SymmetricLinks [] \<and> SymmetricLinks (ProxLink [] 0 1) \<and> SymmetricLinks (ProxUnlink [] 0 1) \<and>
   (\<exists>St. CutPlanes ExampleEngine ExamplePlaneOps True [True]
            \<lparr>ToCut = [ExampleTarget], VerticesHashes = [], ProximityLinks = []\<rparr> = Some St \<and>
         ProximityLinks St = [(0, 1), (1, 0)] \<and> SymmetricLinks [(0, 1), (1, 0)]) \<and>
   SymmetricProximity [{}, {}] \<and> ProximityAddBoth [{}, {}] 0 1 = Some [{1}, {0}] \<and>
   SymmetricProximity [{1}, {0}] \<and>
   Aligned (OneGeometry 3) \<and> Proximity (OneGeometry 3) = Some [{}] \<and> SymmetricProximity [{}] \<and>
   (\<exists>C'. CutWithCellMeshes ExampleEngine [ExampleTarget] (Some 7) [(0, 1)] ExampleCells (OneGeometry 3) 0
            = Some (1, C') \<and>
          Proximity C' = Some [{}, {2}, {1}] \<and> SymmetricProximity [{}, {2}, {1}]) \<and>
   (\<exists>C2. CutWithMultiplePlanes ExampleEngine ExamplePlaneOps [ExampleTarget] [True] 0 0 (OneGeometry 3) (Some 7)
            = Some (1, C2) \<and>
          Proximity C2 = Some [{}, {2}, {1}]) \<and>
   KeepsProximity (ReindexMaterials ExampleBoundary) \<and>
   (\<exists>C3. CutMultipleWithPlanarCells ExampleEngine ExampleBoundary () (OneGeometry 3) [0] 0 0 None True False
            = Some (1, C3) \<and> Proximity C3 = Some [{}, {2}, {1}]) \<and>
   (\<exists>C4. CutMultipleWithMultiplePlanes ExampleEngine ExampleBoundary [True] () (OneGeometry 3) [0] 0 0 None False
            = Some (1, C4) \<and> Proximity C4 = Some [{}, {2}, {1}]) \<and>
   (\<exists>C5. CutWithMesh ExampleEngine ExampleBoundary () () () (OneGeometry 3) [0] 0 None False
            = Some (1, C5) \<and> Proximity C5 = Some [{}, {2}, {1}]) \<and>
   MergeOperationsSymmetric ExampleEngine ExampleMergeOps \<and>
   (\<exists>C6. MergeBones ExampleEngine ExampleBoundary ExampleMergeOps (OneGeometry 3) [0] [1] 1 [] False
            LargestNeighbor = Some (- 1, C6) \<and> Proximity C6 = Some [{}])"
proof -
  have l: "SymmetricLinks []" by (simp add: SymmetricLinks_def)
  have e: "SymmetricProximity [{}, {}]" "SymmetricProximity [{}]"
    using SymmetricProximity_replicate [of 2] SymmetricProximity_replicate [of 1]
    by (simp_all add: numeral_2_eq_2)
  have a: "ProximityAddBoth [{}, {}] 0 1 = Some [{1}, {0}]"
    by (simp add: ProximityAddBoth_def ProximityAdd_def array_get_def array_set_def)
  have al: "Aligned (OneGeometry 3)" by (simp add: Aligned_def OneGeometry_def)
  have p: "Proximity (OneGeometry 3) = Some [{}]" by (simp add: OneGeometry_def)
  have k: "KeepsProximity (ReindexMaterials ExampleBoundary)"
    by (simp add: KeepsProximity_def ExampleBoundary_def)
  note m = Example_merge_operations
  from Example_cut_planes_links obtain St where
    st: "CutPlanes ExampleEngine ExamplePlaneOps True [True]
           \<lparr>ToCut = [ExampleTarget], VerticesHashes = [], ProximityLinks = []\<rparr> = Some St"
      "ProximityLinks St = [(0, 1), (1, 0)]"
    by auto
  from Example_cut_cells_proximity obtain C' where
    c: "CutWithCellMeshes ExampleEngine [ExampleTarget] (Some 7) [(0, 1)] ExampleCells (OneGeometry 3) 0
          = Some (1, C')" "Proximity C' = Some [{}, {2}, {1}]"
    by auto
  from Example_cut_planes_proximity obtain C2 where
    c2: "CutWithMultiplePlanes ExampleEngine ExamplePlaneOps [ExampleTarget] [True] 0 0 (OneGeometry 3) (Some 7)
          = Some (1, C2)" "Proximity C2 = Some [{}, {2}, {1}]"
    by auto
  from Example_boundary_cells_proximity obtain C3 where
    c3: "CutMultipleWithPlanarCells ExampleEngine ExampleBoundary () (OneGeometry 3) [0] 0 0 None True False
          = Some (1, C3)" "Proximity C3 = Some [{}, {2}, {1}]"
    by auto
  from Example_boundary_planes_proximity obtain C4 where
    c4: "CutMultipleWithMultiplePlanes ExampleEngine ExampleBoundary [True] () (OneGeometry 3) [0] 0 0 None False
          = Some (1, C4)" "Proximity C4 = Some [{}, {2}, {1}]"
    by auto
  from Example_boundary_mesh_proximity obtain C5 where
    c5: "CutWithMesh ExampleEngine ExampleBoundary () () () (OneGeometry 3) [0] 0 None False
          = Some (1, C5)" "Proximity C5 = Some [{}, {2}, {1}]"
    by auto
  from Example_merge_proximity obtain C6 where
    c6: "MergeBones ExampleEngine ExampleBoundary ExampleMergeOps (OneGeometry 3) [0] [1] 1 [] False
          LargestNeighbor = Some (- 1, C6)" "Proximity C6 = Some [{}]"
    by auto
  from Proximity_stays_symmetric [where L = "[]" and A = 0 and B' = 1 and E = ExampleEngine
      and Ops = ExamplePlaneOps and bP = True and Planes = "[True]" and Meshes = "[ExampleTarget]"
      and St = St and P = "[{}, {}]" and ?P1.0 = "[{1}, {0}]" and C = "OneGeometry 3" and ?P0.0 = "[{}]"
      and IM = "Some 7" and Conn = "[(0, 1)]" and Cells = ExampleCells and Sp = 0 and r = 1 and C' = C'
      and Grout = 0 and ?r2.0 = 1 and ?C2.0 = C2 and B = ExampleBoundary and PlanarCells = "()"
      and TransformIndices = "[0]" and TC = None and bOutside = True and bSet = False
      and ?r3.0 = 1 and ?C3.0 = C3 and Materials = "()" and ?r4.0 = 1 and ?C4.0 = C4
      and CuttingMesh = "()" and T = "()" and ?r5.0 = 1 and ?C5.0 = C5 and X = ExampleMergeOps
      and Volumes = "[1]" and MinVolume = 1 and Small = "[]" and bUnion = False
      and Method = LargestNeighbor and ?r6.0 = "- 1" and ?C6.0 = C6]
    l e a al p k m st c c2 c3 c4 c5 c6
  show ?thesis by simp
qed

end
